(* ===== verification/Prelude.thy ===== *)
theory Prelude
  imports Main "HOL-Library.Sublist"
begin

text \<open>
  Shared vocabulary of the development. The service code is asynchronous JavaScript whose
  every step may throw; it is modelled in an exception-state monad: a computation takes a
  state and returns a result, \<open>Inl\<close> of the thrown error or \<open>Inr\<close> of the value, with the
  new state. \<open>await\<close> becomes \<open>ebind\<close>, \<open>throw\<close> becomes \<open>ethrow\<close>, \<open>try \<dots> catch\<close>
  becomes \<open>ecatch\<close>. The state of an error is kept, since a failed read of a response body
  still consumes it. The theory also holds the string search the code uses
  (\<open>String.prototype.includes\<close>) with its equivalence to the library's \<open>sublist\<close>.
\<close>

named_theorems st_simps "evaluation rules of the exception-state monad"

type_synonym ('s, 'e, 'a) st = "'s \<Rightarrow> ('e + 'a) \<times> 's"

definition eret :: "'a \<Rightarrow> ('s, 'e, 'a) st" where
  "eret x = (\<lambda>s. (Inr x, s))"

definition ethrow :: "'e \<Rightarrow> ('s, 'e, 'a) st" where
  "ethrow e = (\<lambda>s. (Inl e, s))"

definition ebind :: "('s, 'e, 'a) st \<Rightarrow> ('a \<Rightarrow> ('s, 'e, 'b) st) \<Rightarrow> ('s, 'e, 'b) st" where
  "ebind m f = (\<lambda>s. case m s of (Inl e, s') \<Rightarrow> (Inl e, s') | (Inr a, s') \<Rightarrow> f a s')"

definition ecatch :: "('s, 'e, 'a) st \<Rightarrow> ('e \<Rightarrow> ('s, 'e, 'a) st) \<Rightarrow> ('s, 'e, 'a) st" where
  "ecatch m h = (\<lambda>s. case m s of (Inl e, s') \<Rightarrow> h e s' | (Inr a, s') \<Rightarrow> (Inr a, s'))"

text \<open>Reading the state, and lifting a pure result that may be an error.\<close>

definition eget :: "('s, 'e, 's) st" where
  "eget = (\<lambda>s. (Inr s, s))"

definition elift :: "'e + 'a \<Rightarrow> ('s, 'e, 'a) st" where
  "elift r = (\<lambda>s. (r, s))"

subsection \<open>Evaluation rules\<close>

lemma eret_apply [st_simps]: "eret x s = (Inr x, s)"
  by (simp add: eret_def)

lemma ethrow_apply [st_simps]: "ethrow e s = (Inl e, s)"
  by (simp add: ethrow_def)

lemma eget_apply [st_simps]: "eget s = (Inr s, s)"
  by (simp add: eget_def)

lemma elift_apply [st_simps]: "elift r s = (r, s)"
  by (simp add: elift_def)

lemma ebind_apply [st_simps]:
  "ebind m f s = (case m s of (Inl e, s') \<Rightarrow> (Inl e, s') | (Inr a, s') \<Rightarrow> f a s')"
  by (simp add: ebind_def)

lemma ecatch_apply [st_simps]:
  "ecatch m h s = (case m s of (Inl e, s') \<Rightarrow> h e s' | (Inr a, s') \<Rightarrow> (Inr a, s'))"
  by (simp add: ecatch_def)

subsection \<open>Monad laws\<close>

lemma ebind_eret_left [simp]: "ebind (eret x) f = f x"
  by (simp add: fun_eq_iff st_simps)

lemma ebind_eret_right [simp]: "ebind m eret = m"
  by (rule ext) (simp add: st_simps split: prod.splits sum.splits)

lemma ebind_ethrow [simp]: "ebind (ethrow e) f = ethrow e"
  by (simp add: fun_eq_iff st_simps)

lemma ebind_assoc: "ebind (ebind m f) g = ebind m (\<lambda>x. ebind (f x) g)"
  by (rule ext) (simp add: st_simps split: prod.splits sum.splits)

lemma ecatch_eret [simp]: "ecatch (eret x) h = eret x"
  by (simp add: fun_eq_iff st_simps)

lemma ecatch_ethrow [simp]: "ecatch (ethrow e) h = h e"
  by (simp add: fun_eq_iff st_simps)

text \<open>A handler that only rethrows (the code's log-and-rethrow blocks) changes nothing.\<close>

lemma ecatch_rethrow [simp]: "ecatch m ethrow = m"
  by (rule ext) (simp add: st_simps split: prod.splits sum.splits)

subsection \<open>Substring search\<close>

text \<open>
  \<open>String.prototype.includes\<close> (ECMA-262 \<section>22.1.3.8): is there a position \<open>k\<close> at
  which the needle occurs; the empty needle occurs everywhere. Scanned from the left.
\<close>

fun str_includes :: "string \<Rightarrow> string \<Rightarrow> bool" where
  "str_includes n [] = (n = [])"
| "str_includes n (c # cs) = (prefix n (c # cs) \<or> str_includes n cs)"

text \<open>The scan decides the library's \<open>sublist\<close> relation.\<close>

lemma str_includes_sublist: "str_includes n h \<longleftrightarrow> sublist n h"
  by (induction h) (simp_all add: sublist_Cons_right)

end
