(* ===== verification/JsValue.thy ===== *)
theory JsValue
  imports Prelude
begin

text \<open>
  The JavaScript values the service handles: what \<open>JSON.parse\<close> returns, what an object
  literal builds, and \<open>undefined\<close>. Numbers are kept as integers (HTTP status codes,
  array lengths, task ids); objects are association lists in property-creation order.
  The operations are the parts of ECMA-262 the service's expressions evaluate:
  truthiness (for \<open>||\<close> and \<open>if\<close>), \<open>ToString\<close> (for template literals and
  \<open>new Error(x)\<close>), property reads (\<open>errorData.message\<close>, \<open>health.healthy\<close>,
  \<open>tasks.length\<close>, which throw a \<open>TypeError\<close> on \<open>null\<close> and \<open>undefined\<close>), property
  creation in object literals and object spread (\<open>{healthy: true, ...health}\<close>).
  The errors the code can throw or meet are \<open>js_error\<close>; \<open>error.message\<close> reads their
  message.
\<close>

datatype jsval =
    JUndef
  | JNull
  | JBool bool
  | JNum int
  | JStr string
  | JArr "jsval list"
  | JObj "(string \<times> jsval) list"

datatype js_error =
    Error string
  | TypeError string
  | SyntaxError string

primrec err_message :: "js_error \<Rightarrow> string" where
  "err_message (Error m) = m"
| "err_message (TypeError m) = m"
| "err_message (SyntaxError m) = m"

subsection \<open>Truthiness and the \<open>||\<close> operator\<close>

text \<open>ToBoolean (ECMA-262 \<section>7.1.2); numbers are integers here, so \<open>NaN\<close> does not occur.\<close>

fun js_truthy :: "jsval \<Rightarrow> bool" where
  "js_truthy JUndef = False"
| "js_truthy JNull = False"
| "js_truthy (JBool b) = b"
| "js_truthy (JNum n) = (n \<noteq> 0)"
| "js_truthy (JStr s) = (s \<noteq> [])"
| "js_truthy (JArr xs) = True"
| "js_truthy (JObj ps) = True"

text \<open>\<open>a || b\<close>: the left operand if it is truthy, else the right one.\<close>

definition js_or :: "jsval \<Rightarrow> jsval \<Rightarrow> jsval" where
  "js_or a b = (if js_truthy a then a else b)"

subsection \<open>ToString\<close>

definition digit_char :: "nat \<Rightarrow> char" where
  "digit_char d = ''0123456789'' ! d"

text \<open>Decimal notation of a natural number, most significant digit first.\<close>

fun nat_to_str :: "nat \<Rightarrow> string" where
  "nat_to_str n = (if n < 10 then [digit_char n] else nat_to_str (n div 10) @ [digit_char (n mod 10)])"

declare nat_to_str.simps [simp del]

definition int_to_str :: "int \<Rightarrow> string" where
  "int_to_str i = (if i < 0 then CHR ''-'' # nat_to_str (nat (- i)) else nat_to_str (nat i))"

text \<open>\<open>Array.prototype.join\<close> with the default separator.\<close>

fun join_comma :: "string list \<Rightarrow> string" where
  "join_comma [] = []"
| "join_comma [s] = s"
| "join_comma (s # ss) = s @ CHR '','' # join_comma ss"

text \<open>
  ToString (ECMA-262 \<section>7.1.17). An array converts through \<open>join\<close>, whose elements
  \<open>null\<close> and \<open>undefined\<close> become empty; a plain object through
  \<open>Object.prototype.toString\<close>.
\<close>

fun js_to_string :: "jsval \<Rightarrow> string" where
  "js_to_string JUndef = ''undefined''"
| "js_to_string JNull = ''null''"
| "js_to_string (JBool b) = (if b then ''true'' else ''false'')"
| "js_to_string (JNum n) = int_to_str n"
| "js_to_string (JStr s) = s"
| "js_to_string (JArr xs) =
     join_comma (map (\<lambda>x. if x = JUndef \<or> x = JNull then [] else js_to_string x) xs)"
| "js_to_string (JObj ps) = ''[object Object]''"

subsection \<open>Property access\<close>

text \<open>
  The text of the \<open>TypeError\<close> a property read of \<open>null\<close> or \<open>undefined\<close> throws
  (engine wording, V8's).
\<close>

definition null_access_message :: "jsval \<Rightarrow> string \<Rightarrow> string" where
  "null_access_message v k =
     ''Cannot read properties of '' @ js_to_string v @ '' (reading '' @ [CHR 0x27] @ k @ [CHR 0x27, CHR '')'']"

text \<open>
  Canonical array index of a property key: the decimal numeral of a natural number, no
  leading zeros (ECMA-262 \<section>6.1.7).
\<close>

definition index_key :: "string \<Rightarrow> nat option" where
  "index_key k = (if k \<noteq> [] \<and> (\<forall>c \<in> set k. c \<in> set ''0123456789'')
                    \<and> (k = ''0'' \<or> hd k \<noteq> CHR ''0'')
                  then Some (foldl (\<lambda>n c. 10 * n + (of_char c - 48)) 0 k) else None)"

text \<open>
  \<open>v[k]\<close> for the own properties of the values JSON and object literals produce:
  object keys, array and string indices and \<open>length\<close>. Inherited methods are not
  modelled; none of the keys the service reads names one.
\<close>

fun js_get :: "jsval \<Rightarrow> string \<Rightarrow> js_error + jsval" where
  "js_get JUndef k = Inl (TypeError (null_access_message JUndef k))"
| "js_get JNull k = Inl (TypeError (null_access_message JNull k))"
| "js_get (JObj ps) k = Inr (case map_of ps k of Some v \<Rightarrow> v | None \<Rightarrow> JUndef)"
| "js_get (JArr xs) k =
     Inr (if k = ''length'' then JNum (int (length xs))
          else case index_key k of
                 Some i \<Rightarrow> if i < length xs then xs ! i else JUndef
               | None \<Rightarrow> JUndef)"
| "js_get (JStr s) k =
     Inr (if k = ''length'' then JNum (int (length s))
          else case index_key k of
                 Some i \<Rightarrow> if i < length s then JStr [s ! i] else JUndef
               | None \<Rightarrow> JUndef)"
| "js_get (JBool b) k = Inr JUndef"
| "js_get (JNum n) k = Inr JUndef"

subsection \<open>Object literals and spread\<close>

text \<open>
  CreateDataProperty on an ordinary object: an existing key keeps its position and takes
  the new value, a new key is appended.
\<close>

fun obj_set :: "(string \<times> jsval) list \<Rightarrow> string \<Rightarrow> jsval \<Rightarrow> (string \<times> jsval) list" where
  "obj_set [] k v = [(k, v)]"
| "obj_set ((k', v') # ps) k v = (if k' = k then (k, v) # ps else (k', v') # obj_set ps k v)"

definition obj_set_all :: "(string \<times> jsval) list \<Rightarrow> (string \<times> jsval) list \<Rightarrow> (string \<times> jsval) list" where
  "obj_set_all ps qs = foldl (\<lambda>acc (k, v). obj_set acc k v) ps qs"

text \<open>
  \<open>{...ps, ...v}\<close>: CopyDataProperties (ECMA-262 \<section>7.3.25) of the own enumerable
  properties of \<open>v\<close> onto the object \<open>ps\<close>. \<open>null\<close>, \<open>undefined\<close>, booleans
  and numbers have none; arrays and strings have their indices.
\<close>

fun js_spread :: "(string \<times> jsval) list \<Rightarrow> jsval \<Rightarrow> (string \<times> jsval) list" where
  "js_spread ps (JObj qs) = obj_set_all ps qs"
| "js_spread ps (JArr xs) = obj_set_all ps (map (\<lambda>i. (nat_to_str i, xs ! i)) [0..<length xs])"
| "js_spread ps (JStr s) = obj_set_all ps (map (\<lambda>i. (nat_to_str i, JStr [s ! i])) [0..<length s])"
| "js_spread ps v = ps"

text \<open>
  \<open>s.substring(start, end)\<close> for non-negative arguments (ECMA-262 \<section>22.1.3.25):
  both clamped to the length, the smaller one the start.
\<close>

definition js_substring :: "string \<Rightarrow> nat \<Rightarrow> nat \<Rightarrow> string" where
  "js_substring s a b =
     (let n = length s; i = min a n; j = min b n in take (max i j - min i j) (drop (min i j) s))"

subsection \<open>Objects: lookup after creation, keys after spread\<close>

lemma map_of_obj_set [simp]: "map_of (obj_set ps k v) = (map_of ps)(k \<mapsto> v)"
  by (induction ps) (auto simp: fun_eq_iff)

lemma keys_obj_set [simp]: "fst ` set (obj_set ps k v) = insert k (fst ` set ps)"
  by (induction ps k v rule: obj_set.induct) auto

lemma distinct_obj_set: "distinct (map fst ps) \<Longrightarrow> distinct (map fst (obj_set ps k v))"
  by (induction ps k v rule: obj_set.induct) auto

lemma obj_set_all_Cons [simp]: "obj_set_all ps ((k, v) # qs) = obj_set_all (obj_set ps k v) qs"
  by (simp add: obj_set_all_def)

lemma obj_set_all_Nil [simp]: "obj_set_all ps [] = ps"
  by (simp add: obj_set_all_def)

text \<open>Later properties win: the last occurrence of a key among the copied ones.\<close>

lemma map_of_obj_set_all: "map_of (obj_set_all ps qs) = map_of ps ++ map_of (rev qs)"
proof (induction qs arbitrary: ps)
  case Nil
  then show ?case by simp
next
  case (Cons q qs)
  obtain k v where q: "q = (k, v)" by (cases q)
  have "map_of (obj_set_all ps (q # qs)) = map_of (obj_set ps k v) ++ map_of (rev qs)"
    using Cons.IH [of "obj_set ps k v"] by (simp only: q obj_set_all_Cons)
  also have "\<dots> = map_of ps ++ map_of (rev (q # qs))"
    by (simp add: q fun_eq_iff map_add_def split: option.splits)
  finally show ?case .
qed

lemma keys_obj_set_all [simp]: "fst ` set (obj_set_all ps qs) = fst ` set ps \<union> fst ` set qs"
proof (induction qs arbitrary: ps)
  case Nil
  then show ?case by simp
next
  case (Cons q qs)
  obtain k v where q: "q = (k, v)" by (cases q)
  then show ?case using Cons.IH [of "obj_set ps k v"] by auto
qed

lemma keys_js_spread: "fst ` set ps \<subseteq> fst ` set (js_spread ps v)"
  by (cases v) auto

lemma distinct_obj_set_all: "distinct (map fst ps) \<Longrightarrow> distinct (map fst (obj_set_all ps qs))"
proof (induction qs arbitrary: ps)
  case Nil
  then show ?case by simp
next
  case (Cons q qs)
  obtain k v where q: "q = (k, v)" by (cases q)
  with Cons show ?case by (simp add: distinct_obj_set)
qed

lemma distinct_js_spread: "distinct (map fst ps) \<Longrightarrow> distinct (map fst (js_spread ps v))"
  by (cases v) (simp_all add: distinct_obj_set_all)

subsection \<open>Decimal notation read back as an index\<close>

lemma digit_char_digit: "d < 10 \<Longrightarrow> digit_char d \<in> set ''0123456789''"
  unfolding digit_char_def by (rule nth_mem) simp

lemma of_char_digit_char: "d < 10 \<Longrightarrow> of_char (digit_char d) - 48 = d"
  by (auto simp: digit_char_def less_Suc_eq numeral_eq_Suc)

lemma digit_char_zero_iff: "d < 10 \<Longrightarrow> digit_char d = CHR ''0'' \<longleftrightarrow> d = 0"
  by (auto simp: digit_char_def less_Suc_eq numeral_eq_Suc)

lemma nat_to_str_small: "n < 10 \<Longrightarrow> nat_to_str n = [digit_char n]"
  by (simp add: nat_to_str.simps)

lemma nat_to_str_large: "\<not> n < 10 \<Longrightarrow> nat_to_str n = nat_to_str (n div 10) @ [digit_char (n mod 10)]"
  by (subst nat_to_str.simps) simp

lemma nat_to_str_digits: "set (nat_to_str n) \<subseteq> set ''0123456789''"
proof (induction n rule: nat_to_str.induct)
  case (1 n)
  show ?case
  proof (cases "n < 10")
    case True
    then show ?thesis using digit_char_digit by (simp add: nat_to_str_small)
  next
    case False
    with "1.IH" show ?thesis using digit_char_digit [of "n mod 10"] by (simp add: nat_to_str_large)
  qed
qed

lemma nat_to_str_ne: "nat_to_str n \<noteq> []"
  by (cases "n < 10") (simp_all add: nat_to_str_small nat_to_str_large)

lemma nat_to_str_hd: "0 < n \<Longrightarrow> hd (nat_to_str n) \<noteq> CHR ''0''"
proof (induction n rule: nat_to_str.induct)
  case (1 n)
  show ?case
  proof (cases "n < 10")
    case True
    with "1.prems" show ?thesis by (simp add: nat_to_str_small digit_char_zero_iff)
  next
    case False
    then have "0 < n div 10" by simp
    with "1.IH" False show ?thesis by (simp add: nat_to_str_large nat_to_str_ne)
  qed
qed

lemma nat_to_str_value: "foldl (\<lambda>n c. 10 * n + (of_char c - 48)) 0 (nat_to_str n) = n"
proof (induction n rule: nat_to_str.induct)
  case (1 n)
  show ?case
  proof (cases "n < 10")
    case True
    then show ?thesis by (simp add: nat_to_str_small of_char_digit_char)
  next
    case False
    with "1.IH" show ?thesis by (simp add: nat_to_str_large of_char_digit_char)
  qed
qed

text \<open>The decimal numeral of \<open>n\<close> is the canonical index \<open>n\<close>.\<close>

lemma index_key_nat_to_str: "index_key (nat_to_str n) = Some n"
proof -
  have z: "nat_to_str n = ''0'' \<or> hd (nat_to_str n) \<noteq> CHR ''0''"
    by (cases "n = 0") (simp_all add: nat_to_str_small digit_char_def nat_to_str_hd)
  have cond: "nat_to_str n \<noteq> [] \<and> (\<forall>c \<in> set (nat_to_str n). c \<in> set ''0123456789'')
              \<and> (nat_to_str n = ''0'' \<or> hd (nat_to_str n) \<noteq> CHR ''0'')"
    using nat_to_str_digits [of n] nat_to_str_ne [of n] z by blast
  have "index_key (nat_to_str n) = Some (foldl (\<lambda>n c. 10 * n + (of_char c - 48)) 0 (nat_to_str n))"
    unfolding index_key_def using cond by (rule if_P)
  then show ?thesis by (simp only: nat_to_str_value)
qed
lemma nat_to_str_inj: "inj nat_to_str"
proof (rule injI)
  fix a b :: nat
  assume "nat_to_str a = nat_to_str b"
  then have "index_key (nat_to_str a) = index_key (nat_to_str b)" by simp
  then show "a = b" by (simp add: index_key_nat_to_str)
qed

lemma map_of_map_inj:
  assumes "inj f" "i \<in> set L"
  shows "map_of (map (\<lambda>j. (f j, g j)) L) (f i) = Some (g i)"
  using assms(2)
proof (induction L)
  case Nil
  then show ?case by simp
next
  case (Cons a L)
  then show ?case using injD [OF assms(1)] by auto
qed

subsection \<open>Substrings\<close>

lemma js_substring_prefix: "js_substring s 0 k = take k s"
  by (simp add: js_substring_def Let_def min_def)

end
