(* ===== verification/Console.thy ===== *)
theory Console
  imports JsValue
begin

text \<open>
  The browser console as the service writes to it. Every \<open>console.log\<close> and
  \<open>console.error\<close> call of the source appends one record: its level and its arguments,
  each a value or an error object (\<open>console.error('...', error)\<close>). The first argument of
  every call is a string literal that starts with an emoji; strings are byte strings, so
  each emoji is written as its UTF-8 encoding, and \<open>lbl e s\<close> is the literal
  \<open>e\<close>, a space, then \<open>s\<close>.
\<close>

datatype log_level = Log | Err

datatype log_arg = AVal jsval | AErr js_error

type_synonym log_entry = "log_level \<times> log_arg list"

definition wrench :: string where
  "wrench = [CHR 0xF0, CHR 0x9F, CHR 0x94, CHR 0xA7]"

definition satellite :: string where
  "satellite = [CHR 0xF0, CHR 0x9F, CHR 0x93, CHR 0xA1]"

definition cross_mark :: string where
  "cross_mark = [CHR 0xE2, CHR 0x9D, CHR 0x8C]"

definition check_mark :: string where
  "check_mark = [CHR 0xE2, CHR 0x9C, CHR 0x85]"

definition memo :: string where
  "memo = [CHR 0xF0, CHR 0x9F, CHR 0x93, CHR 0x9D]"

definition wastebasket :: string where
  "wastebasket = [CHR 0xF0, CHR 0x9F, CHR 0x97, CHR 0x91, CHR 0xEF, CHR 0xB8, CHR 0x8F]"

definition hospital :: string where
  "hospital = [CHR 0xF0, CHR 0x9F, CHR 0x8F, CHR 0xA5]"

definition rocket :: string where
  "rocket = [CHR 0xF0, CHR 0x9F, CHR 0x9A, CHR 0x80]"

definition magnifier :: string where
  "magnifier = [CHR 0xF0, CHR 0x9F, CHR 0x94, CHR 0x8D]"

definition lbl :: "string \<Rightarrow> string \<Rightarrow> log_arg" where
  "lbl e s = AVal (JStr (e @ CHR '' '' # s))"

lemmas emoji_defs = wrench_def satellite_def cross_mark_def check_mark_def memo_def
  wastebasket_def hospital_def rocket_def magnifier_def

text \<open>Two labels are equal exactly when their emoji and their texts are, for the emoji above.\<close>

lemma lbl_eq_iff:
  assumes "e \<in> {wrench, satellite, cross_mark, check_mark, memo, wastebasket, hospital, rocket, magnifier}"
    and "e' \<in> {wrench, satellite, cross_mark, check_mark, memo, wastebasket, hospital, rocket, magnifier}"
  shows "lbl e s = lbl e' s' \<longleftrightarrow> e = e' \<and> s = s'"
  using assms by (auto simp: lbl_def emoji_defs)

end
