(* ===== verification/Fetch.thy ===== *)
theory Fetch
  imports Console
begin

text \<open>
  The browser's Fetch API as the service uses it. A request is a method, a URL, headers
  and an optional body. The network answers a request with an error (\<open>fetch\<close> rejects
  with a \<open>TypeError\<close>) or a reply: a status, the \<open>Content-Type\<close> header as
  \<open>headers.get('content-type')\<close> returns it (\<open>None\<close> for \<open>null\<close>), and a body
  (\<open>None\<close> for a null body, as for a 204 reply). A \<open>Response\<close> object adds the one piece
  of state the code depends on: whether its body stream has been read. \<open>response.text()\<close>
  and \<open>response.json()\<close> both consume the body (Fetch standard, "consume body"); a second
  read of a non-null body rejects with a \<open>TypeError\<close>; a null body reads as the empty
  string any number of times. \<open>JSON.parse\<close> is a parameter of the model, \<open>json_parser\<close>:
  \<open>Inl\<close> of the \<open>SyntaxError\<close>'s message or \<open>Inr\<close> of the value.

  The world the service runs in is the value of \<open>import.meta.env.VITE_API_URL\<close>, the
  requests sent so far and the console, in order. \<open>fetch\<close> appends its request and asks
  the network; \<open>log_call\<close> is one \<open>console.log\<close> or \<open>console.error\<close> call.

  The code that handles one response runs on the pair of the \<open>Response\<close> and the world
  (\<open>hstate\<close>): it reads the body (\<open>on_resp\<close> runs an operation of the response) and
  logs (\<open>log_call_h\<close>). \<open>with_response\<close> runs it from a world and drops the response
  at the end, which is local to the call.
\<close>

datatype http_method = GET | POST | DELETE

record request =
  rq_method :: http_method
  rq_url :: string
  rq_headers :: "(string \<times> string) list"
  rq_body :: "string option"

record http_reply =
  rp_status :: int
  rp_content_type :: "string option"
  rp_body :: "string option"

record response =
  r_status :: int
  r_content_type :: "string option"
  r_body :: "string option"
  r_disturbed :: bool

type_synonym json_parser = "string \<Rightarrow> string + jsval"
type_synonym network = "request \<Rightarrow> js_error + http_reply"

text \<open>A fresh \<open>Response\<close>, as \<open>fetch\<close> resolves with it: its body not yet read.\<close>

definition mk_response :: "http_reply \<Rightarrow> response" where
  "mk_response rp = \<lparr>r_status = rp_status rp, r_content_type = rp_content_type rp,
                     r_body = rp_body rp, r_disturbed = False\<rparr>"

text \<open>\<open>response.ok\<close>: the status is in the range 200 to 299.\<close>

definition resp_ok :: "response \<Rightarrow> bool" where
  "resp_ok r = (200 \<le> r_status r \<and> r_status r \<le> 299)"

text \<open>The \<open>TypeError\<close> of reading a used body (engine wording, Chromium's).\<close>

definition body_used_message :: string where
  "body_used_message = ''body stream already read''"

text \<open>
  Consume body: a null body is the empty string and stays unread; a non-null body can be
  read once.
\<close>

definition consume_body :: "(response, js_error, string) st" where
  "consume_body r =
     (case r_body r of
        None \<Rightarrow> (Inr [], r)
      | Some b \<Rightarrow> if r_disturbed r then (Inl (TypeError body_used_message), r)
                  else (Inr b, r\<lparr>r_disturbed := True\<rparr>))"

text \<open>The text a first read of the body yields.\<close>

definition body_text :: "response \<Rightarrow> string" where
  "body_text r = (case r_body r of None \<Rightarrow> [] | Some b \<Rightarrow> b)"

definition resp_text :: "(response, js_error, string) st" where
  "resp_text = consume_body"

text \<open>\<open>response.json()\<close>: consume the body, then parse it; a parse failure keeps the body consumed.\<close>

definition resp_json :: "json_parser \<Rightarrow> (response, js_error, jsval) st" where
  "resp_json P = ebind consume_body
     (\<lambda>txt. case P txt of Inl m \<Rightarrow> ethrow (SyntaxError m) | Inr v \<Rightarrow> eret v)"

subsection \<open>The world and \<open>fetch\<close>\<close>

record world =
  vite_api_url :: "string option"
  sent :: "request list"
  console :: "log_entry list"

definition fetch :: "network \<Rightarrow> request \<Rightarrow> (world, js_error, response) st" where
  "fetch net rq = (\<lambda>w. (map_sum id mk_response (net rq), w\<lparr>sent := sent w @ [rq]\<rparr>))"

definition log_to :: "log_entry \<Rightarrow> world \<Rightarrow> world" where
  "log_to e w = w\<lparr>console := console w @ [e]\<rparr>"

definition log_call :: "log_entry \<Rightarrow> (world, js_error, unit) st" where
  "log_call e = (\<lambda>w. (Inr (), log_to e w))"

type_synonym hstate = "response \<times> world"

definition on_resp :: "(response, js_error, 'a) st \<Rightarrow> (hstate, js_error, 'a) st" where
  "on_resp m = (\<lambda>(r, w). (fst (m r), (snd (m r), w)))"

definition get_resp :: "(hstate, js_error, response) st" where
  "get_resp = (\<lambda>(r, w). (Inr r, (r, w)))"

definition log_call_h :: "log_entry \<Rightarrow> (hstate, js_error, unit) st" where
  "log_call_h e = (\<lambda>(r, w). (Inr (), (r, log_to e w)))"

definition with_response :: "(hstate, js_error, 'a) st \<Rightarrow> response \<Rightarrow> (world, js_error, 'a) st" where
  "with_response m r = (\<lambda>w. (fst (m (r, w)), snd (snd (m (r, w)))))"

subsection \<open>Reading a body\<close>

lemma mk_response_sel [simp]:
  "r_status (mk_response rp) = rp_status rp"
  "r_content_type (mk_response rp) = rp_content_type rp"
  "r_body (mk_response rp) = rp_body rp"
  "r_disturbed (mk_response rp) = False"
  by (simp_all add: mk_response_def)

lemma body_text_mk_response [simp]:
  "body_text (mk_response rp) = (case rp_body rp of None \<Rightarrow> [] | Some b \<Rightarrow> b)"
  by (simp add: body_text_def)

text \<open>The first read succeeds and marks a non-null body as read.\<close>

lemma consume_body_fresh:
  "\<not> r_disturbed r \<Longrightarrow> consume_body r = (Inr (body_text r), r\<lparr>r_disturbed := (r_body r \<noteq> None)\<rparr>)"
  by (simp add: consume_body_def body_text_def split: option.splits)

text \<open>A second read fails exactly when the body is not null.\<close>

lemma consume_body_again:
  "consume_body (r\<lparr>r_disturbed := (r_body r \<noteq> None)\<rparr>) =
    (if r_body r = None then (Inr [], r\<lparr>r_disturbed := False\<rparr>)
     else (Inl (TypeError body_used_message), r\<lparr>r_disturbed := True\<rparr>))"
  by (simp add: consume_body_def split: option.splits)

lemma resp_json_fresh:
  "\<not> r_disturbed r \<Longrightarrow> resp_json P r =
     ((case P (body_text r) of Inl m \<Rightarrow> Inl (SyntaxError m) | Inr v \<Rightarrow> Inr v),
      r\<lparr>r_disturbed := (r_body r \<noteq> None)\<rparr>)"
  by (simp add: resp_json_def st_simps consume_body_fresh split: sum.splits)

subsection \<open>The world and the handler state\<close>

lemma log_to_sel [simp]:
  "vite_api_url (log_to e w) = vite_api_url w"
  "sent (log_to e w) = sent w"
  "console (log_to e w) = console w @ [e]"
  by (simp_all add: log_to_def)

lemma log_call_apply [st_simps]: "log_call e w = (Inr (), log_to e w)"
  by (simp add: log_call_def)

lemma on_resp_apply [st_simps]: "on_resp m (r, w) = (fst (m r), (snd (m r), w))"
  by (simp add: on_resp_def)

lemma get_resp_apply [st_simps]: "get_resp (r, w) = (Inr r, (r, w))"
  by (simp add: get_resp_def)

lemma log_call_h_apply [st_simps]: "log_call_h e (r, w) = (Inr (), (r, log_to e w))"
  by (simp add: log_call_h_def)

text \<open>Running a handler, one step at a time.\<close>

lemma with_response_eret [simp]: "with_response (eret v) r w = (Inr v, w)"
  by (simp add: with_response_def eret_def)

lemma with_response_ethrow [simp]: "with_response (ethrow e) r w = (Inl e, w)"
  by (simp add: with_response_def ethrow_def)

lemma with_response_get [simp]: "with_response (ebind get_resp f) r w = with_response (f r) r w"
  by (simp add: with_response_def st_simps)

lemma with_response_log [simp]:
  "with_response (ebind (log_call_h e) f) r w = with_response (f ()) r (log_to e w)"
  by (simp add: with_response_def st_simps)

lemma with_response_json_fresh:
  "\<not> r_disturbed r \<Longrightarrow> with_response (ebind (on_resp (resp_json P)) f) r w =
     (case P (body_text r) of
        Inl m \<Rightarrow> (Inl (SyntaxError m), w)
      | Inr v \<Rightarrow> with_response (f v) (r\<lparr>r_disturbed := (r_body r \<noteq> None)\<rparr>) w)"
  by (simp add: with_response_def st_simps resp_json_fresh split: sum.splits)

end
