(* ===== verification/TaskService.thy ===== *)
theory TaskService
  imports Fetch
begin

text \<open>
  The \<open>TaskService\<close> class of \<^verbatim>\<open>src/client/src/services/taskService.js\<close>, the
  \<open>debugConnection\<close> method attached to its instance, and the module's top-level code.
  Every method reads the base URL afresh from the world, logs, sends one request through
  \<open>fetch\<close> and handles the response inside a \<open>try\<close> whose \<open>catch\<close> logs. The
  three task methods share, verbatim, the HTML check (\<open>check_html\<close>) and the status
  check (\<open>check_status\<close>), then read the body as JSON; \<open>deleteTask\<close> turns a body
  that does not parse into \<open>{success: true, id}\<close>. \<open>checkHealth\<close> catches every error
  and returns it as data; \<open>debugConnection\<close> composes it with \<open>getAllTasks\<close>. The code
  of each \<open>try\<close> block that runs once the response is there is its own definition
  (\<open>getAllTasks_response\<close> and so on), a handler on the response and the world.

  The runtime the code calls is a parameter: the network, \<open>JSON.parse\<close>,
  \<open>JSON.stringify\<close> (\<open>None\<close> where it returns \<open>undefined\<close>) and the clock, as the
  string \<open>new Date().toISOString()\<close> returns in a world.
\<close>

type_synonym json_printer = "jsval \<Rightarrow> string option"

record runtime =
  rt_net :: network
  rt_parse :: json_parser
  rt_stringify :: json_printer
  rt_now :: "world \<Rightarrow> string"

definition now :: "runtime \<Rightarrow> (world, js_error, string) st" where
  "now rt = (\<lambda>w. (Inr (rt_now rt w), w))"

subsection \<open>The base URL\<close>

definition default_base_url :: string where
  "default_base_url = ''http://localhost:3000''"

text \<open>\<open>import.meta.env.VITE_API_URL\<close> as a value: \<open>undefined\<close> when it is not set.\<close>

definition env_value :: "string option \<Rightarrow> jsval" where
  "env_value env = (case env of Some s \<Rightarrow> JStr s | None \<Rightarrow> JUndef)"

text \<open>\<open>import.meta.env.VITE_API_URL || 'http://localhost:3000'\<close>: the empty string is falsy.\<close>

definition base_url :: "string option \<Rightarrow> string" where
  "base_url env = (case env of Some s \<Rightarrow> if js_truthy (JStr s) then s else default_base_url
                              | None \<Rightarrow> default_base_url)"

definition read_base_url :: "(world, js_error, string) st" where
  "read_base_url = (\<lambda>w. (Inr (base_url (vite_api_url w)), w))"

subsection \<open>The checks the three task methods share\<close>

text \<open>\<open>contentType && contentType.includes('text/html')\<close>\<close>

definition is_html_content_type :: "string option \<Rightarrow> bool" where
  "is_html_content_type ct =
     (case ct of None \<Rightarrow> False | Some s \<Rightarrow> js_truthy (JStr s) \<and> str_includes ''text/html'' s)"

definition html_message :: string where
  "html_message = ''Server returned HTML page instead of JSON data''"

definition html_log :: "string \<Rightarrow> log_entry" where
  "html_log html = (Err, [lbl cross_mark ''Received HTML instead of JSON. First 200 chars:'',
                          AVal (JStr (js_substring html 0 200))])"

text \<open>An HTML reply: read it as text, log its first 200 characters, then throw.\<close>

definition check_html :: "(hstate, js_error, unit) st" where
  "check_html = ebind get_resp (\<lambda>response.
     if is_html_content_type (r_content_type response)
     then ebind (on_resp resp_text) (\<lambda>html.
            ebind (log_call_h (html_log html)) (\<lambda>_. ethrow (Error html_message)))
     else eret ())"

definition status_message :: "int \<Rightarrow> string" where
  "status_message s = ''HTTP error! status: '' @ int_to_str s"

definition text_log :: "string \<Rightarrow> log_entry" where
  "text_log errorText = (Err, [lbl cross_mark ''Error response text:'',
                               AVal (JStr (js_substring errorText 0 200))])"

text \<open>
  A reply that is not ok: the message is \<open>errorData.message || errorMessage\<close> if the body
  parses and the property read succeeds; otherwise the catch block reads the body as text
  and logs it, and the message stays the generic one. Then \<open>throw new Error(errorMessage)\<close>.
\<close>

definition check_status :: "json_parser \<Rightarrow> (hstate, js_error, unit) st" where
  "check_status P = ebind get_resp (\<lambda>response.
     if resp_ok response then eret ()
     else (let errorMessage = JStr (status_message (r_status response)) in
       ebind (ecatch
                (ebind (on_resp (resp_json P)) (\<lambda>errorData.
                   ebind (elift (js_get errorData ''message'')) (\<lambda>m. eret (js_or m errorMessage))))
                (\<lambda>_. ebind (on_resp resp_text) (\<lambda>errorText.
                       ebind (log_call_h (text_log errorText)) (\<lambda>_. eret errorMessage))))
         (\<lambda>msg. ethrow (Error (js_to_string msg)))))"

text \<open>\<open>response.headers.get('Content-Type')\<close> as a value: \<open>null\<close> when absent.\<close>

definition header_value :: "string option \<Rightarrow> jsval" where
  "header_value ct = (case ct of Some s \<Rightarrow> JStr s | None \<Rightarrow> JNull)"

text \<open>The record the \<open>catch\<close> block of a task method logs before it rethrows.\<close>

definition error_record :: "string \<Rightarrow> (string \<times> jsval) list \<Rightarrow> log_entry" where
  "error_record name props = (Err, [lbl cross_mark (''Error in '' @ name @ '':''), AVal (JObj props)])"

definition get_request :: "string \<Rightarrow> request" where
  "get_request url = \<lparr>rq_method = GET, rq_url = url, rq_headers = [], rq_body = None\<rparr>"

subsection \<open>The methods\<close>

definition getAllTasks_response :: "runtime \<Rightarrow> (hstate, js_error, jsval) st" where
  "getAllTasks_response rt = ebind get_resp (\<lambda>response.
     ebind (log_call_h (Log, [lbl satellite ''Response status:'', AVal (JNum (r_status response))])) (\<lambda>_.
     ebind (log_call_h (Log, [lbl satellite ''Response Content-Type:'',
                              AVal (header_value (r_content_type response))])) (\<lambda>_.
     ebind check_html (\<lambda>_. ebind (check_status (rt_parse rt)) (\<lambda>_.
     ebind (on_resp (resp_json (rt_parse rt))) (\<lambda>data.
     ebind (log_call_h (Log, [lbl check_mark ''Tasks data received:'', AVal data])) (\<lambda>_.
     eret data)))))))"

definition getAllTasks :: "runtime \<Rightarrow> (world, js_error, jsval) st" where
  "getAllTasks rt = ebind read_base_url (\<lambda>baseUrl.
     let url = baseUrl @ ''/api/tasks'' in
     ebind (log_call (Log, [lbl satellite ''Fetching tasks from:'', AVal (JStr url)])) (\<lambda>_.
     ecatch
       (ebind (fetch (rt_net rt) (get_request url)) (with_response (getAllTasks_response rt)))
       (\<lambda>error. ebind (now rt) (\<lambda>timestamp.
          ebind (log_call (error_record ''getAllTasks''
                   [(''message'', JStr (err_message error)), (''url'', JStr url),
                    (''timestamp'', JStr timestamp)])) (\<lambda>_.
          ethrow error)))))"

definition create_request :: "string \<Rightarrow> string option \<Rightarrow> request" where
  "create_request url body = \<lparr>rq_method = POST, rq_url = url,
     rq_headers = [(''Content-Type'', ''application/json'')], rq_body = body\<rparr>"

definition createTask_response :: "runtime \<Rightarrow> (hstate, js_error, jsval) st" where
  "createTask_response rt = ebind get_resp (\<lambda>response.
     ebind (log_call_h (Log, [lbl memo ''Create task response status:'', AVal (JNum (r_status response))])) (\<lambda>_.
     ebind check_html (\<lambda>_. ebind (check_status (rt_parse rt)) (\<lambda>_.
     ebind (on_resp (resp_json (rt_parse rt))) (\<lambda>result.
     ebind (log_call_h (Log, [lbl check_mark ''Task created successfully:'', AVal result])) (\<lambda>_.
     eret result))))))"

definition createTask :: "runtime \<Rightarrow> jsval \<Rightarrow> (world, js_error, jsval) st" where
  "createTask rt taskData = ebind read_base_url (\<lambda>baseUrl.
     let url = baseUrl @ ''/api/tasks'' in
     ebind (log_call (Log, [lbl memo ''Creating task at:'', AVal (JStr url), AVal (JStr ''Data:''),
                            AVal taskData])) (\<lambda>_.
     ecatch
       (ebind (fetch (rt_net rt) (create_request url (rt_stringify rt taskData)))
          (with_response (createTask_response rt)))
       (\<lambda>error. ebind (now rt) (\<lambda>timestamp.
          ebind (log_call (error_record ''createTask''
                   [(''message'', JStr (err_message error)), (''url'', JStr url),
                    (''data'', taskData), (''timestamp'', JStr timestamp)])) (\<lambda>_.
          ethrow error)))))"

definition delete_request :: "string \<Rightarrow> request" where
  "delete_request url = \<lparr>rq_method = DELETE, rq_url = url, rq_headers = [], rq_body = None\<rparr>"

text \<open>The fallback result of a delete whose body is not JSON: \<open>{success: true, id: taskId}\<close>.\<close>

definition delete_fallback :: "jsval \<Rightarrow> jsval" where
  "delete_fallback taskId = JObj [(''success'', JBool True), (''id'', taskId)]"

definition deleteTask_response :: "runtime \<Rightarrow> jsval \<Rightarrow> (hstate, js_error, jsval) st" where
  "deleteTask_response rt taskId = ebind get_resp (\<lambda>response.
     ebind (log_call_h (Log, [lbl wastebasket ''Delete task response status:'', AVal (JNum (r_status response))])) (\<lambda>_.
     ebind check_html (\<lambda>_. ebind (check_status (rt_parse rt)) (\<lambda>_.
     ebind (ecatch
              (ebind (on_resp (resp_json (rt_parse rt))) (\<lambda>result.
                 ebind (log_call_h (Log, [lbl check_mark ''Task deleted successfully:'', AVal result])) (\<lambda>_.
                 eret result)))
              (\<lambda>_. ebind (log_call_h (Log, [lbl check_mark ''Task deleted successfully (no response body)''])) (\<lambda>_.
                     eret (delete_fallback taskId))))
       (\<lambda>result. eret result)))))"

definition deleteTask :: "runtime \<Rightarrow> jsval \<Rightarrow> (world, js_error, jsval) st" where
  "deleteTask rt taskId = ebind read_base_url (\<lambda>baseUrl.
     let url = baseUrl @ ''/api/tasks/'' @ js_to_string taskId in
     ebind (log_call (Log, [lbl wastebasket ''Deleting task at:'', AVal (JStr url)])) (\<lambda>_.
     ecatch
       (ebind (fetch (rt_net rt) (delete_request url)) (with_response (deleteTask_response rt taskId)))
       (\<lambda>error. ebind (now rt) (\<lambda>timestamp.
          ebind (log_call (error_record ''deleteTask''
                   [(''message'', JStr (err_message error)), (''url'', JStr url),
                    (''taskId'', taskId), (''timestamp'', JStr timestamp)])) (\<lambda>_.
          ethrow error)))))"

text \<open>
  \<open>checkHealth\<close>: \<open>{healthy: true, ...health}\<close> on an ok reply,
  \<open>{healthy: false, status}\<close> otherwise, and \<open>{healthy: false, error: error.message}\<close>
  for anything thrown on the way.
\<close>

definition checkHealth_response :: "runtime \<Rightarrow> (hstate, js_error, jsval) st" where
  "checkHealth_response rt = ebind get_resp (\<lambda>response.
     ebind (log_call_h (Log, [lbl hospital ''Health check status:'', AVal (JNum (r_status response))])) (\<lambda>_.
     if resp_ok response
     then ebind (on_resp (resp_json (rt_parse rt))) (\<lambda>health.
            ebind (log_call_h (Log, [lbl check_mark ''Backend health:'', AVal health])) (\<lambda>_.
            eret (JObj (js_spread [(''healthy'', JBool True)] health))))
     else ebind (log_call_h (Err, [lbl cross_mark ''Backend health check failed:'', AVal (JNum (r_status response))])) (\<lambda>_.
            eret (JObj [(''healthy'', JBool False), (''status'', JNum (r_status response))]))))"

definition checkHealth :: "runtime \<Rightarrow> (world, js_error, jsval) st" where
  "checkHealth rt = ebind read_base_url (\<lambda>baseUrl.
     let url = baseUrl @ ''/health'' in
     ebind (log_call (Log, [lbl hospital ''Checking backend health at:'', AVal (JStr url)])) (\<lambda>_.
     ecatch
       (ebind (fetch (rt_net rt) (get_request url)) (with_response (checkHealth_response rt)))
       (\<lambda>error.
          ebind (log_call (Err, [lbl cross_mark ''Health check error:'', AVal (JStr (err_message error))])) (\<lambda>_.
          eret (JObj [(''healthy'', JBool False), (''error'', JStr (err_message error))])))))"

text \<open>\<open>import.meta.env.VITE_API_URL || 'http://localhost:3000 (fallback)'\<close>, the logged text.\<close>

definition fallback_label :: "string option \<Rightarrow> jsval" where
  "fallback_label env = js_or (env_value env) (JStr ''http://localhost:3000 (fallback)'')"

definition debugConnection :: "runtime \<Rightarrow> (world, js_error, jsval) st" where
  "debugConnection rt =
     ebind (log_call (Log, [lbl magnifier ''=== DEBUG CONNECTION TEST ===''])) (\<lambda>_.
     ebind eget (\<lambda>w.
     ebind (log_call (Log, [lbl magnifier ''VITE_API_URL from env:'', AVal (env_value (vite_api_url w))])) (\<lambda>_.
     ebind (log_call (Log, [lbl magnifier ''Using base URL:'', AVal (fallback_label (vite_api_url w))])) (\<lambda>_.
     ecatch
       (ebind (checkHealth rt) (\<lambda>health.
          ebind (log_call (Log, [lbl magnifier ''Health check result:'', AVal health])) (\<lambda>_.
          ebind (elift (js_get health ''healthy'')) (\<lambda>healthy.
            if js_truthy healthy
            then ebind (log_call (Log, [lbl magnifier ''Testing tasks endpoint...''])) (\<lambda>_.
                 ebind (getAllTasks rt) (\<lambda>tasks.
                 ebind (elift (js_get tasks ''length'')) (\<lambda>count.
                 ebind (log_call (Log, [lbl magnifier ''Tasks test successful, count:'', AVal count])) (\<lambda>_.
                 ebind (elift (js_get tasks ''length'')) (\<lambda>tasksCount.
                 eret (JObj [(''success'', JBool True), (''health'', health), (''tasksCount'', tasksCount)]))))))
            else ebind (log_call (Err, [lbl magnifier ''Health check failed''])) (\<lambda>_.
                 eret (JObj [(''success'', JBool False), (''health'', health)]))))))
       (\<lambda>error. ebind (log_call (Err, [lbl magnifier ''Debug test failed:'', AErr error])) (\<lambda>_.
          eret (JObj [(''success'', JBool False), (''error'', JStr (err_message error))])))))))"

text \<open>
  The module's top-level code, run once when the module is loaded: the unused constant
  \<open>API_BASE_URL\<close> is computed and logged (lines 2-3), the instance is created and the
  base URL logged again with the fallback text (lines 187-189).
\<close>

definition api_base_url_log :: "(world, js_error, unit) st" where
  "api_base_url_log =
     ebind read_base_url (\<lambda>API_BASE_URL.
     log_call (Log, [lbl wrench ''API_BASE_URL from env:'', AVal (JStr API_BASE_URL)]))"

definition instance_log :: "(world, js_error, unit) st" where
  "instance_log =
     ebind eget (\<lambda>w.
     log_call (Log, [lbl rocket ''TaskService initialized with base URL:'',
                     AVal (fallback_label (vite_api_url w))]))"

definition module_init :: "(world, js_error, unit) st" where
  "module_init = ebind api_base_url_log (\<lambda>_. instance_log)"

subsection \<open>What a method returns\<close>

text \<open>
  Names for the outcomes of the shared code on a fresh response: the error a reply that is
  not ok raises (\<open>status_error\<close>: the \<open>message\<close> or the generic text where the body
  parses and the property read succeeds; elsewhere the catch block reads the body a
  second time, which fails unless the body is null), the records that catch block logs
  (\<open>status_logs\<close>), the result of reading the body as JSON (\<open>json_result\<close>) and the
  result of a task method once the two checks have run (\<open>checked_result\<close>).
\<close>

definition status_read_fails :: "json_parser \<Rightarrow> response \<Rightarrow> bool" where
  "status_read_fails P r =
     (case P (body_text r) of Inl _ \<Rightarrow> True | Inr v \<Rightarrow> (case js_get v ''message'' of Inl _ \<Rightarrow> True | Inr _ \<Rightarrow> False))"

definition status_logs :: "json_parser \<Rightarrow> response \<Rightarrow> log_entry list" where
  "status_logs P r = (if status_read_fails P r \<and> r_body r = None then [text_log []] else [])"

definition status_error :: "json_parser \<Rightarrow> response \<Rightarrow> js_error" where
  "status_error P r =
    (let dflt = JStr (status_message (r_status r));
         second = (if r_body r = None then Error (js_to_string dflt) else TypeError body_used_message)
     in case P (body_text r) of
          Inl _ \<Rightarrow> second
        | Inr v \<Rightarrow> (case js_get v ''message'' of Inl _ \<Rightarrow> second | Inr m \<Rightarrow> Error (js_to_string (js_or m dflt))))"

definition json_result :: "json_parser \<Rightarrow> http_reply \<Rightarrow> js_error + jsval" where
  "json_result P rp = (case P (body_text (mk_response rp)) of Inl m \<Rightarrow> Inl (SyntaxError m) | Inr v \<Rightarrow> Inr v)"

definition checked_result :: "json_parser \<Rightarrow> http_reply \<Rightarrow> js_error + jsval \<Rightarrow> js_error + jsval" where
  "checked_result P rp res =
     (if is_html_content_type (rp_content_type rp) then Inl (Error html_message)
      else if \<not> resp_ok (mk_response rp) then Inl (status_error P (mk_response rp))
      else res)"

subsection \<open>Running the shared checks and the methods\<close>

lemma with_response_check_html:
  assumes "\<not> r_disturbed r"
  shows "with_response (ebind check_html f) r w =
     (if is_html_content_type (r_content_type r)
      then (Inl (Error html_message), log_to (html_log (body_text r)) w)
      else with_response (f ()) r w)"
  using assms by (simp add: with_response_def check_html_def st_simps resp_text_def consume_body_fresh)

lemma with_response_check_status:
  assumes "\<not> r_disturbed r"
  shows "with_response (ebind (check_status P) f) r w =
     (if resp_ok r then with_response (f ()) r w
      else (Inl (status_error P r), w\<lparr>console := console w @ status_logs P r\<rparr>))"
  using assms
  by (cases "r_body r")
     (simp_all add: with_response_def check_status_def st_simps resp_json_fresh resp_text_def
      consume_body_def status_error_def status_logs_def status_read_fails_def body_text_def
      log_to_def Let_def split: sum.splits)

lemma run_request:
  "ebind read_base_url (\<lambda>baseUrl. ebind (log_call (L baseUrl)) (\<lambda>_.
      ecatch (ebind (fetch net (rq baseUrl)) (with_response (h baseUrl))) (H baseUrl))) w =
   (let b = base_url (vite_api_url w); w1 = (log_to (L b) w)\<lparr>sent := sent w @ [rq b]\<rparr> in
    case net (rq b) of
      Inl e \<Rightarrow> H b e w1
    | Inr rp \<Rightarrow> (case with_response (h b) (mk_response rp) w1 of
                  (Inl e, w2) \<Rightarrow> H b e w2
                | (Inr v, w2) \<Rightarrow> (Inr v, w2)))"
  by (simp add: st_simps read_base_url_def fetch_def Let_def split: sum.splits prod.splits)

lemma getAllTasks_run:
  "getAllTasks rt w =
   (let url = base_url (vite_api_url w) @ ''/api/tasks'';
        w1 = (log_to (Log, [lbl satellite ''Fetching tasks from:'', AVal (JStr url)]) w)\<lparr>sent := sent w @ [get_request url]\<rparr>;
        caught = (\<lambda>e w'. (Inl e, log_to (error_record ''getAllTasks''
                   [(''message'', JStr (err_message e)), (''url'', JStr url), (''timestamp'', JStr (rt_now rt w'))]) w'))
    in case rt_net rt (get_request url) of
         Inl e \<Rightarrow> caught e w1
       | Inr rp \<Rightarrow> (case with_response (getAllTasks_response rt) (mk_response rp) w1 of
                     (Inl e, w2) \<Rightarrow> caught e w2
                   | (Inr v, w2) \<Rightarrow> (Inr v, w2)))"
  unfolding getAllTasks_def Let_def
  by (simp only: run_request [unfolded Let_def]) (simp add: now_def st_simps split: sum.splits prod.splits)

lemma getAllTasks_response_run:
  "with_response (getAllTasks_response rt) (mk_response rp) w =
   (let r = mk_response rp;
        w1 = log_to (Log, [lbl satellite ''Response Content-Type:'', AVal (header_value (rp_content_type rp))])
               (log_to (Log, [lbl satellite ''Response status:'', AVal (JNum (rp_status rp))]) w)
    in if is_html_content_type (rp_content_type rp) then (Inl (Error html_message), log_to (html_log (body_text r)) w1)
       else if \<not> resp_ok r then (Inl (status_error (rt_parse rt) r), w1\<lparr>console := console w1 @ status_logs (rt_parse rt) r\<rparr>)
       else case rt_parse rt (body_text r) of
              Inl m \<Rightarrow> (Inl (SyntaxError m), w1)
            | Inr v \<Rightarrow> (Inr v, log_to (Log, [lbl check_mark ''Tasks data received:'', AVal v]) w1))"
  by (simp add: getAllTasks_response_def with_response_check_html with_response_check_status
      with_response_json_fresh Let_def split: sum.splits)

lemma createTask_response_run:
  "with_response (createTask_response rt) (mk_response rp) w =
   (let r = mk_response rp;
        w1 = log_to (Log, [lbl memo ''Create task response status:'', AVal (JNum (rp_status rp))]) w
    in if is_html_content_type (rp_content_type rp) then (Inl (Error html_message), log_to (html_log (body_text r)) w1)
       else if \<not> resp_ok r then (Inl (status_error (rt_parse rt) r), w1\<lparr>console := console w1 @ status_logs (rt_parse rt) r\<rparr>)
       else case rt_parse rt (body_text r) of
              Inl m \<Rightarrow> (Inl (SyntaxError m), w1)
            | Inr v \<Rightarrow> (Inr v, log_to (Log, [lbl check_mark ''Task created successfully:'', AVal v]) w1))"
  by (simp add: createTask_response_def with_response_check_html with_response_check_status
      with_response_json_fresh Let_def split: sum.splits)

lemma deleteTask_response_run:
  "with_response (deleteTask_response rt i) (mk_response rp) w =
   (let r = mk_response rp;
        w1 = log_to (Log, [lbl wastebasket ''Delete task response status:'', AVal (JNum (rp_status rp))]) w
    in if is_html_content_type (rp_content_type rp) then (Inl (Error html_message), log_to (html_log (body_text r)) w1)
       else if \<not> resp_ok r then (Inl (status_error (rt_parse rt) r), w1\<lparr>console := console w1 @ status_logs (rt_parse rt) r\<rparr>)
       else case rt_parse rt (body_text r) of
              Inl m \<Rightarrow> (Inr (delete_fallback i),
                        log_to (Log, [lbl check_mark ''Task deleted successfully (no response body)'']) w1)
            | Inr v \<Rightarrow> (Inr v, log_to (Log, [lbl check_mark ''Task deleted successfully:'', AVal v]) w1))"
  by (simp add: deleteTask_response_def with_response_check_html with_response_check_status Let_def)
     (simp add: with_response_def st_simps resp_json_fresh split: sum.splits)

lemma checkHealth_response_run:
  "with_response (checkHealth_response rt) (mk_response rp) w =
   (let r = mk_response rp;
        w1 = log_to (Log, [lbl hospital ''Health check status:'', AVal (JNum (rp_status rp))]) w
    in if resp_ok r
       then (case rt_parse rt (body_text r) of
               Inl m \<Rightarrow> (Inl (SyntaxError m), w1)
             | Inr health \<Rightarrow> (Inr (JObj (js_spread [(''healthy'', JBool True)] health)),
                              log_to (Log, [lbl check_mark ''Backend health:'', AVal health]) w1))
       else (Inr (JObj [(''healthy'', JBool False), (''status'', JNum (rp_status rp))]),
             log_to (Err, [lbl cross_mark ''Backend health check failed:'', AVal (JNum (rp_status rp))]) w1))"
  by (simp add: checkHealth_response_def with_response_json_fresh Let_def split: sum.splits)

lemma createTask_run:
  "createTask rt d w =
   (let url = base_url (vite_api_url w) @ ''/api/tasks'';
        rq = create_request url (rt_stringify rt d);
        w1 = (log_to (Log, [lbl memo ''Creating task at:'', AVal (JStr url), AVal (JStr ''Data:''), AVal d]) w)
               \<lparr>sent := sent w @ [rq]\<rparr>;
        caught = (\<lambda>e w'. (Inl e, log_to (error_record ''createTask''
                   [(''message'', JStr (err_message e)), (''url'', JStr url), (''data'', d),
                    (''timestamp'', JStr (rt_now rt w'))]) w'))
    in case rt_net rt rq of
         Inl e \<Rightarrow> caught e w1
       | Inr rp \<Rightarrow> (case with_response (createTask_response rt) (mk_response rp) w1 of
                     (Inl e, w2) \<Rightarrow> caught e w2
                   | (Inr v, w2) \<Rightarrow> (Inr v, w2)))"
  unfolding createTask_def Let_def
  by (simp only: run_request [unfolded Let_def]) (simp add: now_def st_simps split: sum.splits prod.splits)

lemma deleteTask_run:
  "deleteTask rt i w =
   (let url = base_url (vite_api_url w) @ ''/api/tasks/'' @ js_to_string i;
        w1 = (log_to (Log, [lbl wastebasket ''Deleting task at:'', AVal (JStr url)]) w)
               \<lparr>sent := sent w @ [delete_request url]\<rparr>;
        caught = (\<lambda>e w'. (Inl e, log_to (error_record ''deleteTask''
                   [(''message'', JStr (err_message e)), (''url'', JStr url), (''taskId'', i),
                    (''timestamp'', JStr (rt_now rt w'))]) w'))
    in case rt_net rt (delete_request url) of
         Inl e \<Rightarrow> caught e w1
       | Inr rp \<Rightarrow> (case with_response (deleteTask_response rt i) (mk_response rp) w1 of
                     (Inl e, w2) \<Rightarrow> caught e w2
                   | (Inr v, w2) \<Rightarrow> (Inr v, w2)))"
  unfolding deleteTask_def Let_def
  by (simp only: run_request [unfolded Let_def]) (simp add: now_def st_simps split: sum.splits prod.splits)

lemma checkHealth_run:
  "checkHealth rt w =
   (let url = base_url (vite_api_url w) @ ''/health'';
        w1 = (log_to (Log, [lbl hospital ''Checking backend health at:'', AVal (JStr url)]) w)
               \<lparr>sent := sent w @ [get_request url]\<rparr>;
        caught = (\<lambda>e w'. (Inr (JObj [(''healthy'', JBool False), (''error'', JStr (err_message e))]),
                          log_to (Err, [lbl cross_mark ''Health check error:'', AVal (JStr (err_message e))]) w'))
    in case rt_net rt (get_request url) of
         Inl e \<Rightarrow> caught e w1
       | Inr rp \<Rightarrow> (case with_response (checkHealth_response rt) (mk_response rp) w1 of
                     (Inl e, w2) \<Rightarrow> caught e w2
                   | (Inr v, w2) \<Rightarrow> (Inr v, w2)))"
  unfolding checkHealth_def Let_def
  by (simp only: run_request [unfolded Let_def]) (simp add: st_simps split: sum.splits prod.splits)

lemma getAllTasks_result:
  "fst (getAllTasks rt w) =
   (case rt_net rt (get_request (base_url (vite_api_url w) @ ''/api/tasks'')) of
      Inl e \<Rightarrow> Inl e
    | Inr rp \<Rightarrow> checked_result (rt_parse rt) rp (json_result (rt_parse rt) rp))"
  by (simp add: getAllTasks_run getAllTasks_response_run checked_result_def json_result_def Let_def
      split: sum.splits)

lemma createTask_result:
  "fst (createTask rt d w) =
   (case rt_net rt (create_request (base_url (vite_api_url w) @ ''/api/tasks'') (rt_stringify rt d)) of
      Inl e \<Rightarrow> Inl e
    | Inr rp \<Rightarrow> checked_result (rt_parse rt) rp (json_result (rt_parse rt) rp))"
  by (simp add: createTask_run createTask_response_run checked_result_def json_result_def Let_def
      split: sum.splits)

lemma deleteTask_result:
  "fst (deleteTask rt i w) =
   (case rt_net rt (delete_request (base_url (vite_api_url w) @ ''/api/tasks/'' @ js_to_string i)) of
      Inl e \<Rightarrow> Inl e
    | Inr rp \<Rightarrow> checked_result (rt_parse rt) rp
                 (case rt_parse rt (body_text (mk_response rp)) of Inl _ \<Rightarrow> Inr (delete_fallback i) | Inr v \<Rightarrow> Inr v))"
  by (simp add: deleteTask_run deleteTask_response_run checked_result_def Let_def split: sum.splits)

lemma checkHealth_result:
  "fst (checkHealth rt w) =
   (let failed = (\<lambda>e. JObj [(''healthy'', JBool False), (''error'', JStr (err_message e))])
    in Inr (case rt_net rt (get_request (base_url (vite_api_url w) @ ''/health'')) of
              Inl e \<Rightarrow> failed e
            | Inr rp \<Rightarrow>
                if resp_ok (mk_response rp)
                then (case rt_parse rt (body_text (mk_response rp)) of
                        Inl m \<Rightarrow> failed (SyntaxError m)
                      | Inr health \<Rightarrow> JObj (js_spread [(''healthy'', JBool True)] health))
                else JObj [(''healthy'', JBool False), (''status'', JNum (rp_status rp))]))"
  by (simp add: checkHealth_run checkHealth_response_run Let_def split: sum.splits)

lemma methods_env [simp]:
  "vite_api_url (snd (getAllTasks rt w)) = vite_api_url w"
  "vite_api_url (snd (createTask rt d w)) = vite_api_url w"
  "vite_api_url (snd (deleteTask rt i w)) = vite_api_url w"
  "vite_api_url (snd (checkHealth rt w)) = vite_api_url w"
  by (simp_all add: getAllTasks_run getAllTasks_response_run createTask_run createTask_response_run
      deleteTask_run deleteTask_response_run checkHealth_run checkHealth_response_run Let_def
      split: sum.splits)

lemma methods_sent:
  "sent (snd (getAllTasks rt w)) = sent w @ [get_request (base_url (vite_api_url w) @ ''/api/tasks'')]"
  "sent (snd (createTask rt d w)) = sent w @ [create_request (base_url (vite_api_url w) @ ''/api/tasks'') (rt_stringify rt d)]"
  "sent (snd (deleteTask rt i w)) = sent w @ [delete_request (base_url (vite_api_url w) @ ''/api/tasks/'' @ js_to_string i)]"
  "sent (snd (checkHealth rt w)) = sent w @ [get_request (base_url (vite_api_url w) @ ''/health'')]"
  by (simp_all add: getAllTasks_run getAllTasks_response_run createTask_run createTask_response_run
      deleteTask_run deleteTask_response_run checkHealth_run checkHealth_response_run Let_def
      split: sum.splits)

lemma getAllTasks_env_only: "vite_api_url w' = vite_api_url w \<Longrightarrow> fst (getAllTasks rt w') = fst (getAllTasks rt w)"
  by (simp add: getAllTasks_result)

lemma checkHealth_env_only: "vite_api_url w' = vite_api_url w \<Longrightarrow> fst (checkHealth rt w') = fst (checkHealth rt w)"
  by (simp add: checkHealth_result)

text \<open>What a handler that resolves has logged.\<close>

lemma getAllTasks_response_ok:
  assumes "with_response (getAllTasks_response rt) (mk_response rp) w = (Inr v, w')"
  shows "\<not> is_html_content_type (rp_content_type rp) \<and> resp_ok (mk_response rp)
         \<and> rt_parse rt (body_text (mk_response rp)) = Inr v
         \<and> w' = log_to (Log, [lbl check_mark ''Tasks data received:'', AVal v])
                 (log_to (Log, [lbl satellite ''Response Content-Type:'', AVal (header_value (rp_content_type rp))])
                   (log_to (Log, [lbl satellite ''Response status:'', AVal (JNum (rp_status rp))]) w))"
  using assms by (auto simp: getAllTasks_response_run Let_def split: if_splits sum.splits)

lemma createTask_response_ok:
  assumes "with_response (createTask_response rt) (mk_response rp) w = (Inr v, w')"
  shows "w' = log_to (Log, [lbl check_mark ''Task created successfully:'', AVal v])
                (log_to (Log, [lbl memo ''Create task response status:'', AVal (JNum (rp_status rp))]) w)"
  using assms by (auto simp: createTask_response_run Let_def split: if_splits sum.splits)

lemma deleteTask_response_ok:
  assumes "with_response (deleteTask_response rt i) (mk_response rp) w = (Inr v, w')"
  shows "\<exists>e. fst e = Log \<and> w' = log_to e
           (log_to (Log, [lbl wastebasket ''Delete task response status:'', AVal (JNum (rp_status rp))]) w)"
  using assms by (auto simp: deleteTask_response_run Let_def split: if_splits sum.splits)

end
