(* ===== verification/ResolverSpec.thy ===== *)
theory ResolverSpec
  imports TaskService
begin

text \<open>
  The contract the specification (\<section>4.1, ApiResponseResolver) states for the response
  handling of the task methods, as a function of the reply: the HTML check first, whatever
  the status; then, for a status outside 200..299, the server's \<open>message\<close> or the generic
  "HTTP error! status" text; then the parsed body, or for a body that does not parse the
  fallback value where an empty body is allowed (delete) and the parse error otherwise.
  Errors are the normalized \<open>{message}\<close>: a string. \<open>normalize\<close> maps a result of the
  code to this form. The refinement theorem of the root theory says on which replies the
  three methods implement the contract: those on which the body is read once
  (\<open>single_read_safe\<close>) and whose \<open>Content-Type\<close> the code's case-sensitive HTML test
  classifies as the contract's case-insensitive one does (\<open>html_case_agrees\<close>).
\<close>

text \<open>
  Step 1 of the contract inspects the \<open>Content-Type\<close> header with a case-insensitive
  substring match: both sides are compared in ASCII lower case.
\<close>

definition ascii_lower :: "char \<Rightarrow> char" where
  "ascii_lower c = (let n = of_char c :: nat in if 65 \<le> n \<and> n \<le> 90 then char_of (n + 32) else c)"

definition spec_is_html :: "string option \<Rightarrow> bool" where
  "spec_is_html ct = (case ct of None \<Rightarrow> False | Some s \<Rightarrow> str_includes ''text/html'' (map ascii_lower s))"

definition resolve :: "json_parser \<Rightarrow> http_reply \<Rightarrow> jsval option \<Rightarrow> string + jsval" where
  "resolve P rp empty_fallback =
    (let text = (case rp_body rp of None \<Rightarrow> [] | Some b \<Rightarrow> b);
         generic = status_message (rp_status rp)
     in if spec_is_html (rp_content_type rp) then Inl html_message
        else if \<not> (200 \<le> rp_status rp \<and> rp_status rp \<le> 299) then
          Inl (case P text of
                 Inr (JObj ps) \<Rightarrow> (case map_of ps ''message'' of
                                    Some m \<Rightarrow> if js_truthy m then js_to_string m else generic
                                  | None \<Rightarrow> generic)
               | _ \<Rightarrow> generic)
        else (case P text of
                Inr v \<Rightarrow> Inr v
              | Inl m \<Rightarrow> (case empty_fallback of Some f \<Rightarrow> Inr f | None \<Rightarrow> Inl m)))"

definition normalize :: "js_error + jsval \<Rightarrow> string + jsval" where
  "normalize r = map_sum err_message id r"

text \<open>
  The replies on which the code reads the body at most once on its error path: HTML, ok,
  a null body, or a body that parses to a value whose \<open>message\<close> can be read.
\<close>

definition single_read_safe :: "json_parser \<Rightarrow> http_reply \<Rightarrow> bool" where
  "single_read_safe P rp =
    (is_html_content_type (rp_content_type rp) \<or> (200 \<le> rp_status rp \<and> rp_status rp \<le> 299)
     \<or> rp_body rp = None
     \<or> (case P (case rp_body rp of None \<Rightarrow> [] | Some b \<Rightarrow> b) of
          Inr v \<Rightarrow> v \<noteq> JNull \<and> v \<noteq> JUndef
        | Inl _ \<Rightarrow> False))"

text \<open>
  The replies whose \<open>Content-Type\<close> the code's case-sensitive test
  (\<open>contentType.includes('text/html')\<close>) classifies as the contract's case-insensitive
  test does. They differ exactly on a header that contains \<open>text/html\<close> only in
  another casing, such as \<open>Text/HTML\<close> (\<open>html_case_diverges\<close>).
\<close>

definition html_case_agrees :: "http_reply \<Rightarrow> bool" where
  "html_case_agrees rp \<longleftrightarrow> spec_is_html (rp_content_type rp) = is_html_content_type (rp_content_type rp)"

lemma sublist_map_mono: "sublist xs ys \<Longrightarrow> sublist (map f xs) (map f ys)"
  unfolding sublist_def by (metis map_append)

lemma ascii_lower_text_html: "map ascii_lower ''text/html'' = ''text/html''"
  by code_simp

text \<open>What the code detects, the contract detects: lower-casing keeps an occurrence of \<open>text/html\<close>.\<close>

lemma is_html_spec_is_html: "is_html_content_type ct \<Longrightarrow> spec_is_html ct"
proof (cases ct)
  case (Some s)
  assume "is_html_content_type ct"
  with Some have "sublist ''text/html'' s" by (simp add: is_html_content_type_def str_includes_sublist)
  then have "sublist (map ascii_lower ''text/html'') (map ascii_lower s)" by (rule sublist_map_mono)
  with Some show ?thesis by (simp only: ascii_lower_text_html) (simp add: spec_is_html_def str_includes_sublist)
qed (simp add: is_html_content_type_def)

lemma html_case_diverges:
  "spec_is_html (Some ''Text/HTML'') \<and> \<not> is_html_content_type (Some ''Text/HTML'')"
  by code_simp

lemma index_key_message [simp]: "index_key ''message'' = None"
  by (simp add: index_key_def)

lemma js_get_message:
  "v \<noteq> JNull \<Longrightarrow> v \<noteq> JUndef \<Longrightarrow> js_get v ''message'' =
     Inr (case v of JObj ps \<Rightarrow> (case map_of ps ''message'' of Some m \<Rightarrow> m | None \<Rightarrow> JUndef) | _ \<Rightarrow> JUndef)"
  by (cases v) simp_all

lemma status_error_refines:
  assumes "\<not> resp_ok r"
    and "r_body r = None \<or> (case P (body_text r) of Inr v \<Rightarrow> v \<noteq> JNull \<and> v \<noteq> JUndef | Inl _ \<Rightarrow> False)"
  shows "err_message (status_error P r) =
    (let generic = status_message (r_status r) in
     case P (body_text r) of
       Inr (JObj ps) \<Rightarrow> (case map_of ps ''message'' of
                          Some m \<Rightarrow> if js_truthy m then js_to_string m else generic
                        | None \<Rightarrow> generic)
     | _ \<Rightarrow> generic)"
  using assms
  by (auto simp: status_error_def js_or_def Let_def js_get_message split: sum.splits jsval.splits option.splits)

text \<open>The outcome of the handlers of the three methods, on a fresh response, against the contract.\<close>

lemma handler_refines:
  assumes "single_read_safe P rp" and agree: "html_case_agrees rp"
  shows "normalize (checked_result P rp (json_result P rp)) = resolve P rp None"
proof -
  have "r_body (mk_response rp) = None \<or>
        (case P (body_text (mk_response rp)) of Inr v \<Rightarrow> v \<noteq> JNull \<and> v \<noteq> JUndef | Inl _ \<Rightarrow> False)"
    if "\<not> is_html_content_type (rp_content_type rp)" "\<not> resp_ok (mk_response rp)"
    using assms that by (auto simp: single_read_safe_def resp_ok_def)
  then show ?thesis
    using status_error_refines [of "mk_response rp" P] agree
    by (auto simp: html_case_agrees_def checked_result_def json_result_def resolve_def normalize_def resp_ok_def Let_def
        split: sum.splits)
qed

lemma delete_handler_refines:
  assumes "single_read_safe P rp" and agree: "html_case_agrees rp"
  shows "normalize (checked_result P rp
           (case P (body_text (mk_response rp)) of Inl _ \<Rightarrow> Inr f | Inr v \<Rightarrow> Inr v))
         = resolve P rp (Some f)"
proof -
  have "r_body (mk_response rp) = None \<or>
        (case P (body_text (mk_response rp)) of Inr v \<Rightarrow> v \<noteq> JNull \<and> v \<noteq> JUndef | Inl _ \<Rightarrow> False)"
    if "\<not> is_html_content_type (rp_content_type rp)" "\<not> resp_ok (mk_response rp)"
    using assms that by (auto simp: single_read_safe_def resp_ok_def)
  then show ?thesis
    using status_error_refines [of "mk_response rp" P] agree
    by (auto simp: html_case_agrees_def checked_result_def resolve_def normalize_def resp_ok_def Let_def split: sum.splits)
qed

end
