(* ===== verification/Client.thy ===== *)
theory Client
  imports TaskService
begin

text \<open>
  The service as its callers see it: the UI layer invokes the exported operations one after
  another, and between two calls the environment value \<open>VITE_API_URL\<close> may change. A
  \<open>call\<close> names an operation with its argument, \<open>call_method\<close> dispatches it to the
  method of the model, an \<open>event\<close> is a call or a change of the environment, and
  \<open>client_step\<close> is one event on the world. \<open>run\<close> replays a list of events;
  \<open>reachable\<close> is the set of worlds some sequence of events leads to from the world the
  module's top-level code leaves, with no request sent. \<open>endpoint_ok\<close> describes the
  four requests of the specification's \<section>6 (method, path suffix, headers, body);
  \<open>log_ok\<close> says what the two excerpt records of the console carry: the text of an error
  body that is not JSON, which is always empty, and at most 200 characters of an HTML
  page.
\<close>

datatype call =
    GetAllTasks
  | CreateTask jsval
  | DeleteTask jsval
  | CheckHealth
  | DebugConnection

datatype event =
    SetApiUrl "string option"
  | Invoke call

primrec call_method :: "runtime \<Rightarrow> call \<Rightarrow> (world, js_error, jsval) st" where
  "call_method rt GetAllTasks = getAllTasks rt"
| "call_method rt (CreateTask d) = createTask rt d"
| "call_method rt (DeleteTask i) = deleteTask rt i"
| "call_method rt CheckHealth = checkHealth rt"
| "call_method rt DebugConnection = debugConnection rt"

primrec client_step :: "runtime \<Rightarrow> world \<Rightarrow> event \<Rightarrow> world" where
  "client_step rt w (SetApiUrl e) = w\<lparr>vite_api_url := e\<rparr>"
| "client_step rt w (Invoke c) = snd (call_method rt c w)"

definition run :: "runtime \<Rightarrow> world \<Rightarrow> event list \<Rightarrow> world" where
  "run rt w evs = foldl (client_step rt) w evs"

inductive reachable :: "runtime \<Rightarrow> world \<Rightarrow> bool" for rt :: runtime where
  start: "reachable rt (snd (module_init \<lparr>vite_api_url = e, sent = [], console = []\<rparr>))"
| step: "reachable rt w \<Longrightarrow> reachable rt (client_step rt w ev)"

definition endpoint_ok :: "request \<Rightarrow> bool" where
  "endpoint_ok rq =
    (case rq_method rq of
       GET \<Rightarrow> (suffix ''/api/tasks'' (rq_url rq) \<or> suffix ''/health'' (rq_url rq))
              \<and> rq_headers rq = [] \<and> rq_body rq = None
     | POST \<Rightarrow> suffix ''/api/tasks'' (rq_url rq) \<and> rq_headers rq = [(''Content-Type'', ''application/json'')]
     | DELETE \<Rightarrow> sublist ''/api/tasks/'' (rq_url rq) \<and> rq_headers rq = [] \<and> rq_body rq = None)"

fun log_ok :: "log_entry \<Rightarrow> bool" where
  "log_ok (Err, [l, AVal (JStr x)]) =
     ((l = lbl cross_mark ''Error response text:'' \<longrightarrow> x = [])
      \<and> (l = lbl cross_mark ''Received HTML instead of JSON. First 200 chars:'' \<longrightarrow> length x \<le> 200))"
| "log_ok _ = True"

text \<open>The requests a call appends to the world, read off the final world.\<close>

definition new_requests :: "world \<Rightarrow> world \<Rightarrow> request list" where
  "new_requests w w' = drop (length (sent w)) (sent w')"

inductive_cases reachable_stepE: "reachable rt w"

subsection \<open>What one call does to the world\<close>

text \<open>
  A call keeps the environment value and appends requests, each to an endpoint of the
  specification under the base URL the call read.
\<close>

definition call_effect :: "world \<Rightarrow> world \<Rightarrow> bool" where
  "call_effect w w' \<longleftrightarrow> vite_api_url w' = vite_api_url w \<and> prefix (sent w) (sent w')
     \<and> (\<forall>rq \<in> set (new_requests w w'). prefix (base_url (vite_api_url w)) (rq_url rq) \<and> endpoint_ok rq)
     \<and> prefix (console w) (console w') \<and> list_all log_ok (drop (length (console w)) (console w'))"

text \<open>A computation all of whose runs have that effect.\<close>

definition keeps :: "(world, js_error, 'a) st \<Rightarrow> bool" where
  "keeps m \<longleftrightarrow> (\<forall>w. call_effect w (snd (m w)))"

lemma suffix_append_self [simp]: "suffix s (b @ s)"
  by (simp add: suffix_def)

lemma sublist_middle [simp]: "sublist s (b @ s @ t)"
  by (simp add: sublist_def) blast

lemma call_effect_refl: "call_effect w w"
  by (simp add: call_effect_def new_requests_def)

lemma call_effect_trans:
  assumes "call_effect w w1" "call_effect w1 w2"
  shows "call_effect w w2"
proof -
  from assms obtain a b where a: "sent w1 = sent w @ a" and b: "sent w2 = sent w1 @ b"
    by (auto simp: call_effect_def prefix_def)
  from assms obtain c d where c: "console w1 = console w @ c" and d: "console w2 = console w1 @ d"
    by (auto simp: call_effect_def prefix_def)
  have "new_requests w w2 = new_requests w w1 @ new_requests w1 w2"
    using a b by (simp add: new_requests_def)
  with assms a b c d show ?thesis by (auto simp: call_effect_def)
qed

lemma log_ok_status_logs [simp]: "list_all log_ok (status_logs P r)"
  by (simp add: status_logs_def text_log_def js_substring_def lbl_def)

lemma log_ok_html_log [simp]: "log_ok (html_log x)"
  by (simp add: html_log_def js_substring_prefix lbl_def)

lemma log_ok_error_record [simp]: "log_ok (error_record n ps)"
  by (simp add: error_record_def)

lemmas effect_simps = call_effect_def new_requests_def endpoint_ok_def lbl_def Let_def

subsection \<open>What one call does to the world\<close>

text \<open>
  A call keeps the environment value, appends requests, each to an endpoint of the
  specification under the base URL the call read, and appends console records that
  satisfy \<open>log_ok\<close>.
\<close>

lemma getAllTasks_effect: "call_effect w (snd (getAllTasks rt w))"
  by (simp add: getAllTasks_run getAllTasks_response_run effect_simps get_request_def split: sum.splits)

lemma createTask_effect: "call_effect w (snd (createTask rt d w))"
  by (simp add: createTask_run createTask_response_run effect_simps create_request_def split: sum.splits)

lemma deleteTask_effect: "call_effect w (snd (deleteTask rt i w))"
  using sublist_middle [of "''/api/tasks/''" "base_url (vite_api_url w)" "js_to_string i"]
  by (simp add: deleteTask_run deleteTask_response_run effect_simps delete_request_def split: sum.splits)

lemma checkHealth_effect: "call_effect w (snd (checkHealth rt w))"
  by (simp add: checkHealth_run checkHealth_response_run effect_simps get_request_def split: sum.splits)

subsection \<open>Composite calls\<close>

lemma keeps_eret: "keeps (eret v)"
  by (simp add: keeps_def eret_def call_effect_refl)

lemma keeps_eget: "keeps eget"
  by (simp add: keeps_def eget_def call_effect_refl)

lemma keeps_elift: "keeps (elift x)"
  by (simp add: keeps_def elift_def call_effect_refl split: sum.splits)

lemma keeps_log_call: "log_ok e \<Longrightarrow> keeps (log_call e)"
  by (simp add: keeps_def log_call_def effect_simps)

lemma keeps_ebind:
  assumes m: "keeps m" and f: "\<And>v. keeps (f v)"
  shows "keeps (ebind m f)"
  unfolding keeps_def
proof
  fix w
  obtain x w1 where mw: "m w = (x, w1)" by (cases "m w")
  have "call_effect w w1" using m mw unfolding keeps_def by (metis snd_conv)
  with f mw show "call_effect w (snd (ebind m f w))"
    by (cases x) (auto simp: ebind_def keeps_def intro: call_effect_trans)
qed

lemma keeps_ecatch:
  assumes m: "keeps m" and h: "\<And>e. keeps (h e)"
  shows "keeps (ecatch m h)"
  unfolding keeps_def
proof
  fix w
  obtain x w1 where mw: "m w = (x, w1)" by (cases "m w")
  have "call_effect w w1" using m mw unfolding keeps_def by (metis snd_conv)
  with h mw show "call_effect w (snd (ecatch m h w))"
    by (cases x) (auto simp: ecatch_def keeps_def intro: call_effect_trans)
qed

lemma keeps_if: "keeps a \<Longrightarrow> keeps b \<Longrightarrow> keeps (if c then a else b)"
  by simp

lemmas keeps_rules = keeps_eret keeps_eget keeps_elift keeps_log_call keeps_ebind keeps_ecatch keeps_if

lemma debugConnection_effect: "call_effect w (snd (debugConnection rt w))"
proof -
  have "keeps (checkHealth rt)" "keeps (getAllTasks rt)"
    by (simp_all add: keeps_def checkHealth_effect getAllTasks_effect)
  then have "keeps (debugConnection rt)"
    unfolding debugConnection_def by (intro keeps_rules) simp_all
  then show ?thesis by (simp add: keeps_def)
qed

lemma call_method_effect: "call_effect w (snd (call_method rt c w))"
  by (cases c) (simp_all add: getAllTasks_effect createTask_effect deleteTask_effect
      checkHealth_effect debugConnection_effect)

text \<open>The module's top-level code sends nothing and logs two records.\<close>

lemma module_init_world:
  "snd (module_init w) =
     log_to (Log, [lbl rocket ''TaskService initialized with base URL:'', AVal (fallback_label (vite_api_url w))])
       (log_to (Log, [lbl wrench ''API_BASE_URL from env:'', AVal (JStr (base_url (vite_api_url w)))]) w)"
  by (simp add: module_init_def api_base_url_log_def instance_log_def read_base_url_def st_simps)

text \<open>Replaying events from a reachable world stays reachable.\<close>

lemma reachable_run: "reachable rt w \<Longrightarrow> reachable rt (run rt w evs)"
proof (induction evs arbitrary: w)
  case Nil
  then show ?case by (simp add: run_def)
next
  case (Cons ev evs)
  from Cons.prems have "reachable rt (client_step rt w ev)" by (rule reachable.step)
  then have "reachable rt (run rt (client_step rt w ev) evs)" by (rule Cons.IH)
  then show ?case by (simp add: run_def)
qed

text \<open>Every record on the console of a reachable world satisfies \<open>log_ok\<close>.\<close>

lemma reachable_log_ok: "reachable rt w \<Longrightarrow> list_all log_ok (console w)"
proof (induction rule: reachable.induct)
  case (start e)
  then show ?case by (simp add: module_init_world lbl_def)
next
  case (step w ev)
  show ?case
  proof (cases ev)
    case (SetApiUrl e)
    with step.IH show ?thesis by simp
  next
    case (Invoke c)
    from call_method_effect [of w rt c] obtain new
      where "console (snd (call_method rt c w)) = console w @ new" "list_all log_ok new"
      by (auto simp: call_effect_def prefix_def)
    with step.IH Invoke show ?thesis by simp
  qed
qed

end
