(* ===== verification/Concurrent.thy ===== *)
theory Concurrent
  imports Client
begin

text \<open>
  Calls in flight at the same time. An \<open>async\<close> method runs synchronously until its first
  \<open>await\<close>; for the four methods that fetch, that is \<open>await fetch(...)\<close>, after the base
  URL has been read, the first record logged and the request sent. The caller gets a
  promise and may call again before the first reply is there; the rest of the method runs
  when the network answers. Each method is therefore split in two: \<open>*_start\<close> runs up to
  the \<open>await\<close> and returns the frame the rest needs (the \<open>const url\<close> and the request
  sent), \<open>*_resume\<close> is the \<open>try\<close> block after the \<open>await\<close> with its \<open>catch\<close>, on the
  settled \<open>fetch\<close> promise. \<open>await_fetch\<close> joins them; the method is their composition
  (\<open>getAllTasks_split\<close> and so on).

  A state of the concurrent client (\<open>cstate\<close>) is the world, the frames in flight in the
  order they were issued, and the values the calls settled with, in the order they settled.
  A step (\<open>cstep\<close>) changes the environment, issues a call, or settles any one call in
  flight. \<open>debugConnection\<close> awaits two methods one after the other and is not one of
  the calls issued here. The handler after the \<open>await\<close> is one step: the later awaits on
  the body (\<open>response.text()\<close>, \<open>response.json()\<close>) touch only the call's own response
  and its console records.
\<close>

datatype fetch_call =
    FGetAllTasks
  | FCreateTask jsval
  | FDeleteTask jsval
  | FCheckHealth

primrec fcall :: "fetch_call \<Rightarrow> call" where
  "fcall FGetAllTasks = GetAllTasks"
| "fcall (FCreateTask d) = CreateTask d"
| "fcall (FDeleteTask i) = DeleteTask i"
| "fcall FCheckHealth = CheckHealth"

text \<open>Calling \<open>fetch\<close> sends the request at once; awaiting it yields the response or the error.\<close>

definition send_request :: "request \<Rightarrow> (world, js_error, unit) st" where
  "send_request rq = (\<lambda>w. (Inr (), w\<lparr>sent := sent w @ [rq]\<rparr>))"

definition await_fetch ::
    "network \<Rightarrow> (string \<Rightarrow> js_error + response \<Rightarrow> (world, js_error, 'a) st) \<Rightarrow> string \<times> request
       \<Rightarrow> (world, js_error, 'a) st" where
  "await_fetch net resume frame = resume (fst frame) (map_sum id mk_response (net (snd frame)))"

subsection \<open>The methods up to and after \<open>await fetch\<close>\<close>

definition getAllTasks_start :: "(world, js_error, string \<times> request) st" where
  "getAllTasks_start = ebind read_base_url (\<lambda>baseUrl.
     let url = baseUrl @ ''/api/tasks'' in
     ebind (log_call (Log, [lbl satellite ''Fetching tasks from:'', AVal (JStr url)])) (\<lambda>_.
     ebind (send_request (get_request url)) (\<lambda>_. eret (url, get_request url))))"

definition getAllTasks_resume :: "runtime \<Rightarrow> string \<Rightarrow> js_error + response \<Rightarrow> (world, js_error, jsval) st" where
  "getAllTasks_resume rt url fetched =
     ecatch
       (ebind (elift fetched) (with_response (getAllTasks_response rt)))
       (\<lambda>error. ebind (now rt) (\<lambda>timestamp.
          ebind (log_call (error_record ''getAllTasks''
                   [(''message'', JStr (err_message error)), (''url'', JStr url),
                    (''timestamp'', JStr timestamp)])) (\<lambda>_.
          ethrow error)))"

definition createTask_start :: "runtime \<Rightarrow> jsval \<Rightarrow> (world, js_error, string \<times> request) st" where
  "createTask_start rt taskData = ebind read_base_url (\<lambda>baseUrl.
     let url = baseUrl @ ''/api/tasks'' in
     ebind (log_call (Log, [lbl memo ''Creating task at:'', AVal (JStr url), AVal (JStr ''Data:''),
                            AVal taskData])) (\<lambda>_.
     let rq = create_request url (rt_stringify rt taskData) in
     ebind (send_request rq) (\<lambda>_. eret (url, rq))))"

definition createTask_resume ::
    "runtime \<Rightarrow> jsval \<Rightarrow> string \<Rightarrow> js_error + response \<Rightarrow> (world, js_error, jsval) st" where
  "createTask_resume rt taskData url fetched =
     ecatch
       (ebind (elift fetched) (with_response (createTask_response rt)))
       (\<lambda>error. ebind (now rt) (\<lambda>timestamp.
          ebind (log_call (error_record ''createTask''
                   [(''message'', JStr (err_message error)), (''url'', JStr url),
                    (''data'', taskData), (''timestamp'', JStr timestamp)])) (\<lambda>_.
          ethrow error)))"

definition deleteTask_start :: "jsval \<Rightarrow> (world, js_error, string \<times> request) st" where
  "deleteTask_start taskId = ebind read_base_url (\<lambda>baseUrl.
     let url = baseUrl @ ''/api/tasks/'' @ js_to_string taskId in
     ebind (log_call (Log, [lbl wastebasket ''Deleting task at:'', AVal (JStr url)])) (\<lambda>_.
     ebind (send_request (delete_request url)) (\<lambda>_. eret (url, delete_request url))))"

definition deleteTask_resume ::
    "runtime \<Rightarrow> jsval \<Rightarrow> string \<Rightarrow> js_error + response \<Rightarrow> (world, js_error, jsval) st" where
  "deleteTask_resume rt taskId url fetched =
     ecatch
       (ebind (elift fetched) (with_response (deleteTask_response rt taskId)))
       (\<lambda>error. ebind (now rt) (\<lambda>timestamp.
          ebind (log_call (error_record ''deleteTask''
                   [(''message'', JStr (err_message error)), (''url'', JStr url),
                    (''taskId'', taskId), (''timestamp'', JStr timestamp)])) (\<lambda>_.
          ethrow error)))"

definition checkHealth_start :: "(world, js_error, string \<times> request) st" where
  "checkHealth_start = ebind read_base_url (\<lambda>baseUrl.
     let url = baseUrl @ ''/health'' in
     ebind (log_call (Log, [lbl hospital ''Checking backend health at:'', AVal (JStr url)])) (\<lambda>_.
     ebind (send_request (get_request url)) (\<lambda>_. eret (url, get_request url))))"

definition checkHealth_resume :: "runtime \<Rightarrow> string \<Rightarrow> js_error + response \<Rightarrow> (world, js_error, jsval) st" where
  "checkHealth_resume rt url fetched =
     ecatch
       (ebind (elift fetched) (with_response (checkHealth_response rt)))
       (\<lambda>error.
          ebind (log_call (Err, [lbl cross_mark ''Health check error:'', AVal (JStr (err_message error))])) (\<lambda>_.
          eret (JObj [(''healthy'', JBool False), (''error'', JStr (err_message error))])))"

primrec call_start :: "runtime \<Rightarrow> fetch_call \<Rightarrow> (world, js_error, string \<times> request) st" where
  "call_start rt FGetAllTasks = getAllTasks_start"
| "call_start rt (FCreateTask d) = createTask_start rt d"
| "call_start rt (FDeleteTask i) = deleteTask_start i"
| "call_start rt FCheckHealth = checkHealth_start"

primrec call_resume :: "runtime \<Rightarrow> fetch_call \<Rightarrow> string \<Rightarrow> js_error + response \<Rightarrow> (world, js_error, jsval) st" where
  "call_resume rt FGetAllTasks = getAllTasks_resume rt"
| "call_resume rt (FCreateTask d) = createTask_resume rt d"
| "call_resume rt (FDeleteTask i) = deleteTask_resume rt i"
| "call_resume rt FCheckHealth = checkHealth_resume rt"

subsection \<open>Several calls in flight\<close>

type_synonym frame = "fetch_call \<times> string \<times> request"

record cstate =
  cworld :: world
  inflight :: "frame list"
  settled :: "(fetch_call \<times> (js_error + jsval)) list"

definition issue :: "runtime \<Rightarrow> fetch_call \<Rightarrow> cstate \<Rightarrow> cstate" where
  "issue rt c s = (case call_start rt c (cworld s) of
      (Inr f, w) \<Rightarrow> s\<lparr>cworld := w, inflight := inflight s @ [(c, f)]\<rparr>
    | (Inl e, w) \<Rightarrow> s\<lparr>cworld := w, settled := settled s @ [(c, Inl e)]\<rparr>)"

definition settle :: "runtime \<Rightarrow> nat \<Rightarrow> cstate \<Rightarrow> cstate" where
  "settle rt i s = (case inflight s ! i of (c, f) \<Rightarrow>
     (case await_fetch (rt_net rt) (call_resume rt c) f (cworld s) of (x, w) \<Rightarrow>
        s\<lparr>cworld := w, inflight := take i (inflight s) @ drop (Suc i) (inflight s),
          settled := settled s @ [(c, x)]\<rparr>))"

inductive cstep :: "runtime \<Rightarrow> cstate \<Rightarrow> cstate \<Rightarrow> bool" for rt :: runtime where
  set_env: "cstep rt s (s\<lparr>cworld := (cworld s)\<lparr>vite_api_url := e\<rparr>\<rparr>)"
| call: "cstep rt s (issue rt c s)"
| answer: "i < length (inflight s) \<Longrightarrow> cstep rt s (settle rt i s)"

definition cinit :: "string option \<Rightarrow> cstate" where
  "cinit e = \<lparr>cworld = snd (module_init \<lparr>vite_api_url = e, sent = [], console = []\<rparr>),
              inflight = [], settled = []\<rparr>"

inductive creachable :: "runtime \<Rightarrow> cstate \<Rightarrow> bool" for rt :: runtime where
  start: "creachable rt (cinit e)"
| step: "creachable rt s \<Longrightarrow> cstep rt s t \<Longrightarrow> creachable rt t"

text \<open>
  What the code up to the \<open>await\<close> computes from the base URL: the \<open>const url\<close> and the
  request; and the value a frame settles with, read off a run from the empty world (any
  other world gives the same value, \<open>frame_value_any_world\<close>).
\<close>

primrec call_frame :: "runtime \<Rightarrow> fetch_call \<Rightarrow> string \<Rightarrow> string \<times> request" where
  "call_frame rt FGetAllTasks b = (b @ ''/api/tasks'', get_request (b @ ''/api/tasks''))"
| "call_frame rt (FCreateTask d) b = (b @ ''/api/tasks'', create_request (b @ ''/api/tasks'') (rt_stringify rt d))"
| "call_frame rt (FDeleteTask i) b =
     (b @ ''/api/tasks/'' @ js_to_string i, delete_request (b @ ''/api/tasks/'' @ js_to_string i))"
| "call_frame rt FCheckHealth b = (b @ ''/health'', get_request (b @ ''/health''))"

definition empty_world :: world where
  "empty_world = \<lparr>vite_api_url = None, sent = [], console = []\<rparr>"

definition frame_value :: "runtime \<Rightarrow> fetch_call \<Rightarrow> string \<times> request \<Rightarrow> js_error + jsval" where
  "frame_value rt c f = fst (await_fetch (rt_net rt) (call_resume rt c) f empty_world)"

subsection \<open>The split is the method\<close>

lemma fetch_split: "fetch net rq = ebind (send_request rq) (\<lambda>_. elift (map_sum id mk_response (net rq)))"
  by (rule ext) (simp add: fetch_def send_request_def st_simps)

lemma getAllTasks_split: "getAllTasks rt = ebind getAllTasks_start (await_fetch (rt_net rt) (getAllTasks_resume rt))"
  by (rule ext)
     (simp add: getAllTasks_def getAllTasks_start_def getAllTasks_resume_def await_fetch_def fetch_split
      send_request_def read_base_url_def st_simps Let_def split: sum.splits prod.splits)

lemma createTask_split:
  "createTask rt d = ebind (createTask_start rt d) (await_fetch (rt_net rt) (createTask_resume rt d))"
  by (rule ext)
     (simp add: createTask_def createTask_start_def createTask_resume_def await_fetch_def fetch_split
      send_request_def read_base_url_def st_simps Let_def split: sum.splits prod.splits)

lemma deleteTask_split:
  "deleteTask rt i = ebind (deleteTask_start i) (await_fetch (rt_net rt) (deleteTask_resume rt i))"
  by (rule ext)
     (simp add: deleteTask_def deleteTask_start_def deleteTask_resume_def await_fetch_def fetch_split
      send_request_def read_base_url_def st_simps Let_def split: sum.splits prod.splits)

lemma checkHealth_split: "checkHealth rt = ebind checkHealth_start (await_fetch (rt_net rt) (checkHealth_resume rt))"
  by (rule ext)
     (simp add: checkHealth_def checkHealth_start_def checkHealth_resume_def await_fetch_def fetch_split
      send_request_def read_base_url_def st_simps Let_def split: sum.splits prod.splits)

lemma call_split: "call_method rt (fcall c) = ebind (call_start rt c) (await_fetch (rt_net rt) (call_resume rt c))"
  by (cases c) (simp_all add: getAllTasks_split createTask_split deleteTask_split checkHealth_split)

subsection \<open>What each half does\<close>

lemma call_start_run:
  obtains e where
    "call_start rt c w = (Inr (call_frame rt c (base_url (vite_api_url w))),
       (log_to e w)\<lparr>sent := sent w @ [snd (call_frame rt c (base_url (vite_api_url w)))]\<rparr>)"
    and "log_ok e"
  by (cases c) (simp_all add: getAllTasks_start_def createTask_start_def deleteTask_start_def
      checkHealth_start_def send_request_def read_base_url_def st_simps Let_def log_to_def)

lemma call_frame_ok: "prefix b (rq_url (snd (call_frame rt c b))) \<and> endpoint_ok (snd (call_frame rt c b))"
proof (cases c)
  case (FDeleteTask i)
  then show ?thesis
    using sublist_middle [of "''/api/tasks/''" b "js_to_string i"] by (simp add: endpoint_ok_def delete_request_def)
qed (simp_all add: endpoint_ok_def get_request_def create_request_def)

lemma resume_effect:
  "call_effect w (snd (await_fetch net (call_resume rt c) f w)) \<and> sent (snd (await_fetch net (call_resume rt c) f w)) = sent w"
  by (cases c; cases "net (snd f)")
     (simp_all add: await_fetch_def getAllTasks_resume_def createTask_resume_def deleteTask_resume_def
      checkHealth_resume_def getAllTasks_response_run createTask_response_run deleteTask_response_run
      checkHealth_response_run now_def st_simps effect_simps split: sum.splits prod.splits)

lemma resume_value:
  "fst (await_fetch net (call_resume rt c) f w) = fst (await_fetch net (call_resume rt c) f w')"
  by (cases c; cases "net (snd f)")
     (simp_all add: await_fetch_def getAllTasks_resume_def createTask_resume_def deleteTask_resume_def
      checkHealth_resume_def getAllTasks_response_run createTask_response_run deleteTask_response_run
      checkHealth_response_run now_def st_simps Let_def split: sum.splits prod.splits)

lemma call_start_env [simp]: "vite_api_url (snd (call_start rt c w)) = vite_api_url w"
  by (rule call_start_run [of rt c w]) simp

lemma call_start_value: "fst (call_start rt c w) = Inr (call_frame rt c (base_url (vite_api_url w)))"
  by (rule call_start_run [of rt c w]) simp

lemma call_start_sent: "sent (snd (call_start rt c w)) = sent w @ [snd (call_frame rt c (base_url (vite_api_url w)))]"
  by (rule call_start_run [of rt c w]) simp

lemma call_start_effect: "call_effect w (snd (call_start rt c w))"
  by (rule call_start_run [of rt c w])
     (insert call_frame_ok [of "base_url (vite_api_url w)" rt c], simp add: call_effect_def new_requests_def)

text \<open>Run alone, a method settles its frame on the world its start part leaves.\<close>

lemma call_method_run:
  "call_method rt (fcall c) w =
     await_fetch (rt_net rt) (call_resume rt c) (call_frame rt c (base_url (vite_api_url w))) (snd (call_start rt c w))"
  using call_start_value [of rt c w]
  by (cases "call_start rt c w") (simp add: call_split st_simps)

lemma call_method_value:
  "fst (call_method rt (fcall c) w) = frame_value rt c (call_frame rt c (base_url (vite_api_url w)))"
  unfolding call_method_run frame_value_def by (rule resume_value)

lemma call_method_world:
  "snd (call_method rt (fcall c) w) =
     snd (await_fetch (rt_net rt) (call_resume rt c) (call_frame rt c (base_url (vite_api_url w))) (snd (call_start rt c w)))"
  by (simp add: call_method_run)

subsection \<open>Issuing and settling\<close>

lemma issue_run:
  "issue rt c s = s\<lparr>cworld := snd (call_start rt c (cworld s)),
     inflight := inflight s @ [(c, call_frame rt c (base_url (vite_api_url (cworld s))))]\<rparr>"
  using call_start_value [of rt c "cworld s"]
  by (cases "call_start rt c (cworld s)") (simp add: issue_def)

lemma settle_run:
  assumes "inflight s ! i = (c, f)"
  shows "settle rt i s = s\<lparr>cworld := snd (await_fetch (rt_net rt) (call_resume rt c) f (cworld s)),
     inflight := take i (inflight s) @ drop (Suc i) (inflight s), settled := settled s @ [(c, frame_value rt c f)]\<rparr>"
  using assms resume_value [of "rt_net rt" rt c f "cworld s" empty_world]
  by (cases "await_fetch (rt_net rt) (call_resume rt c) f (cworld s)") (simp add: settle_def frame_value_def)

lemma settle_first:
  "inflight s = (c, f) # fs \<Longrightarrow> settle rt 0 s =
     s\<lparr>cworld := snd (await_fetch (rt_net rt) (call_resume rt c) f (cworld s)), inflight := fs,
       settled := settled s @ [(c, frame_value rt c f)]\<rparr>"
  by (simp add: settle_run)

lemma issue_sel [simp]:
  "cworld (issue rt c s) = snd (call_start rt c (cworld s))"
  "inflight (issue rt c s) = inflight s @ [(c, call_frame rt c (base_url (vite_api_url (cworld s))))]"
  "settled (issue rt c s) = settled s"
  by (simp_all add: issue_run)

lemma settle_sel [simp]:
  "inflight (settle rt i s) = take i (inflight s) @ drop (Suc i) (inflight s)"
  "settled (settle rt i s) = settled s @ [(fst (inflight s ! i), frame_value rt (fst (inflight s ! i)) (snd (inflight s ! i)))]"
  "sent (cworld (settle rt i s)) = sent (cworld s)"
  by (cases "inflight s ! i", simp add: settle_run resume_effect)+

text \<open>Changing the environment, issuing and settling keep what \<open>call_effect\<close> keeps.\<close>

lemma call_effect_ok:
  assumes "call_effect w w'" "list_all endpoint_ok (sent w)" "list_all log_ok (console w)"
  shows "list_all endpoint_ok (sent w') \<and> list_all log_ok (console w')"
proof -
  from assms(1) obtain a b where a: "sent w' = sent w @ a" and b: "console w' = console w @ b"
    by (auto simp: call_effect_def prefix_def)
  with assms show ?thesis by (auto simp: call_effect_def new_requests_def list_all_iff)
qed

text \<open>
  What the concurrent client keeps: every frame in flight is the frame its call computes
  from some environment value, and every settled value is one the call returns when run
  alone from some environment value.
\<close>

definition frames_ok :: "runtime \<Rightarrow> cstate \<Rightarrow> bool" where
  "frames_ok rt s \<longleftrightarrow>
     (\<forall>(c, f) \<in> set (inflight s). \<exists>e. f = call_frame rt c (base_url e))
     \<and> (\<forall>(c, x) \<in> set (settled s). \<exists>e. x = fst (call_method rt (fcall c) \<lparr>vite_api_url = e, sent = [], console = []\<rparr>))"

lemma set_take_drop_subset: "set (take i xs @ drop (Suc i) xs) \<subseteq> set xs"
  by (metis set_append set_take_subset set_drop_subset Un_mono sup.idem)

lemma cstep_frames_ok:
  assumes "cstep rt s t" "frames_ok rt s"
  shows "frames_ok rt t"
  using assms
proof (cases rule: cstep.cases)
  case (call c)
  with assms(2) show ?thesis by (auto simp: frames_ok_def issue_run)
next
  case (answer i)
  obtain c f where cf: "inflight s ! i = (c, f)" by (cases "inflight s ! i")
  with answer have "(c, f) \<in> set (inflight s)" by (metis nth_mem)
  with assms(2) obtain e where "f = call_frame rt c (base_url e)" by (auto simp: frames_ok_def)
  then have "frame_value rt c f = fst (call_method rt (fcall c) \<lparr>vite_api_url = e, sent = [], console = []\<rparr>)"
    by (simp add: call_method_value)
  with answer assms(2) cf set_take_drop_subset [of i "inflight s"] show ?thesis
    by (auto simp: frames_ok_def settle_run)
qed (auto simp: frames_ok_def)

lemma creachable_frames_ok: "creachable rt s \<Longrightarrow> frames_ok rt s"
proof (induction rule: creachable.induct)
  case (start e)
  show ?case by (simp add: frames_ok_def cinit_def)
next
  case (step s t)
  then show ?case by (blast intro: cstep_frames_ok)
qed

text \<open>A run of the concurrent client: two calls issued, the first one settled.\<close>

lemma creachable_two_calls:
  "creachable rt (settle rt 0 (issue rt c2 (issue rt c1 (cinit e))))"
proof -
  have r: "creachable rt (issue rt c2 (issue rt c1 (cinit e)))"
    by (rule creachable.step [OF creachable.step [OF creachable.start cstep.call] cstep.call])
  have "0 < length (inflight (issue rt c2 (issue rt c1 (cinit e))))" by simp
  then show ?thesis by (rule creachable.step [OF r cstep.answer])
qed

end
