(* ===== verification/Json.thy ===== *)
theory Json
  imports JsValue
begin

text \<open>
  \<open>JSON.stringify\<close> and \<open>JSON.parse\<close> on the model's values. Strings are byte strings
  (\<open>char\<close>), so a \<open>\u\<close> escape above \<open>00FF\<close> is rejected; numbers are integers, so
  a fraction or an exponent is rejected. Within that domain the printer follows
  SerializeJSONProperty and QuoteJSONString of ECMA-262 (\<section>25.5.2) and the parser the
  JSON grammar (ECMA-404), building objects by CreateDataProperty as \<open>JSON.parse\<close> does.
\<close>

definition bslash :: char where
  "bslash = CHR 0x5C"

definition dquote :: char where
  "dquote = CHR 0x22"

definition hex_digit :: "nat \<Rightarrow> char" where
  "hex_digit d = ''0123456789abcdef'' ! d"

text \<open>QuoteJSONString, one code unit at a time.\<close>

definition json_escape :: "char \<Rightarrow> string" where
  "json_escape c =
     (if c = dquote then [bslash, dquote]
      else if c = bslash then [bslash, bslash]
      else if c = CHR 0x08 then [bslash, CHR ''b'']
      else if c = CHR 0x0C then [bslash, CHR ''f'']
      else if c = CHR 0x0A then [bslash, CHR ''n'']
      else if c = CHR 0x0D then [bslash, CHR ''r'']
      else if c = CHR 0x09 then [bslash, CHR ''t'']
      else if of_char c < (32::nat)
        then [bslash, CHR ''u'', CHR ''0'', CHR ''0'', hex_digit (of_char c div 16), hex_digit (of_char c mod 16)]
      else [c])"

definition json_quote :: "string \<Rightarrow> string" where
  "json_quote s = dquote # concat (map json_escape s) @ [dquote]"

text \<open>
  SerializeJSONProperty: \<open>undefined\<close> inside an array prints as \<open>null\<close>, an object member
  whose value is \<open>undefined\<close> is left out, and \<open>JSON.stringify(undefined)\<close> is
  \<open>undefined\<close> (\<open>None\<close>).
\<close>

fun json_text :: "jsval \<Rightarrow> string" where
  "json_text JUndef = ''null''"
| "json_text JNull = ''null''"
| "json_text (JBool b) = (if b then ''true'' else ''false'')"
| "json_text (JNum n) = int_to_str n"
| "json_text (JStr s) = json_quote s"
| "json_text (JArr xs) = CHR ''['' # join_comma (map json_text xs) @ '']''"
| "json_text (JObj ps) =
     CHR ''{'' # join_comma (map (\<lambda>(k, v). json_quote k @ CHR '':'' # json_text v)
                               (filter (\<lambda>(k, v). v \<noteq> JUndef) ps)) @ ''}''"

definition json_stringify :: "jsval \<Rightarrow> string option" where
  "json_stringify v = (if v = JUndef then None else Some (json_text v))"

subsection \<open>The parser\<close>

definition is_ws :: "char \<Rightarrow> bool" where
  "is_ws c \<longleftrightarrow> c = CHR 0x20 \<or> c = CHR 0x09 \<or> c = CHR 0x0A \<or> c = CHR 0x0D"

definition skip_ws :: "string \<Rightarrow> string" where
  "skip_ws s = dropWhile is_ws s"

definition is_digit :: "char \<Rightarrow> bool" where
  "is_digit c \<longleftrightarrow> 48 \<le> (of_char c :: nat) \<and> (of_char c :: nat) \<le> 57"

definition digits_value :: "string \<Rightarrow> nat" where
  "digits_value ds = foldl (\<lambda>n c. 10 * n + (of_char c - 48)) 0 ds"

definition hex_value :: "char \<Rightarrow> nat option" where
  "hex_value c =
     (let n = (of_char c :: nat) in
      if 48 \<le> n \<and> n \<le> 57 then Some (n - 48)
      else if 97 \<le> n \<and> n \<le> 102 then Some (n - 87)
      else if 65 \<le> n \<and> n \<le> 70 then Some (n - 55)
      else None)"

definition hex4_value :: "char \<Rightarrow> char \<Rightarrow> char \<Rightarrow> char \<Rightarrow> nat option" where
  "hex4_value a b c d =
     (case (hex_value a, hex_value b, hex_value c, hex_value d) of
        (Some x, Some y, Some z, Some t) \<Rightarrow> Some (((x * 16 + y) * 16 + z) * 16 + t)
      | _ \<Rightarrow> None)"

definition prepend :: "char \<Rightarrow> (string \<times> string) option \<Rightarrow> (string \<times> string) option" where
  "prepend c r = map_option (\<lambda>(s, rest). (c # s, rest)) r"

text \<open>The characters of a string literal after its opening quote, up to the closing one.\<close>

fun parse_str :: "string \<Rightarrow> (string \<times> string) option" where
  "parse_str [] = None"
| "parse_str (c # cs) =
     (if c = dquote then Some ([], cs)
      else if c = bslash then
        (case cs of
           [] \<Rightarrow> None
         | e # r \<Rightarrow>
             if e = dquote \<or> e = bslash \<or> e = CHR ''/'' then prepend e (parse_str r)
             else if e = CHR ''b'' then prepend (CHR 0x08) (parse_str r)
             else if e = CHR ''f'' then prepend (CHR 0x0C) (parse_str r)
             else if e = CHR ''n'' then prepend (CHR 0x0A) (parse_str r)
             else if e = CHR ''r'' then prepend (CHR 0x0D) (parse_str r)
             else if e = CHR ''t'' then prepend (CHR 0x09) (parse_str r)
             else if e = CHR ''u'' then
               (case r of
                  a # b # x # y # r' \<Rightarrow>
                    (case hex4_value a b x y of
                       Some v \<Rightarrow> if v < 256 then prepend (char_of v) (parse_str r') else None
                     | None \<Rightarrow> None)
                | _ \<Rightarrow> None)
             else None)
      else if of_char c < (32::nat) then None
      else prepend c (parse_str cs))"

text \<open>An integer: an optional minus sign, then \<open>0\<close> or a digit string without leading zero.\<close>

definition parse_nat :: "string \<Rightarrow> (nat \<times> string) option" where
  "parse_nat s =
     (case s of
        [] \<Rightarrow> None
      | c # cs \<Rightarrow>
          if c = CHR ''0'' then Some (0, cs)
          else if is_digit c then
            Some (digits_value (c # takeWhile is_digit cs), dropWhile is_digit cs)
          else None)"

definition parse_number :: "string \<Rightarrow> (int \<times> string) option" where
  "parse_number s =
     (let (neg, s') = (case s of c # cs \<Rightarrow> if c = CHR ''-'' then (True, cs) else (False, s) | [] \<Rightarrow> (False, s))
      in case parse_nat s' of
           None \<Rightarrow> None
         | Some (n, r) \<Rightarrow>
             (case r of
                c # _ \<Rightarrow> if c = CHR ''.'' \<or> c = CHR ''e'' \<or> c = CHR ''E'' then None
                         else Some (if neg then - int n else int n, r)
              | [] \<Rightarrow> Some (if neg then - int n else int n, r)))"

text \<open>
  Recursive descent. Every call spends one unit of fuel and every call after the first
  consumes a character first, so the length of the text plus one is enough fuel.
\<close>

fun parse_value :: "nat \<Rightarrow> string \<Rightarrow> (jsval \<times> string) option"
and parse_elems :: "nat \<Rightarrow> jsval list \<Rightarrow> string \<Rightarrow> (jsval list \<times> string) option"
and parse_members :: "nat \<Rightarrow> (string \<times> jsval) list \<Rightarrow> string \<Rightarrow> ((string \<times> jsval) list \<times> string) option"
where
  "parse_value 0 s = None"
| "parse_value (Suc n) s =
     (case skip_ws s of
        [] \<Rightarrow> None
      | c # cs \<Rightarrow>
          if c = CHR ''n'' then (if take 3 cs = ''ull'' then Some (JNull, drop 3 cs) else None)
          else if c = CHR ''t'' then (if take 3 cs = ''rue'' then Some (JBool True, drop 3 cs) else None)
          else if c = CHR ''f'' then (if take 4 cs = ''alse'' then Some (JBool False, drop 4 cs) else None)
          else if c = dquote then map_option (\<lambda>(t, r). (JStr t, r)) (parse_str cs)
          else if c = CHR ''['' then
            (case skip_ws cs of
               d # r \<Rightarrow> if d = CHR '']'' then Some (JArr [], r)
                        else (case parse_value n cs of
                                None \<Rightarrow> None
                              | Some (v, r') \<Rightarrow> map_option (\<lambda>(vs, r''). (JArr vs, r'')) (parse_elems n [v] r'))
             | [] \<Rightarrow> None)
          else if c = CHR ''{'' then
            (case skip_ws cs of
               d # r \<Rightarrow> if d = CHR ''}'' then Some (JObj [], r)
                        else (case parse_members n [] (CHR '','' # cs) of
                                None \<Rightarrow> None
                              | Some (ps, r') \<Rightarrow> Some (JObj ps, r'))
             | [] \<Rightarrow> None)
          else map_option (\<lambda>(i, r). (JNum i, r)) (parse_number (c # cs)))"
| "parse_elems 0 acc s = None"
| "parse_elems (Suc n) acc s =
     (case skip_ws s of
        c # cs \<Rightarrow>
          if c = CHR '']'' then Some (acc, cs)
          else if c = CHR '','' then
            (case parse_value n cs of
               None \<Rightarrow> None
             | Some (v, r) \<Rightarrow> parse_elems n (acc @ [v]) r)
          else None
      | [] \<Rightarrow> None)"
| "parse_members 0 acc s = None"
| "parse_members (Suc n) acc s =
     (case skip_ws s of
        c # cs \<Rightarrow>
          if c = CHR ''}'' then Some (acc, cs)
          else if c = CHR '','' then
            (case skip_ws cs of
               q # r \<Rightarrow>
                 if q = dquote then
                   (case parse_str r of
                      None \<Rightarrow> None
                    | Some (k, r1) \<Rightarrow>
                        (case skip_ws r1 of
                           col # r2 \<Rightarrow>
                             if col = CHR '':'' then
                               (case parse_value n r2 of
                                  None \<Rightarrow> None
                                | Some (v, r3) \<Rightarrow> parse_members n (obj_set acc k v) r3)
                             else None
                         | [] \<Rightarrow> None))
                 else None
             | [] \<Rightarrow> None)
          else None
      | [] \<Rightarrow> None)"

definition json_parse :: "string \<Rightarrow> string + jsval" where
  "json_parse s =
     (if skip_ws s = [] then Inl ''Unexpected end of JSON input'' else
      case parse_value (Suc (length s)) s of
        Some (v, r) \<Rightarrow> if skip_ws r = [] then Inr v else Inl ''Unexpected token in JSON''
      | None \<Rightarrow> Inl ''Unexpected token in JSON'')"

text \<open>
  A value ends where a number literal cannot continue (\<open>num_delim\<close>) and, inside the
  text of an enclosing value, at a comma or a closing bracket (\<open>val_delim\<close>). The
  values that survive printing are those without \<open>undefined\<close> and whose objects have
  distinct keys (\<open>json_value\<close>); \<open>JSON.parse\<close> keeps the last of repeated keys.
\<close>

definition num_delim :: "string \<Rightarrow> bool" where
  "num_delim r = (case r of [] \<Rightarrow> True
                 | c # _ \<Rightarrow> \<not> is_digit c \<and> c \<noteq> CHR ''.'' \<and> c \<noteq> CHR ''e'' \<and> c \<noteq> CHR ''E'')"

definition val_delim :: "string \<Rightarrow> bool" where
  "val_delim r = (case r of [] \<Rightarrow> True | c # _ \<Rightarrow> c = CHR '','' \<or> c = CHR '']'' \<or> c = CHR ''}'')"

fun json_value :: "jsval \<Rightarrow> bool" where
  "json_value JUndef = False"
| "json_value (JArr xs) = list_all json_value xs"
| "json_value (JObj ps) = (distinct (map fst ps) \<and> list_all (\<lambda>p. json_value (snd p)) ps)"
| "json_value v = True"

subsection \<open>String literals\<close>

lemma hex_value_hex_digit: "d < 16 \<Longrightarrow> hex_value (hex_digit d) = Some d"
  by (auto simp: hex_value_def hex_digit_def less_Suc_eq numeral_eq_Suc)

lemma parse_str_escape: "parse_str (json_escape c @ t) = prepend c (parse_str t)"
proof -
  consider "c = dquote" | "c = bslash" | "c = CHR 0x08" | "c = CHR 0x0C" | "c = CHR 0x0A"
    | "c = CHR 0x0D" | "c = CHR 0x09"
    | "c \<noteq> dquote \<and> c \<noteq> bslash \<and> c \<noteq> CHR 0x08 \<and> c \<noteq> CHR 0x0C \<and> c \<noteq> CHR 0x0A
       \<and> c \<noteq> CHR 0x0D \<and> c \<noteq> CHR 0x09 \<and> of_char c < (32::nat)"
    | "c \<noteq> dquote \<and> c \<noteq> bslash \<and> c \<noteq> CHR 0x08 \<and> c \<noteq> CHR 0x0C \<and> c \<noteq> CHR 0x0A
       \<and> c \<noteq> CHR 0x0D \<and> c \<noteq> CHR 0x09 \<and> \<not> of_char c < (32::nat)"
    by blast
  then show ?thesis
  proof cases
    case 8
    then have lt: "of_char c < (32::nat)" by simp
    have z: "hex_value (CHR ''0'') = Some 0" by (simp add: hex_value_def)
    from lt have "of_char c div 16 < (16::nat)" by simp
    then have h: "hex4_value (CHR ''0'') (CHR ''0'') (hex_digit (of_char c div 16)) (hex_digit (of_char c mod 16))
                  = Some (of_char c)"
      by (simp add: hex4_value_def z hex_value_hex_digit)
    from 8 lt h show ?thesis
      by (simp add: json_escape_def bslash_def dquote_def)
  next
    case 9
    then show ?thesis by (simp add: json_escape_def)
  qed (simp_all add: json_escape_def bslash_def dquote_def)
qed

lemma parse_str_quoted: "parse_str (concat (map json_escape s) @ dquote # rest) = Some (s, rest)"
  by (induction s) (simp_all add: parse_str_escape prepend_def)

subsection \<open>Numbers\<close>

lemma is_digit_digit_char: "d < 10 \<Longrightarrow> is_digit (digit_char d)"
  by (auto simp: is_digit_def digit_char_def less_Suc_eq numeral_eq_Suc)

lemma nat_to_str_all_digits: "\<forall>c \<in> set (nat_to_str n). is_digit c"
proof (induction n rule: nat_to_str.induct)
  case (1 n)
  then show ?case
    by (cases "n < 10") (simp_all add: nat_to_str_small nat_to_str_large is_digit_digit_char)
qed

lemma parse_nat_nat_to_str:
  assumes "num_delim rest"
  shows "parse_nat (nat_to_str m @ rest) = Some (m, rest)"
proof (cases "m = 0")
  case True
  then show ?thesis by (simp add: parse_nat_def nat_to_str_small digit_char_def)
next
  case False
  obtain c cs where ccs: "nat_to_str m = c # cs"
    using nat_to_str_ne [of m] by (cases "nat_to_str m") auto
  have digits: "\<forall>x \<in> set (c # cs). is_digit x"
    using nat_to_str_all_digits [of m] ccs by simp
  have nd: "takeWhile is_digit rest = [] \<and> dropWhile is_digit rest = rest"
    using assms by (cases rest) (simp_all add: num_delim_def)
  have c0: "c \<noteq> CHR ''0''"
    using nat_to_str_hd [of m] False ccs by simp
  have "digits_value (c # cs) = m"
    using nat_to_str_value [of m] ccs by (simp add: digits_value_def)
  with digits nd c0 show ?thesis
    by (simp add: parse_nat_def ccs takeWhile_append2 dropWhile_append2)
qed

lemma parse_number_int_to_str:
  assumes "num_delim rest"
  shows "parse_number (int_to_str n @ rest) = Some (n, rest)"
proof -
  have after: "(case rest of c # _ \<Rightarrow> if c = CHR ''.'' \<or> c = CHR ''e'' \<or> c = CHR ''E'' then None else Some (i, rest)
               | [] \<Rightarrow> Some (i, rest)) = Some (i, rest)" for i :: int
    using assms by (cases rest) (auto simp: num_delim_def)
  show ?thesis
  proof (cases "n < 0")
    case True
    then have e: "- int (nat (- n)) = n" by simp
    from True show ?thesis
      using parse_nat_nat_to_str [OF assms, of "nat (- n)"] after [of "- int (nat (- n))"]
      by (simp add: parse_number_def int_to_str_def e)
  next
    case False
    obtain c cs where ccs: "nat_to_str (nat n) = c # cs"
      using nat_to_str_ne [of "nat n"] by (cases "nat_to_str (nat n)") auto
    have "is_digit c" using nat_to_str_all_digits [of "nat n"] ccs by simp
    then have "c \<noteq> CHR ''-''" by (auto simp: is_digit_def)
    moreover have e: "int (nat n) = n" using False by simp
    ultimately show ?thesis
      using False ccs parse_nat_nat_to_str [OF assms, of "nat n"] after [of "int (nat n)"]
      by (simp add: parse_number_def int_to_str_def e)
  qed
qed

subsection \<open>Arrays, objects and the round trip\<close>

lemma val_delim_num_delim: "val_delim r \<Longrightarrow> num_delim r"
  by (cases r) (auto simp: val_delim_def num_delim_def is_digit_def)

lemma join_comma_Cons: "join_comma (s # ss) = s @ concat (map (\<lambda>t. CHR '','' # t) ss)"
  by (induction ss arbitrary: s) simp_all

lemma skip_ws_Cons: "\<not> is_ws c \<Longrightarrow> skip_ws (c # s) = c # s"
  by (simp add: skip_ws_def)

lemma json_text_start:
  "\<exists>c cs. json_text v = c # cs \<and> \<not> is_ws c \<and> c \<noteq> CHR '']'' \<and> c \<noteq> CHR ''}'' \<and> c \<noteq> CHR '',''"
proof (cases v)
  case (JNum n)
  obtain d ds where d: "nat_to_str (nat (if n < 0 then - n else n)) = d # ds"
    using nat_to_str_ne by (cases "nat_to_str (nat (if n < 0 then - n else n))") auto
  have "is_digit d" using nat_to_str_all_digits [of "nat (if n < 0 then - n else n)"] d by simp
  with JNum d show ?thesis
    by (auto simp: int_to_str_def is_ws_def is_digit_def)
qed (auto simp: is_ws_def json_quote_def dquote_def)

lemma obj_set_fresh: "k \<notin> fst ` set ps \<Longrightarrow> obj_set ps k v = ps @ [(k, v)]"
  by (induction ps k v rule: obj_set.induct) auto

lemma parse_elems_texts:
  assumes "\<forall>x \<in> set xs. json_value x \<longrightarrow> (\<forall>n rest. length (json_text x) < n \<longrightarrow> val_delim rest
             \<longrightarrow> parse_value n (json_text x @ rest) = Some (x, rest))"
    and "list_all json_value xs"
    and "length (concat (map (\<lambda>x. CHR '','' # json_text x) xs)) < n"
  shows "parse_elems n acc (concat (map (\<lambda>x. CHR '','' # json_text x) xs) @ CHR '']'' # rest)
         = Some (acc @ xs, rest)"
  using assms
proof (induction xs arbitrary: acc n)
  case Nil
  then obtain m where "n = Suc m" by (cases n) auto
  then show ?case by (simp add: skip_ws_def is_ws_def)
next
  case (Cons x xs)
  then obtain m where n: "n = Suc m" by (cases n) auto
  let ?tail = "concat (map (\<lambda>x. CHR '','' # json_text x) xs) @ CHR '']'' # rest"
  have "val_delim ?tail" by (cases xs) (simp_all add: val_delim_def)
  moreover have "length (json_text x) < m" using Cons.prems(3) n by simp
  ultimately have px: "parse_value m (json_text x @ ?tail) = Some (x, ?tail)"
    using Cons.prems(1,2) by simp
  obtain c cs where "json_text x = c # cs" using json_text_start [of x] by blast
  then have "length (concat (map (\<lambda>x. CHR '','' # json_text x) xs)) < m"
    using Cons.prems(3) n by simp
  then have "parse_elems m (acc @ [x]) ?tail = Some ((acc @ [x]) @ xs, rest)"
    using Cons.IH Cons.prems(1,2) by simp
  with px n show ?case by (simp add: skip_ws_def is_ws_def)
qed

lemma parse_members_texts:
  assumes "\<forall>p \<in> set ps. json_value (snd p) \<longrightarrow> (\<forall>n rest. length (json_text (snd p)) < n \<longrightarrow> val_delim rest
             \<longrightarrow> parse_value n (json_text (snd p) @ rest) = Some (snd p, rest))"
    and "list_all (\<lambda>p. json_value (snd p)) ps"
    and "distinct (map fst (acc @ ps))"
    and "length (concat (map (\<lambda>(k, v). CHR '','' # json_quote k @ CHR '':'' # json_text v) ps)) < n"
  shows "parse_members n acc (concat (map (\<lambda>(k, v). CHR '','' # json_quote k @ CHR '':'' # json_text v) ps)
           @ CHR ''}'' # rest) = Some (acc @ ps, rest)"
  using assms
proof (induction ps arbitrary: acc n)
  case Nil
  then obtain m where "n = Suc m" by (cases n) auto
  then show ?case by (simp add: skip_ws_def is_ws_def)
next
  case (Cons p ps)
  obtain k v where p: "p = (k, v)" by (cases p)
  from Cons.prems(4) obtain m where n: "n = Suc m" by (cases n) auto
  let ?tail = "concat (map (\<lambda>(k, v). CHR '','' # json_quote k @ CHR '':'' # json_text v) ps) @ CHR ''}'' # rest"
  have "val_delim ?tail" by (cases ps) (auto simp: val_delim_def)
  moreover have "length (json_text v) < m" using Cons.prems(4) n p by simp
  ultimately have pv: "parse_value m (json_text v @ ?tail) = Some (v, ?tail)"
    using Cons.prems(1,2) p by simp
  have fresh: "obj_set acc k v = acc @ [(k, v)]"
    using Cons.prems(3) p by (simp add: obj_set_fresh)
  obtain c cs where "json_text v = c # cs" using json_text_start [of v] by blast
  then have "length (concat (map (\<lambda>(k, v). CHR '','' # json_quote k @ CHR '':'' # json_text v) ps)) < m"
    using Cons.prems(4) n p by simp
  then have "parse_members m (acc @ [(k, v)]) ?tail = Some ((acc @ [(k, v)]) @ ps, rest)"
    using Cons.IH Cons.prems(1,2,3) p by simp
  moreover have "parse_str (concat (map json_escape k) @ dquote # CHR '':'' # json_text v @ ?tail)
                 = Some (k, CHR '':'' # json_text v @ ?tail)"
    using parse_str_quoted [of k] by simp
  ultimately show ?case using pv fresh n p
    by (simp add: skip_ws_def is_ws_def json_quote_def dquote_def)
qed

lemma int_to_str_start: "\<exists>c cs. int_to_str i = c # cs \<and> (c = CHR ''-'' \<or> is_digit c)"
proof -
  obtain c cs where ccs: "nat_to_str (nat (if i < 0 then - i else i)) = c # cs"
    using nat_to_str_ne by (cases "nat_to_str (nat (if i < 0 then - i else i))") auto
  have "is_digit c" using nat_to_str_all_digits [of "nat (if i < 0 then - i else i)"] ccs by simp
  with ccs show ?thesis by (auto simp: int_to_str_def)
qed

lemma json_members_defined:
  "list_all (\<lambda>p. json_value (snd p)) ps \<Longrightarrow> filter (\<lambda>(k, v). v \<noteq> JUndef) ps = ps"
  by (induction ps) auto

lemma num_start_chars:
  assumes "c = CHR ''-'' \<or> is_digit c"
  shows "\<not> is_ws c \<and> c \<noteq> CHR ''n'' \<and> c \<noteq> CHR ''t'' \<and> c \<noteq> CHR ''f'' \<and> c \<noteq> dquote
         \<and> c \<noteq> CHR ''['' \<and> c \<noteq> CHR ''{''"
proof -
  have "(of_char c :: nat) = 45 \<or> (48 \<le> (of_char c :: nat) \<and> (of_char c :: nat) \<le> 57)"
    using assms by (auto simp: is_digit_def)
  then show ?thesis
    unfolding is_ws_def dquote_def by auto
qed

lemma parse_value_num_start:
  "c = CHR ''-'' \<or> is_digit c \<Longrightarrow>
   parse_value (Suc m) (c # cs) = map_option (\<lambda>(i, r). (JNum i, r)) (parse_number (c # cs))"
  using num_start_chars [of c] by (simp add: skip_ws_Cons)

lemma parse_value_json_text:
  "json_value v \<Longrightarrow> length (json_text v) < n \<Longrightarrow> val_delim rest
   \<Longrightarrow> parse_value n (json_text v @ rest) = Some (v, rest)"
proof (induction v arbitrary: n rest)
  case JUndef
  then show ?case by simp
next
  case JNull
  then obtain m where "n = Suc m" by (cases n) auto
  then show ?case by (simp add: skip_ws_def is_ws_def)
next
  case (JBool b)
  then obtain m where "n = Suc m" by (cases n) auto
  then show ?case by (cases b) (simp_all add: skip_ws_def is_ws_def)
next
  case (JNum i)
  then obtain m where n: "n = Suc m" by (cases n) auto
  obtain c cs where ccs: "int_to_str i = c # cs" and c: "c = CHR ''-'' \<or> is_digit c"
    using int_to_str_start [of i] by blast
  have "parse_number (int_to_str i @ rest) = Some (i, rest)"
    using JNum.prems(3) by (simp add: parse_number_int_to_str val_delim_num_delim)
  then show ?case
    using parse_value_num_start [OF c, of m "cs @ rest"] ccs n by simp
next
  case (JStr s)
  then obtain m where "n = Suc m" by (cases n) auto
  then show ?case
    using parse_str_quoted [of s rest] by (simp add: skip_ws_def is_ws_def json_quote_def dquote_def)
next
  case (JArr xs)
  then obtain m where n: "n = Suc m" by (cases n) auto
  show ?case
  proof (cases xs)
    case Nil
    with n show ?thesis by (simp add: skip_ws_def is_ws_def dquote_def)
  next
    case (Cons x xs')
    let ?tail = "concat (map (\<lambda>x. CHR '','' # json_text x) xs') @ CHR '']'' # rest"
    have shape: "json_text (JArr xs) = CHR ''['' # json_text x @ concat (map (\<lambda>x. CHR '','' # json_text x) xs') @ '']''"
      using Cons by (simp add: join_comma_Cons comp_def)
    have "val_delim ?tail" by (cases xs') (simp_all add: val_delim_def)
    moreover have "length (json_text x) < m" using JArr.prems(2) n shape by simp
    ultimately have px: "parse_value m (json_text x @ ?tail) = Some (x, ?tail)"
      using JArr.IH JArr.prems(1) Cons by simp
    have "parse_elems m [x] ?tail = Some ([x] @ xs', rest)"
      by (rule parse_elems_texts) (use JArr.IH JArr.prems Cons n shape in auto)
    moreover obtain c cs where "json_text x = c # cs" and "\<not> is_ws c" and "c \<noteq> CHR '']''"
      using json_text_start [of x] by blast
    ultimately show ?thesis using px n shape Cons
      by (simp add: skip_ws_Cons is_ws_def dquote_def)
  qed
next
  case (JObj ps)
  then obtain m where n: "n = Suc m" by (cases n) auto
  have filt: "filter (\<lambda>(k, v). v \<noteq> JUndef) ps = ps"
    using JObj.prems(1) by (simp add: json_members_defined)
  show ?case
  proof (cases ps)
    case Nil
    with n show ?thesis by (simp add: skip_ws_def is_ws_def dquote_def)
  next
    case (Cons p ps')
    obtain k v where p: "p = (k, v)" by (cases p)
    let ?body = "concat (map (\<lambda>(k, v). CHR '','' # json_quote k @ CHR '':'' # json_text v) ps)"
    have shape: "json_text (JObj ps) @ rest = CHR ''{'' # tl ?body @ CHR ''}'' # rest"
      using Cons p filt by (simp add: join_comma_Cons comp_def split_def)
    have "parse_members m [] (?body @ CHR ''}'' # rest) = Some ([] @ ps, rest)"
      by (rule parse_members_texts) (use JObj.IH JObj.prems n shape in auto)
    then show ?thesis using n shape Cons p
      by (simp add: skip_ws_def is_ws_def json_quote_def dquote_def)
  qed
qed

lemma json_parse_text: "json_value v \<Longrightarrow> json_parse (json_text v) = Inr v"
proof -
  assume v: "json_value v"
  obtain c cs where ccs: "json_text v = c # cs" and c: "\<not> is_ws c"
    using json_text_start [of v] by blast
  have "parse_value (Suc (length (json_text v))) (json_text v @ []) = Some (v, [])"
    by (rule parse_value_json_text [OF v]) (simp_all add: val_delim_def)
  moreover have "skip_ws (json_text v) \<noteq> []" using ccs c by (simp add: skip_ws_Cons)
  ultimately show ?thesis
    unfolding json_parse_def by (simp del: parse_value.simps add: skip_ws_def)
qed

lemma json_stringify_value: "json_value v \<Longrightarrow> json_stringify v = Some (json_text v)"
  by (cases v) (simp_all add: json_stringify_def)

end
