(* ===== verification/JsonProps.thy ===== *)
theory JsonProps
  imports Json
begin

text \<open>
  Properties of the \<open>JSON.parse\<close> model of theory \<open>Json\<close> beyond the round trip: the
  parser only builds JSON values (no \<open>undefined\<close>, objects with distinct keys, as
  CreateDataProperty keeps them), every successful step consumes input, and the fuel
  \<open>json_parse\<close> supplies is enough. The proofs go by simultaneous computation induction
  over \<open>parse_value\<close>, \<open>parse_elems\<close> and \<open>parse_members\<close>; the fuel lemma unfolds
  one step of each side by hand (\<open>parse_value.simps(2)\<close> at the two fuel values), so that
  the recursive calls inside are not unfolded again.
\<close>

subsection \<open>What the parser returns\<close>

lemma obj_set_json_values:
  "list_all (\<lambda>p. json_value (snd p)) ps \<Longrightarrow> json_value v
   \<Longrightarrow> list_all (\<lambda>p. json_value (snd p)) (obj_set ps k v)"
  by (induction ps k v rule: obj_set.induct) auto

lemma parse_json_value:
  shows "parse_value n s = Some (v, r) \<Longrightarrow> json_value v"
    and "parse_elems n acc s = Some (vs, r) \<Longrightarrow> list_all json_value acc \<Longrightarrow> list_all json_value vs"
    and "parse_members n ps s = Some (qs, r) \<Longrightarrow> json_value (JObj ps) \<Longrightarrow> json_value (JObj qs)"
proof (induction n s and n acc s and n ps s arbitrary: v r and vs r and qs r
       rule: parse_value_parse_elems_parse_members.induct)
  case (2 n s)
  then show ?case
    by (auto simp: prepend_def split: list.splits if_splits option.splits prod.splits)
next
  case (4 n acc s)
  then show ?case
    by (auto split: list.splits if_splits option.splits prod.splits)
next
  case (6 n ps s)
  then show ?case
    by (auto simp: distinct_obj_set obj_set_json_values
        split: list.splits if_splits option.splits prod.splits)
qed simp_all

subsection \<open>Every step consumes input\<close>

lemma skip_ws_length: "skip_ws s = c # cs \<Longrightarrow> length cs < length s"
proof -
  assume a: "skip_ws s = c # cs"
  have "length (skip_ws s) \<le> length s" by (simp add: skip_ws_def length_dropWhile_le)
  with a show ?thesis by simp
qed

lemma prepend_Some [simp]: "prepend c x = Some (t, r) \<longleftrightarrow> (\<exists>t'. x = Some (t', r) \<and> t = c # t')"
  by (cases x) (auto simp: prepend_def)

lemma parse_str_consumes: "parse_str s = Some (t, r) \<Longrightarrow> length r < length s"
proof (induction "length s" arbitrary: s t rule: less_induct)
  case less
  obtain c cs where s: "s = c # cs" using less.prems by (cases s) auto
  have ih: "\<And>u t. length u < length s \<Longrightarrow> parse_str u = Some (t, r) \<Longrightarrow> length r < length u"
    using less.hyps by blast
  have p: "parse_str (c # cs) = Some (t, r)" using less.prems unfolding s .
  note p1 = p [unfolded parse_str.simps(2)]
  consider (quote) "c = dquote" | (plain) "c \<noteq> dquote" "c \<noteq> bslash" | (escape) "c \<noteq> dquote" "c = bslash"
    by blast
  then show ?case
  proof cases
    case quote
    with p1 s show ?thesis by (simp del: parse_str.simps)
  next
    case plain
    with p1 obtain t' where "parse_str cs = Some (t', r)" by (auto simp del: parse_str.simps split: if_splits)
    with ih [of cs] s show ?thesis by (simp del: parse_str.simps)
  next
    case escape
    with p1 obtain e r0 where cs: "cs = e # r0" by (cases cs) (auto simp del: parse_str.simps)
    show ?thesis
    proof (cases "e = CHR ''u''")
      case False
      with escape p1 cs obtain t' where "parse_str r0 = Some (t', r)"
        by (auto simp del: parse_str.simps split: if_splits)
      with ih [of r0] s cs show ?thesis by (simp del: parse_str.simps)
    next
      case True
      with escape p1 cs obtain a b x y r1 t' where "r0 = a # b # x # y # r1" "parse_str r1 = Some (t', r)"
        by (auto simp: dquote_def bslash_def simp del: parse_str.simps split: list.splits option.splits if_splits)
      with ih [of r1] s cs show ?thesis by (simp del: parse_str.simps)
    qed
  qed
qed
lemma parse_nat_consumes: "parse_nat s = Some (n, r) \<Longrightarrow> length r < length s"
  by (auto simp: parse_nat_def less_Suc_eq_le length_dropWhile_le split: list.splits if_splits)

lemma parse_number_consumes: "parse_number s = Some (i, r) \<Longrightarrow> length r < length s"
  by (auto simp: parse_number_def dest!: parse_nat_consumes split: list.splits if_splits option.splits)

lemma parse_consumes:
  shows "parse_value n s = Some (v, r) \<Longrightarrow> length r < length s"
    and "parse_elems n acc s = Some (vs, r) \<Longrightarrow> length r < length s"
    and "parse_members n ps s = Some (qs, r) \<Longrightarrow> length r < length s"
proof (induction n s and n acc s and n ps s arbitrary: v r and vs r and qs r
       rule: parse_value_parse_elems_parse_members.induct)
  case (2 n s)
  then show ?case
    by (fastforce dest!: skip_ws_length parse_str_consumes parse_number_consumes
        split: list.splits if_splits option.splits prod.splits)
next
  case (4 n acc s)
  then show ?case
    by (fastforce dest!: skip_ws_length split: list.splits if_splits option.splits prod.splits)
next
  case (6 n ps s)
  then show ?case
    by (fastforce dest!: skip_ws_length parse_str_consumes
        split: list.splits if_splits option.splits prod.splits)
qed simp_all

subsection \<open>Fuel\<close>

text \<open>
  More fuel than the length of the input never changes the result (\<open>parse_fuel\<close>):
  every call but the first consumes a character before it recurses, so the fuel
  \<open>json_parse\<close> gives, \<open>length s + 1\<close>, is that of the unbounded recursive descent.
  Members are entered with the comma in front of the text, hence their bound is one weaker.
\<close>

lemma parse_fuel:
  shows "length s < n \<Longrightarrow> parse_value (Suc n) s = parse_value n s"
    and "length s < n \<Longrightarrow> parse_elems (Suc n) acc s = parse_elems n acc s"
    and "length s \<le> n \<Longrightarrow> parse_members (Suc n) ps s = parse_members n ps s"
proof (induction n s and n acc s and n ps s rule: parse_value_parse_elems_parse_members.induct)
  case (2 n s)
  note unf = parse_value.simps(2) [of "Suc n" s] parse_value.simps(2) [of n s]
  show ?case
  proof (cases "skip_ws s")
    case Nil
    then show ?thesis by (simp only: unf list.case)
  next
    case (Cons c cs)
    have lt: "length cs < n" using skip_ws_length [OF Cons] "2.prems" by simp
    consider (arr) "c = CHR ''[''" | (obj) "c = CHR ''{''" | (other) "c \<noteq> CHR ''[''" "c \<noteq> CHR ''{''"
      by blast
    then show ?thesis
    proof cases
      case other
      then show ?thesis by (simp only: unf Cons list.case if_False)
    next
      case arr
      then have nc: "c \<noteq> CHR ''n''" "c \<noteq> CHR ''t''" "c \<noteq> CHR ''f''" "c \<noteq> dquote"
        by (simp_all add: dquote_def)
      show ?thesis
      proof (cases "skip_ws cs")
        case Nil
        with Cons arr nc show ?thesis by (simp only: unf list.case if_False if_True; simp)
      next
        case (Cons d r)
        note sc = \<open>skip_ws s = c # cs\<close>
        show ?thesis
        proof (cases "d = CHR '']''")
          case True
          with sc Cons arr nc show ?thesis by (simp only: unf list.case if_False if_True; simp)
        next
          case False
          have v: "parse_value (Suc n) cs = parse_value n cs"
            by (rule "2.IH"(1)) (use sc Cons arr nc False lt in simp_all)
          have e: "parse_elems (Suc n) [x] r' = parse_elems n [x] r'" if "parse_value n cs = Some (x, r')" for x r'
            by (rule "2.IH"(2)) (use sc Cons arr nc False lt that parse_consumes(1) [OF that] in simp_all)
          show ?thesis
            using sc Cons arr nc False v e
            by (simp only: unf list.case if_False if_True; simp del: parse_value.simps parse_elems.simps split: option.splits prod.splits)
        qed
      qed
    next
      case obj
      then have nc: "c \<noteq> CHR ''n''" "c \<noteq> CHR ''t''" "c \<noteq> CHR ''f''" "c \<noteq> dquote" "c \<noteq> CHR ''[''"
        by (simp_all add: dquote_def)
      show ?thesis
      proof (cases "skip_ws cs")
        case Nil
        with Cons obj nc show ?thesis by (simp only: unf list.case if_False if_True; simp)
      next
        case (Cons d r)
        note sc = \<open>skip_ws s = c # cs\<close>
        show ?thesis
        proof (cases "d = CHR ''}''")
          case True
          with sc Cons obj nc show ?thesis by (simp only: unf list.case if_False if_True; simp)
        next
          case False
          have m: "parse_members (Suc n) [] (CHR '','' # cs) = parse_members n [] (CHR '','' # cs)"
            by (rule "2.IH"(3)) (use sc Cons obj nc False lt in simp_all)
          show ?thesis
            using sc Cons obj nc False m
            by (simp only: unf list.case if_False if_True; simp del: parse_members.simps)
        qed
      qed
    qed
  qed
next
  case (4 n acc s)
  note unf = parse_elems.simps(2) [of "Suc n" acc s] parse_elems.simps(2) [of n acc s]
  show ?case
  proof (cases "skip_ws s")
    case Nil
    then show ?thesis by (simp only: unf list.case)
  next
    case (Cons c cs)
    have lt: "length cs < n" using skip_ws_length [OF Cons] "4.prems" by simp
    show ?thesis
    proof (cases "c = CHR '']'' \<or> c \<noteq> CHR '',''")
      case True
      with Cons show ?thesis by (simp only: unf list.case; auto simp del: parse_elems.simps)
    next
      case False
      then have c: "c \<noteq> CHR '']''" "c = CHR '',''" by auto
      have v: "parse_value (Suc n) cs = parse_value n cs"
        by (rule "4.IH"(1)) (use Cons c lt in simp_all)
      have e: "parse_elems (Suc n) (acc @ [x]) r' = parse_elems n (acc @ [x]) r'"
        if "parse_value n cs = Some (x, r')" for x r'
        by (rule "4.IH"(2)) (use Cons c lt that parse_consumes(1) [OF that] in simp_all)
      show ?thesis
        using Cons c v e
        by (simp only: unf list.case if_False if_True; simp del: parse_value.simps parse_elems.simps split: option.splits prod.splits)
    qed
  qed
next
  case (6 n ps s)
  note unf = parse_members.simps(2) [of "Suc n" ps s] parse_members.simps(2) [of n ps s]
  show ?case
  proof (cases "skip_ws s")
    case Nil
    then show ?thesis by (simp only: unf list.case)
  next
    case (Cons c cs)
    show ?thesis
    proof (cases "c = CHR ''}'' \<or> c \<noteq> CHR '',''")
      case True
      with Cons show ?thesis by (simp only: unf; auto simp del: parse_members.simps)
    next
      case False
      then have c: "c \<noteq> CHR ''}''" "c = CHR '',''" by auto
      have step: "parse_value (Suc n) r2 = parse_value n r2
          \<and> (\<forall>v r3. parse_value n r2 = Some (v, r3)
               \<longrightarrow> parse_members (Suc n) (obj_set ps k v) r3 = parse_members n (obj_set ps k v) r3)"
        if q: "skip_ws cs = q # r" "q = dquote" "parse_str r = Some (k, r1)" "skip_ws r1 = col # r2"
          "col = CHR '':''" for q r k r1 col r2
      proof -
        have lt: "length r2 < n"
          using skip_ws_length [OF Cons] skip_ws_length [OF q(1)] parse_str_consumes [OF q(3)]
            skip_ws_length [OF q(4)] "6.prems" by simp
        have "parse_value (Suc n) r2 = parse_value n r2"
          by (rule "6.IH"(1)) (use Cons c q lt in simp_all)
        moreover have "parse_members (Suc n) (obj_set ps k v) r3 = parse_members n (obj_set ps k v) r3"
          if "parse_value n r2 = Some (v, r3)" for v r3
          by (rule "6.IH"(2)) (use Cons c q lt that parse_consumes(1) [OF that] in simp_all)
        ultimately show ?thesis by blast
      qed
      show ?thesis
        using Cons c step
        by (simp only: unf; auto simp del: parse_value.simps parse_members.simps
            split: list.splits option.splits prod.splits if_splits)
    qed
  qed
qed (simp_all add: skip_ws_def)

end
