(* ===== verification/Spec2Isabelle.thy ===== *)
theory Spec2Isabelle
  imports ResolverSpec Concurrent JsonProps
begin

text \<open>
  \<^bold>\<open>A verification library for the task-service client of MXRK-DEV/devops.\<close>

  \<^bold>\<open>The program.\<close> \<^verbatim>\<open>src/client/src/services/taskService.js\<close> is a browser-side
  HTTP client. Its class \<open>TaskService\<close> has three task methods (\<open>getAllTasks\<close>,
  \<open>createTask\<close>, \<open>deleteTask\<close>) and a health probe (\<open>checkHealth\<close>); the
  exported instance gets a diagnostic method \<open>debugConnection\<close> that composes the probe
  and \<open>getAllTasks\<close>. Each method computes the base URL from
  \<open>import.meta.env.VITE_API_URL || 'http://localhost:3000'\<close>, sends one request with
  \<open>fetch\<close>, and handles the \<open>Response\<close>. The three task methods share, as repeated
  code, the response handling the specification calls the ApiResponseResolver: an HTML
  check on the \<open>Content-Type\<close>, then for a status outside 200..299 a message taken from
  the JSON body or a generic one, then \<open>response.json()\<close>. The health probe converts
  every failure into data. Every method writes diagnostics to the console on each path,
  and the module's top-level code logs the base URL once at load time. The components
  interact only through calls; the shared state is the environment value, read on every
  call, the requests sent and the console.

  \<^bold>\<open>The theories.\<close>
  \<^item> \<open>Prelude\<close>: the exception-state monad in which the asynchronous code is written
    (\<open>eret\<close>, \<open>ethrow\<close>, \<open>ebind\<close> for \<open>await\<close>, \<open>ecatch\<close> for
    \<open>try/catch\<close>, \<open>eget\<close>, \<open>elift\<close>), its evaluation rules (collection
    \<open>st_simps\<close>) and laws, and \<open>str_includes\<close> (\<open>String.prototype.includes\<close>)
    with its equivalence to \<open>sublist\<close>.
  \<^item> \<open>JsValue\<close>: the JavaScript values the code manipulates (\<open>jsval\<close>), its errors
    (\<open>js_error\<close>: \<open>Error\<close>, \<open>TypeError\<close>, \<open>SyntaxError\<close>), and the
    ECMA-262 operations its expressions evaluate: \<open>js_truthy\<close> and \<open>js_or\<close> for
    \<open>||\<close>, \<open>js_to_string\<close> for template literals and \<open>new Error(x)\<close>,
    \<open>js_get\<close> for property reads (throwing on \<open>null\<close>/\<open>undefined\<close>),
    \<open>obj_set\<close> and \<open>js_spread\<close> for object literals and \<open>...health\<close>. Lemmas:
    lookup after property creation and spread, distinct keys, the decimal round trip
    \<open>index_key (nat_to_str n) = Some n\<close>; \<open>js_substring\<close> for
    \<open>substring(0, 200)\<close>.
  \<^item> \<open>Console\<close>: a console record (\<open>log_entry\<close>: level \<open>Log\<close> or \<open>Err\<close> and
    the arguments, values or error objects) and the emoji that start every label, as
    their UTF-8 bytes (\<open>lbl\<close>).
  \<^item> \<open>Fetch\<close>: requests, network replies, the \<open>Response\<close> with its one piece of
    state (whether the body stream was read), \<open>consume_body\<close>/\<open>resp_text\<close>/
    \<open>resp_json\<close> (a second read of a non-null body is a \<open>TypeError\<close>), the world
    (\<open>vite_api_url\<close>, \<open>sent\<close>, \<open>console\<close>) in which \<open>fetch\<close> records its
    request and \<open>log_call\<close> a console call, and the handler state \<open>hstate\<close>, the
    response with the world, on which the code after \<open>await fetch\<close> runs
    (\<open>on_resp\<close>, \<open>get_resp\<close>, \<open>log_call_h\<close>, \<open>with_response\<close>), with one
    simp rule per step of a handler.
  \<^item> \<open>TaskService\<close>: one definition per method of the source with every console call
    it makes, the code of its \<open>try\<close> block after \<open>fetch\<close> as a handler
    (\<open>getAllTasks_response\<close>, \<open>createTask_response\<close>, \<open>deleteTask_response\<close>,
    \<open>checkHealth_response\<close>), the shared code as \<open>check_html\<close> (lines 18-24) and
    \<open>check_status\<close> (lines 26-37), the requests, and the module's top-level code
    \<open>module_init\<close> (lines 2-3, 187-189). Lemmas: the two checks on a fresh response
    (\<open>status_error\<close> is the error a non-ok reply raises, \<open>status_logs\<close> what its catch
    block logs), one run lemma per handler and per method giving result and world, the
    results alone (\<open>getAllTasks_result\<close> ..., through \<open>checked_result\<close> and
    \<open>json_result\<close>), and the requests and environment after a call.
  \<^item> \<open>ResolverSpec\<close>: the specification's \<section>4.1 contract \<open>resolve\<close> on replies,
    with its case-insensitive HTML test (\<open>spec_is_html\<close>, through \<open>ascii_lower\<close>),
    \<open>normalize\<close> (an error is its message), \<open>single_read_safe\<close>, the replies on
    which the code's error path reads the body once, and \<open>html_case_agrees\<close>, the
    replies whose \<open>Content-Type\<close> the code's case-sensitive test classifies as the
    contract does (\<open>html_case_diverges\<close>: not \<open>Text/HTML\<close>).
  \<^item> \<open>Client\<close>: the callers as an environment: \<open>call\<close>, \<open>event\<close> (a call or a
    change of \<open>VITE_API_URL\<close>), \<open>client_step\<close>, \<open>run\<close>, the inductive
    \<open>reachable\<close>, and \<open>endpoint_ok\<close> for the four requests of \<section>6; each call
    keeps the environment, appends well-formed requests and console records that satisfy
    \<open>log_ok\<close> (\<open>call_effect\<close>); \<open>keeps\<close> and its rules over \<open>ebind\<close>,
    \<open>ecatch\<close> and \<open>if\<close> carry this through \<open>debugConnection\<close>. Reachable
    worlds start from the world \<open>module_init\<close> leaves; \<open>reachable_log_ok\<close> is the
    console invariant.
  \<^item> \<open>Json\<close>: the browser's \<open>JSON.stringify\<close> (\<open>json_text\<close>,
    \<open>json_stringify\<close>, QuoteJSONString as \<open>json_escape\<close>) and \<open>JSON.parse\<close>
    (\<open>json_parse\<close>, a recursive-descent parser \<open>parse_value\<close> /
    \<open>parse_elems\<close> / \<open>parse_members\<close> with fuel, objects built by
    \<open>obj_set\<close>). Lemmas: printing then parsing gives the value back
    (\<open>parse_value_json_text\<close>, \<open>json_parse_text\<close>) for every \<open>json_value\<close>
    (no \<open>undefined\<close>, distinct keys), by the layers string literal, number, array,
    object.
  \<^item> \<open>JsonProps\<close>: soundness of the parser model: it builds only JSON values
    (\<open>parse_json_value\<close>), every successful step consumes input
    (\<open>parse_consumes\<close>), and more fuel than the length of the text never changes its
    result (\<open>parse_fuel\<close>), by simultaneous computation induction over the three
    parser functions. These are facts of the runtime model, not of the service.
  \<^item> \<open>Concurrent\<close>: calls in flight at the same time. Each of the four methods
    that fetch is split at its \<open>await fetch\<close> into \<open>*_start\<close> (base URL, first
    record, request sent; it returns the frame: \<open>const url\<close> and the request) and
    \<open>*_resume\<close> (the \<open>try\<close> block after the \<open>await\<close> with its \<open>catch\<close>);
    \<open>getAllTasks_split\<close> and the three others prove that the method is the composition
    of its halves. A state \<open>cstate\<close> holds the world, the frames in flight and the
    values settled; \<open>cstep\<close> changes the environment, issues a call (\<open>issue\<close>) or
    settles any call in flight (\<open>settle\<close>); \<open>creachable\<close> starts from the world
    \<open>module_init\<close> leaves. Lemmas: what each half does to the world, that the value a
    frame settles with does not depend on the world it settles in (\<open>resume_value\<close>),
    and the invariant \<open>frames_ok\<close>.
  \<^item> this theory: scenario fixtures and the properties C1-C23.

  \<^bold>\<open>Modelling choices.\<close> The runtime is a parameter (\<open>runtime\<close>): the network
  (any answer to any request), \<open>JSON.parse\<close> (\<open>Inl\<close> of the SyntaxError's message)
  \<open>JSON.stringify\<close> and the clock (\<open>new Date().toISOString()\<close> as a function of
  the world); every property holds for all of them, and the witnesses use a table-driven
  parser that knows the specification's bodies. Every console call is a record appended to the world's
  \<open>console\<close>, in program order. Theory \<open>Client\<close> runs calls one after another;
  theory \<open>Concurrent\<close> lets calls overlap, suspended at \<open>await fetch\<close>, the point
  at which a method first yields (specification \<section>5: suspension only at network
  I/O). There the records of overlapping calls interleave. Strings are
  byte strings: \<open>substring(0, 200)\<close> counts bytes, which is the JavaScript count for
  ASCII text. Numbers are integers, objects are association
  lists in creation order (integer-like keys are not reordered first as in JavaScript),
  inherited properties are not modelled. There are no loops in the program and every
  recursive function of the model is structural, so no fuel or termination argument is
  needed. The one exception is the JSON parser, a recursive descent whose three functions
  call each other: it takes a fuel argument, and \<open>json_parse s\<close> gives it
  \<open>length s + 1\<close>, which is enough because every call but the first consumes a character
  before it recurses; \<open>JsonProps.parse_fuel\<close> proves that any larger fuel gives the
  same result, accepted or rejected, so the fuel is never what decides. The \<open>Json\<close> parser reads strings of 8-bit characters (a \<open>\u\<close>
  escape above \<open>00FF\<close> is rejected) and integers (a fraction or exponent is rejected).

  \<^bold>\<open>What is proved.\<close> C1-C7: the result of the three task methods on every kind of
  reply (HTML, non-ok with a server message, non-ok with a text body, non-ok with a null
  body, ok and parsed, ok and unparsable with and without the delete fallback). C8, C9:
  the health probe never rejects, and its \<open>healthy\<close> field is the server's when the
  payload has one. C10: on the replies where the body is read once and the two HTML tests
  agree, the three methods refine the specification's resolver. C11, C12: the base URL is
  read on every call, and every reachable world has sent only the four requests of the
  specification. C13: one request per call, with its method, URL, headers and body.
  C14: \<open>debugConnection\<close>'s report on every branch. C15-C20, the console: the
  "Error response text" record only ever logs the empty string, the HTML excerpt has at
  most 200 characters, a rejecting task method logs its catch record last and a resolving
  one logs no error record, the order of \<open>getAllTasks\<close>'s records on success, and the
  start-up records stay first in every reachable world. C21: \<open>debugConnection\<close> sends
  the health request, then the task-list request exactly when the probe reports a truthy
  \<open>healthy\<close>. C22, C23, calls in flight at once: in every reachable state each request
  sent belongs to exactly one call and the request and console invariants hold; and every
  settled value is the value the call returns alone from some environment value, whatever
  ran in between (the specification's "no shared mutable state across calls").

  \<^bold>\<open>Findings.\<close> On a non-ok reply whose body is not JSON, the catch block reads the body
  a second time and the method rejects with that \<open>TypeError\<close> instead of
  "HTTP error! status" (C3; the specification's P3 holds only for a null body, C4).
  \<open>{healthy: true, ...health}\<close> lets the server's \<open>healthy\<close> field of any type
  override the flag (C9, against P6's "healthy boolean"). The HTML test is
  case-sensitive where \<section>4.1 asks for a case-insensitive match, so C10 needs
  \<open>html_case_agrees\<close>: a \<open>Text/HTML\<close> page is parsed as JSON instead of rejected as
  HTML. An empty \<open>VITE_API_URL\<close> falls back to the default, since \<open>||\<close> treats
  the empty string as missing. The same double read makes the diagnostic
  \<open>console.error('Error response text:', ...)\<close> useless: it only ever logs the empty
  string (C15). \<open>deleteTask\<close> puts \<open>taskId\<close> into the URL by ToString without
  encoding it (C13): an id with \<open>/\<close>, \<open>?\<close> or \<open>#\<close> addresses another path, and
  an object id becomes \<open>[object Object]\<close>; the specification does not say what an id
  may contain. \<open>createTask(undefined)\<close> posts the JSON content type with no body, as
  \<open>JSON.stringify(undefined)\<close> is \<open>undefined\<close> (C13 with that runtime value).

  \<^bold>\<open>Not modelled.\<close> The UI layer that calls the service (outside the source; modelled
  as the environment of theories \<open>Client\<close> and \<open>Concurrent\<close>), the value of the
  clock, and the formatting the browser applies when it displays a console record. In
  theory \<open>Concurrent\<close> the handler after \<open>await fetch\<close> runs as one step. Its later
  awaits on the body (\<open>response.text()\<close>, \<open>response.json()\<close>) are further points
  where another call could run. That call only appends console records, and it touches
  neither this call's response nor the values it computes, so those points would change
  the order of console records but no value or request. \<open>debugConnection\<close> awaits two methods in
  sequence and is not issued concurrently. The network answers a request by a function of
  the request, so a server whose answers change with the requests it has seen (a
  \<open>getAllTasks\<close> after a \<open>createTask\<close>) is not modelled. The Fetch API, the JSON
  functions and the JavaScript operations are modelled as far as the service uses them.
  The program has no loops and waits only for network replies, which the model's network
  always gives, so it has no liveness property that would not hold by construction: the
  methods are total functions of the world, and C8 and C14 show that the health probe and
  \<open>debugConnection\<close> always resolve.
\<close>

section \<open>Scenario fixtures\<close>

text \<open>
  A stand-in for \<open>JSON.parse\<close> that knows the bodies of the scenarios of the
  specification and rejects every other text, as the real parser rejects the empty body
  and HTML.
\<close>

definition scenario_parse :: json_parser where
  "scenario_parse s =
     (if s = ''[{\"id\":1,\"title\":\"a\"}]'' then Inr (JArr [JObj [(''id'', JNum 1), (''title'', JStr ''a'')]])
      else if s = ''{\"message\":\"DB down\"}'' then Inr (JObj [(''message'', JStr ''DB down'')])
      else if s = ''{\"status\":\"ok\",\"healthy\":\"no\"}''
        then Inr (JObj [(''status'', JStr ''ok''), (''healthy'', JStr ''no'')])
      else Inl ''Unexpected end of JSON input'')"

definition scenario_runtime :: "http_reply \<Rightarrow> runtime" where
  "scenario_runtime rp = \<lparr>rt_net = (\<lambda>_. Inr rp), rt_parse = scenario_parse,
                         rt_stringify = (\<lambda>_. Some ''{\"title\":\"a\"}''),
                         rt_now = (\<lambda>_. ''2024-01-01T00:00:00.000Z'')\<rparr>"

definition start_world :: world where
  "start_world = \<lparr>vite_api_url = None, sent = [], console = []\<rparr>"

definition html_reply :: http_reply where
  "html_reply = \<lparr>rp_status = 200, rp_content_type = Some ''text/html; charset=utf-8'',
                  rp_body = Some ''<html><body>Not Found</body></html>''\<rparr>"

definition db_down_reply :: http_reply where
  "db_down_reply = \<lparr>rp_status = 500, rp_content_type = Some ''application/json'',
                     rp_body = Some ''{\"message\":\"DB down\"}''\<rparr>"

definition text_error_reply :: http_reply where
  "text_error_reply = \<lparr>rp_status = 502, rp_content_type = Some ''text/plain'',
                        rp_body = Some ''Bad Gateway''\<rparr>"

definition empty_error_reply :: http_reply where
  "empty_error_reply = \<lparr>rp_status = 304, rp_content_type = None, rp_body = None\<rparr>"

definition tasks_reply :: http_reply where
  "tasks_reply = \<lparr>rp_status = 200, rp_content_type = Some ''application/json'',
                   rp_body = Some ''[{\"id\":1,\"title\":\"a\"}]''\<rparr>"

definition no_content_reply :: http_reply where
  "no_content_reply = \<lparr>rp_status = 204, rp_content_type = None, rp_body = None\<rparr>"

definition health_reply :: http_reply where
  "health_reply = \<lparr>rp_status = 200, rp_content_type = Some ''application/json'',
                    rp_body = Some ''{\"status\":\"ok\",\"healthy\":\"no\"}''\<rparr>"

lemmas scenario_defs = scenario_runtime_def scenario_parse_def start_world_def html_reply_def
  db_down_reply_def text_error_reply_def empty_error_reply_def tasks_reply_def no_content_reply_def
  health_reply_def

section \<open>The task methods on each kind of reply\<close>

text \<open>
  C1. An HTML reply (a \<open>Content-Type\<close> containing \<open>text/html\<close>) makes
  \<open>getAllTasks\<close>, \<open>createTask\<close> and \<open>deleteTask\<close> reject with
  "Server returned HTML page instead of JSON data", whatever its status and body.
\<close>

theorem html_reply_rejected:
  assumes "is_html_content_type (rp_content_type rp)"
  shows "(rt_net rt (get_request (base_url (vite_api_url w) @ ''/api/tasks'')) = Inr rp
            \<longrightarrow> fst (getAllTasks rt w) = Inl (Error ''Server returned HTML page instead of JSON data''))
       \<and> (rt_net rt (create_request (base_url (vite_api_url w) @ ''/api/tasks'') (rt_stringify rt d)) = Inr rp
            \<longrightarrow> fst (createTask rt d w) = Inl (Error ''Server returned HTML page instead of JSON data''))
       \<and> (rt_net rt (delete_request (base_url (vite_api_url w) @ ''/api/tasks/'' @ js_to_string i)) = Inr rp
            \<longrightarrow> fst (deleteTask rt i w) = Inl (Error ''Server returned HTML page instead of JSON data''))"
  using assms by (simp add: getAllTasks_result createTask_result deleteTask_result checked_result_def json_result_def html_message_def)

text \<open>
  C2. A reply that is not ok (status outside 200..299) and not HTML, whose body parses to an
  object with a truthy \<open>message\<close>, makes the three task methods reject with that message
  (converted by ToString, as \<open>new Error(x)\<close> does).
\<close>

theorem error_reply_server_message:
  assumes "\<not> is_html_content_type (rp_content_type rp)" "\<not> (200 \<le> rp_status rp \<and> rp_status rp \<le> 299)"
    and "rp_body rp = Some b" "rt_parse rt b = Inr (JObj ps)"
    and "map_of ps ''message'' = Some m" "js_truthy m"
  shows "(rt_net rt (get_request (base_url (vite_api_url w) @ ''/api/tasks'')) = Inr rp
            \<longrightarrow> fst (getAllTasks rt w) = Inl (Error (js_to_string m)))
       \<and> (rt_net rt (create_request (base_url (vite_api_url w) @ ''/api/tasks'') (rt_stringify rt d)) = Inr rp
            \<longrightarrow> fst (createTask rt d w) = Inl (Error (js_to_string m)))
       \<and> (rt_net rt (delete_request (base_url (vite_api_url w) @ ''/api/tasks/'' @ js_to_string i)) = Inr rp
            \<longrightarrow> fst (deleteTask rt i w) = Inl (Error (js_to_string m)))"
  using assms
  by (simp add: getAllTasks_result createTask_result deleteTask_result checked_result_def json_result_def status_error_def
      resp_ok_def body_text_def js_or_def)

text \<open>
  C3. A reply that is not ok and not HTML, with a non-null body that is not JSON, makes the
  three task methods reject with the \<open>TypeError\<close> of reading a consumed body:
  \<open>response.json()\<close> has read the body and the catch block's \<open>response.text()\<close>
  reads it again. The generic "HTTP error! status" message is never thrown here.
\<close>

theorem error_reply_text_body_reread:
  assumes "\<not> is_html_content_type (rp_content_type rp)" "\<not> (200 \<le> rp_status rp \<and> rp_status rp \<le> 299)"
    and "rp_body rp = Some b" "rt_parse rt b = Inl m"
  shows "(rt_net rt (get_request (base_url (vite_api_url w) @ ''/api/tasks'')) = Inr rp
            \<longrightarrow> fst (getAllTasks rt w) = Inl (TypeError body_used_message))
       \<and> (rt_net rt (create_request (base_url (vite_api_url w) @ ''/api/tasks'') (rt_stringify rt d)) = Inr rp
            \<longrightarrow> fst (createTask rt d w) = Inl (TypeError body_used_message))
       \<and> (rt_net rt (delete_request (base_url (vite_api_url w) @ ''/api/tasks/'' @ js_to_string i)) = Inr rp
            \<longrightarrow> fst (deleteTask rt i w) = Inl (TypeError body_used_message))"
  using assms
  by (simp add: getAllTasks_result createTask_result deleteTask_result checked_result_def json_result_def status_error_def
      resp_ok_def body_text_def)

text \<open>
  C4. A reply that is not ok and not HTML, with a null body (which the parser rejects), makes
  the three task methods reject with "HTTP error! status: " followed by the status in
  decimal.
\<close>

theorem error_reply_null_body_generic:
  assumes "\<not> is_html_content_type (rp_content_type rp)" "\<not> (200 \<le> rp_status rp \<and> rp_status rp \<le> 299)"
    and "rp_body rp = None" "rt_parse rt [] = Inl m"
  shows "(rt_net rt (get_request (base_url (vite_api_url w) @ ''/api/tasks'')) = Inr rp
            \<longrightarrow> fst (getAllTasks rt w) = Inl (Error (status_message (rp_status rp))))
       \<and> (rt_net rt (create_request (base_url (vite_api_url w) @ ''/api/tasks'') (rt_stringify rt d)) = Inr rp
            \<longrightarrow> fst (createTask rt d w) = Inl (Error (status_message (rp_status rp))))
       \<and> (rt_net rt (delete_request (base_url (vite_api_url w) @ ''/api/tasks/'' @ js_to_string i)) = Inr rp
            \<longrightarrow> fst (deleteTask rt i w) = Inl (Error (status_message (rp_status rp))))"
  using assms
  by (simp add: getAllTasks_result createTask_result deleteTask_result checked_result_def json_result_def status_error_def
      resp_ok_def body_text_def)

text \<open>
  C5. A reply that is ok and not HTML, whose body parses to \<open>v\<close>, makes the three task
  methods return exactly \<open>v\<close>.
\<close>

theorem ok_reply_parsed_value:
  assumes "\<not> is_html_content_type (rp_content_type rp)" "200 \<le> rp_status rp \<and> rp_status rp \<le> 299"
    and "rt_parse rt (case rp_body rp of None \<Rightarrow> [] | Some b \<Rightarrow> b) = Inr v"
  shows "(rt_net rt (get_request (base_url (vite_api_url w) @ ''/api/tasks'')) = Inr rp
            \<longrightarrow> fst (getAllTasks rt w) = Inr v)
       \<and> (rt_net rt (create_request (base_url (vite_api_url w) @ ''/api/tasks'') (rt_stringify rt d)) = Inr rp
            \<longrightarrow> fst (createTask rt d w) = Inr v)
       \<and> (rt_net rt (delete_request (base_url (vite_api_url w) @ ''/api/tasks/'' @ js_to_string i)) = Inr rp
            \<longrightarrow> fst (deleteTask rt i w) = Inr v)"
  using assms
  by (simp add: getAllTasks_result createTask_result deleteTask_result checked_result_def json_result_def resp_ok_def
      resp_json_fresh ecatch_apply)

text \<open>
  C6. \<open>deleteTask\<close> on a reply that is ok and not HTML, whose body does not parse (an empty
  204 reply), returns \<open>{success: true, id: taskId}\<close>.
\<close>

theorem delete_unparsable_fallback:
  assumes "\<not> is_html_content_type (rp_content_type rp)" "200 \<le> rp_status rp \<and> rp_status rp \<le> 299"
    and "rt_parse rt (case rp_body rp of None \<Rightarrow> [] | Some b \<Rightarrow> b) = Inl m"
    and "rt_net rt (delete_request (base_url (vite_api_url w) @ ''/api/tasks/'' @ js_to_string i)) = Inr rp"
  shows "fst (deleteTask rt i w) = Inr (JObj [(''success'', JBool True), (''id'', i)])"
  using assms
  by (simp add: deleteTask_result checked_result_def json_result_def resp_ok_def resp_json_fresh ecatch_apply
      eret_apply delete_fallback_def split: sum.splits)

text \<open>
  C7. \<open>getAllTasks\<close> and \<open>createTask\<close> on a reply that is ok and not HTML, whose body does
  not parse, reject with the parser's \<open>SyntaxError\<close>.
\<close>

theorem ok_reply_unparsable_rejected:
  assumes "\<not> is_html_content_type (rp_content_type rp)" "200 \<le> rp_status rp \<and> rp_status rp \<le> 299"
    and "rt_parse rt (case rp_body rp of None \<Rightarrow> [] | Some b \<Rightarrow> b) = Inl m"
  shows "(rt_net rt (get_request (base_url (vite_api_url w) @ ''/api/tasks'')) = Inr rp
            \<longrightarrow> fst (getAllTasks rt w) = Inl (SyntaxError m))
       \<and> (rt_net rt (create_request (base_url (vite_api_url w) @ ''/api/tasks'') (rt_stringify rt d)) = Inr rp
            \<longrightarrow> fst (createTask rt d w) = Inl (SyntaxError m))"
  using assms
  by (simp add: getAllTasks_result createTask_result checked_result_def json_result_def resp_ok_def resp_json_fresh)

text \<open>
  C8. \<open>checkHealth\<close> never rejects: for every network outcome, status and body it returns
  an object with a \<open>healthy\<close> property.
\<close>

theorem checkHealth_never_rejects:
  "\<exists>ps. fst (checkHealth rt w) = Inr (JObj ps) \<and> ''healthy'' \<in> fst ` set ps"
proof -
  have "''healthy'' \<in> fst ` set (js_spread [(''healthy'', JBool True)] v)" for v
    using keys_js_spread [of "[(''healthy'', JBool True)]" v] by auto
  then show ?thesis
    by (auto simp: checkHealth_result Let_def split: sum.splits)
qed

text \<open>
  C9. On an ok health reply whose payload is an object with a \<open>healthy\<close> field, the
  \<open>healthy\<close> property \<open>checkHealth\<close> returns is the server's value (the last
  occurrence in the payload), of whatever type: the spread overrides \<open>healthy: true\<close>.
\<close>

theorem checkHealth_healthy_from_payload:
  assumes "200 \<le> rp_status rp \<and> rp_status rp \<le> 299"
    and "rt_parse rt (case rp_body rp of None \<Rightarrow> [] | Some b \<Rightarrow> b) = Inr (JObj qs)"
    and "map_of (rev qs) ''healthy'' = Some h"
    and "rt_net rt (get_request (base_url (vite_api_url w) @ ''/health'')) = Inr rp"
  shows "\<exists>ps. fst (checkHealth rt w) = Inr (JObj ps) \<and> js_get (JObj ps) ''healthy'' = Inr h"
  using assms
  by (simp add: checkHealth_result resp_ok_def map_of_obj_set_all)

text \<open>
  C10. Refinement of the specification's resolver (\<section>4.1): on every reply on which the
  body is read at most once (HTML, ok, a null body, or a body that parses to a value other
  than \<open>null\<close>) and whose \<open>Content-Type\<close> the code's case-sensitive HTML test
  classifies as the contract's case-insensitive test does, the normalized result of each
  task method is the one the contract \<open>resolve\<close> prescribes, with the empty-body
  fallback for \<open>deleteTask\<close> only. The second condition is needed: on \<open>Text/HTML\<close>
  the contract prescribes the HTML error and the code does not take that branch
  (\<open>html_case_diverges\<close>).
\<close>

theorem task_methods_refine_resolver:
  assumes "single_read_safe (rt_parse rt) rp" and "html_case_agrees rp"
  shows "(rt_net rt (get_request (base_url (vite_api_url w) @ ''/api/tasks'')) = Inr rp
            \<longrightarrow> normalize (fst (getAllTasks rt w)) = resolve (rt_parse rt) rp None)
       \<and> (rt_net rt (create_request (base_url (vite_api_url w) @ ''/api/tasks'') (rt_stringify rt d)) = Inr rp
            \<longrightarrow> normalize (fst (createTask rt d w)) = resolve (rt_parse rt) rp None)
       \<and> (rt_net rt (delete_request (base_url (vite_api_url w) @ ''/api/tasks/'' @ js_to_string i)) = Inr rp
            \<longrightarrow> normalize (fst (deleteTask rt i w)) = resolve (rt_parse rt) rp (Some (delete_fallback i)))"
  using handler_refines [OF assms] delete_handler_refines [OF assms]
  by (simp add: getAllTasks_result createTask_result deleteTask_result)

text \<open>
  C11. The base URL is read on every call: after the environment value becomes \<open>e\<close>,
  every request the next call sends, whichever operation it is, starts with the base URL
  of \<open>e\<close> (the value itself, or \<open>http://localhost:3000\<close> when it is unset or empty).
\<close>

theorem api_url_read_per_call:
  "\<forall>rq \<in> set (new_requests w (run rt w [SetApiUrl e, Invoke c])). prefix (base_url e) (rq_url rq)"
proof -
  let ?w = "w\<lparr>vite_api_url := e\<rparr>"
  have "call_effect ?w (snd (call_method rt c ?w))" by (rule call_method_effect)
  moreover have "new_requests w (snd (call_method rt c ?w)) = new_requests ?w (snd (call_method rt c ?w))"
    by (simp add: new_requests_def)
  ultimately show ?thesis by (simp add: run_def call_effect_def)
qed

text \<open>
  C12. In every world reachable by a sequence of calls and changes of the environment,
  every request sent is one of the four of the specification's \<section>6: \<open>GET\<close> of
  \<open>/api/tasks\<close> or \<open>/health\<close> with no headers and no body, \<open>POST\<close> of
  \<open>/api/tasks\<close> with the JSON content type, \<open>DELETE\<close> of \<open>/api/tasks/<id>\<close>.
\<close>

theorem reachable_requests_ok:
  assumes "reachable rt w"
  shows "\<forall>rq \<in> set (sent w). endpoint_ok rq"
  using assms
proof (induction rule: reachable.induct)
  case (start e)
  then show ?case by (simp add: module_init_world)
next
  case (step w ev)
  show ?case
  proof (cases ev)
    case (SetApiUrl e)
    with step.IH show ?thesis by simp
  next
    case (Invoke c)
    have "call_effect w (snd (call_method rt c w))" by (rule call_method_effect)
    then obtain new where "sent (snd (call_method rt c w)) = sent w @ new"
      and "\<forall>rq \<in> set new. endpoint_ok rq"
      by (auto simp: call_effect_def new_requests_def prefix_def)
    with step.IH Invoke show ?thesis by auto
  qed
qed

text \<open>
  C13. Each task method and the health probe make exactly one attempt: they append one
  request to those sent, with the method, URL, headers and body of the specification's
  \<section>6, whatever the network answers.
\<close>

theorem methods_send_one_request:
  "sent (snd (getAllTasks rt w)) = sent w @
     [\<lparr>rq_method = GET, rq_url = base_url (vite_api_url w) @ ''/api/tasks'', rq_headers = [], rq_body = None\<rparr>]
   \<and> sent (snd (createTask rt d w)) = sent w @
     [\<lparr>rq_method = POST, rq_url = base_url (vite_api_url w) @ ''/api/tasks'',
       rq_headers = [(''Content-Type'', ''application/json'')], rq_body = rt_stringify rt d\<rparr>]
   \<and> sent (snd (deleteTask rt i w)) = sent w @
     [\<lparr>rq_method = DELETE, rq_url = base_url (vite_api_url w) @ ''/api/tasks/'' @ js_to_string i,
       rq_headers = [], rq_body = None\<rparr>]
   \<and> sent (snd (checkHealth rt w)) = sent w @
     [\<lparr>rq_method = GET, rq_url = base_url (vite_api_url w) @ ''/health'', rq_headers = [], rq_body = None\<rparr>]"
  by (simp add: methods_sent get_request_def create_request_def delete_request_def)

text \<open>
  C14. \<open>debugConnection\<close> never rejects and reports, given the health probe's result:
  success with the task count when \<open>health.healthy\<close> is truthy and the task list and its
  \<open>length\<close> can be read; the health object alone when it is falsy; the error's message
  when the task list rejects or its \<open>length\<close> cannot be read.
\<close>

theorem debugConnection_reports:
  assumes "fst (checkHealth rt w) = Inr health"
  shows "fst (debugConnection rt w) = Inr
    (let failed = (\<lambda>e. JObj [(''success'', JBool False), (''error'', JStr (err_message e))]) in
     case js_get health ''healthy'' of
       Inl e \<Rightarrow> failed e
     | Inr h \<Rightarrow>
         if js_truthy h then
           (case fst (getAllTasks rt w) of
              Inl e \<Rightarrow> failed e
            | Inr tasks \<Rightarrow>
                (case js_get tasks ''length'' of
                   Inl e \<Rightarrow> failed e
                 | Inr n \<Rightarrow> JObj [(''success'', JBool True), (''health'', health), (''tasksCount'', n)]))
         else JObj [(''success'', JBool False), (''health'', health)])"
proof -
  let ?w1 = "log_to (Log, [lbl magnifier ''Using base URL:'', AVal (fallback_label (vite_api_url w))])
              (log_to (Log, [lbl magnifier ''VITE_API_URL from env:'', AVal (env_value (vite_api_url w))])
                (log_to (Log, [lbl magnifier ''=== DEBUG CONNECTION TEST ==='']) w))"
  obtain w2 where ch: "checkHealth rt ?w1 = (Inr health, w2)"
    using assms checkHealth_env_only [of ?w1 w rt] by (cases "checkHealth rt ?w1") simp
  have e2: "vite_api_url w2 = vite_api_url w"
    using methods_env(4) [of rt ?w1] ch by simp
  let ?w3 = "log_to (Log, [lbl magnifier ''Testing tasks endpoint...''])
               (log_to (Log, [lbl magnifier ''Health check result:'', AVal health]) w2)"
  obtain y w4 where gt: "getAllTasks rt ?w3 = (y, w4)" by (cases "getAllTasks rt ?w3")
  have y: "fst (getAllTasks rt w) = y"
    using getAllTasks_env_only [of ?w3 w rt] gt e2 by simp
  show ?thesis
    by (simp add: debugConnection_def st_simps ch gt y Let_def split: sum.splits)
qed

section \<open>The console\<close>

text \<open>
  C15. The record \<open>console.error('Error response text:', errorText.substring(0, 200))\<close>
  only ever carries the empty string: in every reachable world, every such record on the
  console logs \<open>''\<close>. A non-null body has been consumed by \<open>response.json()\<close>, so
  \<open>response.text()\<close> throws before the log; only a null body reaches it.
\<close>

theorem error_text_log_empty:
  assumes "reachable rt w"
    and "(Err, [lbl cross_mark ''Error response text:'', AVal (JStr x)]) \<in> set (console w)"
  shows "x = []"
proof -
  have "list_all log_ok (console w)" using assms(1) by (rule reachable_log_ok)
  with assms(2) show ?thesis by (auto simp: list_all_iff lbl_def)
qed

text \<open>
  C16. The HTML excerpt the task methods log is bounded: in every reachable world, every
  "Received HTML instead of JSON" record carries at most 200 characters.
\<close>

theorem html_excerpt_bounded:
  assumes "reachable rt w"
    and "(Err, [lbl cross_mark ''Received HTML instead of JSON. First 200 chars:'', AVal (JStr x)]) \<in> set (console w)"
  shows "length x \<le> 200"
proof -
  have "list_all log_ok (console w)" using assms(1) by (rule reachable_log_ok)
  with assms(2) show ?thesis by (auto simp: list_all_iff lbl_def)
qed

text \<open>
  C17. A task method that rejects with an error logs, as its last console record, the
  \<open>catch\<close> block's record naming the method, with the error's message, the URL of the
  request, the method's argument (\<open>data\<close>, \<open>taskId\<close>) and a timestamp.
\<close>

theorem rejection_logged_last:
  "(fst (getAllTasks rt w) = Inl e \<longrightarrow> (\<exists>ts. last (console (snd (getAllTasks rt w))) =
       error_record ''getAllTasks'' [(''message'', JStr (err_message e)),
         (''url'', JStr (base_url (vite_api_url w) @ ''/api/tasks'')), (''timestamp'', JStr ts)]))
   \<and> (fst (createTask rt d w) = Inl e \<longrightarrow> (\<exists>ts. last (console (snd (createTask rt d w))) =
       error_record ''createTask'' [(''message'', JStr (err_message e)),
         (''url'', JStr (base_url (vite_api_url w) @ ''/api/tasks'')), (''data'', d), (''timestamp'', JStr ts)]))
   \<and> (fst (deleteTask rt i w) = Inl e \<longrightarrow> (\<exists>ts. last (console (snd (deleteTask rt i w))) =
       error_record ''deleteTask'' [(''message'', JStr (err_message e)),
         (''url'', JStr (base_url (vite_api_url w) @ ''/api/tasks/'' @ js_to_string i)), (''taskId'', i),
         (''timestamp'', JStr ts)]))"
  by (auto simp: getAllTasks_run createTask_run deleteTask_run Let_def split: sum.splits prod.splits)

text \<open>
  C18. A task method that resolves writes no \<open>console.error\<close> record: every record it
  appends is a \<open>console.log\<close>.
\<close>

theorem resolved_calls_log_no_errors:
  "(fst (getAllTasks rt w) = Inr v \<longrightarrow>
      list_all (\<lambda>x. fst x = Log) (drop (length (console w)) (console (snd (getAllTasks rt w)))))
   \<and> (fst (createTask rt d w) = Inr v \<longrightarrow>
      list_all (\<lambda>x. fst x = Log) (drop (length (console w)) (console (snd (createTask rt d w)))))
   \<and> (fst (deleteTask rt i w) = Inr v \<longrightarrow>
      list_all (\<lambda>x. fst x = Log) (drop (length (console w)) (console (snd (deleteTask rt i w)))))"
  by (auto simp: getAllTasks_run createTask_run deleteTask_run Let_def split: sum.splits prod.splits
      dest!: getAllTasks_response_ok createTask_response_ok deleteTask_response_ok)

text \<open>
  C19. The order of \<open>getAllTasks\<close>'s diagnostics on success: it appends exactly four
  records, the URL it fetches, the status and the \<open>Content-Type\<close> of the reply, then the
  data it returns.
\<close>

theorem getAllTasks_success_log:
  assumes "fst (getAllTasks rt w) = Inr v"
  shows "\<exists>rp. rt_net rt (get_request (base_url (vite_api_url w) @ ''/api/tasks'')) = Inr rp
     \<and> console (snd (getAllTasks rt w)) = console w @
         [(Log, [lbl satellite ''Fetching tasks from:'', AVal (JStr (base_url (vite_api_url w) @ ''/api/tasks''))]),
          (Log, [lbl satellite ''Response status:'', AVal (JNum (rp_status rp))]),
          (Log, [lbl satellite ''Response Content-Type:'', AVal (header_value (rp_content_type rp))]),
          (Log, [lbl check_mark ''Tasks data received:'', AVal v])]"
  using assms
  by (auto simp: getAllTasks_run Let_def split: sum.splits prod.splits dest!: getAllTasks_response_ok)

text \<open>
  C20. The module's start-up records stay first: in every reachable world the console
  begins with the \<open>API_BASE_URL\<close> record and the "TaskService initialized" record, both
  computed from the environment value at load time; no call removes or reorders them.
\<close>

theorem startup_records_first:
  assumes "reachable rt w"
  shows "\<exists>e. take 2 (console w) =
           [(Log, [lbl wrench ''API_BASE_URL from env:'', AVal (JStr (base_url e))]),
            (Log, [lbl rocket ''TaskService initialized with base URL:'', AVal (fallback_label e)])]"
  using assms
proof (induction rule: reachable.induct)
  case (start e)
  show ?case by (rule exI [of _ e]) (simp add: module_init_world)
next
  case (step w ev)
  then obtain e where e: "take 2 (console w) = [(Log, [lbl wrench ''API_BASE_URL from env:'', AVal (JStr (base_url e))]),
            (Log, [lbl rocket ''TaskService initialized with base URL:'', AVal (fallback_label e)])]"
    by blast
  have "length (take 2 (console w)) = 2" using e by simp
  then have len: "2 \<le> length (console w)" by simp
  have "prefix (console w) (console (client_step rt w ev))"
    using call_method_effect [of w rt] by (cases ev) (simp_all add: call_effect_def)
  then obtain c where "console (client_step rt w ev) = console w @ c" by (auto simp: prefix_def)
  with len have "take 2 (console (client_step rt w ev)) = take 2 (console w)" by simp
  with e show ?case by (rule_tac x = e in exI) simp
qed

text \<open>
  C21. The requests \<open>debugConnection\<close> sends, in order: the health request, then the
  task-list request exactly when the probe's \<open>healthy\<close> property can be read and is
  truthy; nothing else, whatever the task list returns.
\<close>

theorem debugConnection_requests:
  assumes "fst (checkHealth rt w) = Inr health"
  shows "sent (snd (debugConnection rt w)) = sent w @
     get_request (base_url (vite_api_url w) @ ''/health'') #
     (case js_get health ''healthy'' of
        Inr h \<Rightarrow> if js_truthy h then [get_request (base_url (vite_api_url w) @ ''/api/tasks'')] else []
      | Inl _ \<Rightarrow> [])"
proof -
  let ?w1 = "log_to (Log, [lbl magnifier ''Using base URL:'', AVal (fallback_label (vite_api_url w))])
              (log_to (Log, [lbl magnifier ''VITE_API_URL from env:'', AVal (env_value (vite_api_url w))])
                (log_to (Log, [lbl magnifier ''=== DEBUG CONNECTION TEST ==='']) w))"
  obtain w2 where ch: "checkHealth rt ?w1 = (Inr health, w2)"
    using assms checkHealth_env_only [of ?w1 w rt] by (cases "checkHealth rt ?w1") simp
  have e2: "vite_api_url w2 = vite_api_url w" using methods_env(4) [of rt ?w1] ch by simp
  have s2: "sent w2 = sent w @ [get_request (base_url (vite_api_url w) @ ''/health'')]"
    using methods_sent(4) [of rt ?w1] ch by simp
  let ?w3 = "log_to (Log, [lbl magnifier ''Testing tasks endpoint...''])
               (log_to (Log, [lbl magnifier ''Health check result:'', AVal health]) w2)"
  obtain y w4 where gt: "getAllTasks rt ?w3 = (y, w4)" by (cases "getAllTasks rt ?w3")
  have s4: "sent w4 = sent w2 @ [get_request (base_url (vite_api_url w) @ ''/api/tasks'')]"
    using methods_sent(1) [of rt ?w3] gt e2 by simp
  show ?thesis
    by (simp add: debugConnection_def st_simps ch gt s2 s4 split: sum.splits)
qed

section \<open>Calls in flight at once\<close>

text \<open>
  C22 (invariant). In every reachable state of the concurrent client each request sent
  belongs to exactly one call, in flight or settled; the request of every call in flight
  has been sent; every request is one of the four of the specification; and every console
  record satisfies \<open>log_ok\<close>, whatever the interleaving.
\<close>

theorem concurrent_requests_accounted:
  assumes "creachable rt s"
  shows "length (sent (cworld s)) = length (inflight s) + length (settled s)
         \<and> (\<forall>(c, f) \<in> set (inflight s). snd f \<in> set (sent (cworld s)))
         \<and> list_all endpoint_ok (sent (cworld s)) \<and> list_all log_ok (console (cworld s))"
  using assms
proof (induction rule: creachable.induct)
  case (start e)
  show ?case by (simp add: cinit_def module_init_world lbl_def)
next
  case (step s t)
  from step.hyps(2) show ?case
  proof (cases rule: cstep.cases)
    case (set_env e)
    with step.IH show ?thesis by simp
  next
    case (call c)
    with step.IH call_effect_ok [OF call_start_effect [of "cworld s" rt c]] show ?thesis
      by (auto simp: call_start_sent)
  next
    case (answer i)
    obtain c f where cf: "inflight s ! i = (c, f)" by (cases "inflight s ! i")
    have "call_effect (cworld s) (cworld t)"
      using answer cf by (simp add: settle_run resume_effect)
    with step.IH answer set_take_drop_subset [of i "inflight s"] call_effect_ok show ?thesis
      by (auto simp: min_def)
  qed
qed

text \<open>
  C23 (safety). The calls do not disturb each other: whatever calls run in between and
  whatever the environment becomes, every value a call settles with in the concurrent
  client is the value that call returns when it runs alone, from the environment value it
  was issued under.
\<close>

theorem settled_values_sequential:
  assumes "creachable rt s" "(c, x) \<in> set (settled s)"
  shows "\<exists>e. x = fst (call_method rt (fcall c) \<lparr>vite_api_url = e, sent = [], console = []\<rparr>)"
  using creachable_frames_ok [OF assms(1)] assms(2) by (auto simp: frames_ok_def)

section \<open>Witnesses: the scenarios of the specification\<close>

theorem html_reply_rejected_witness:
  "fst (getAllTasks (scenario_runtime html_reply) start_world) = Inl (Error ''Server returned HTML page instead of JSON data'')
   \<and> fst (createTask (scenario_runtime html_reply) (JObj [(''title'', JStr ''a'')]) start_world)
       = Inl (Error ''Server returned HTML page instead of JSON data'')
   \<and> fst (deleteTask (scenario_runtime html_reply) (JNum 5) start_world) = Inl (Error ''Server returned HTML page instead of JSON data'')"
proof -
  have "is_html_content_type (rp_content_type html_reply)"
    by (simp add: html_reply_def is_html_content_type_def)
  from html_reply_rejected [OF this, of "scenario_runtime html_reply" start_world
      "JObj [(''title'', JStr ''a'')]" "JNum 5"]
  show ?thesis by (simp add: scenario_runtime_def)
qed

theorem error_reply_server_message_witness:
  "fst (getAllTasks (scenario_runtime db_down_reply) start_world) = Inl (Error ''DB down'')
   \<and> fst (createTask (scenario_runtime db_down_reply) (JObj [(''title'', JStr ''a'')]) start_world)
       = Inl (Error ''DB down'')
   \<and> fst (deleteTask (scenario_runtime db_down_reply) (JNum 5) start_world) = Inl (Error ''DB down'')"
proof -
  have h: "\<not> is_html_content_type (rp_content_type db_down_reply)"
    "\<not> (200 \<le> rp_status db_down_reply \<and> rp_status db_down_reply \<le> 299)"
    "rp_body db_down_reply = Some ''{\"message\":\"DB down\"}''"
    "rt_parse (scenario_runtime db_down_reply) ''{\"message\":\"DB down\"}''
       = Inr (JObj [(''message'', JStr ''DB down'')])"
    "map_of [(''message'', JStr ''DB down'')] ''message'' = Some (JStr ''DB down'')"
    "js_truthy (JStr ''DB down'')"
    by (simp_all add: scenario_defs is_html_content_type_def)
  from error_reply_server_message [OF h, of start_world "JObj [(''title'', JStr ''a'')]" "JNum 5"]
  show ?thesis by (simp add: scenario_runtime_def)
qed

theorem error_reply_text_body_reread_witness:
  "fst (getAllTasks (scenario_runtime text_error_reply) start_world) = Inl (TypeError body_used_message)
   \<and> fst (createTask (scenario_runtime text_error_reply) (JObj [(''title'', JStr ''a'')]) start_world)
       = Inl (TypeError body_used_message)
   \<and> fst (deleteTask (scenario_runtime text_error_reply) (JNum 5) start_world)
       = Inl (TypeError body_used_message)"
proof -
  have h: "\<not> is_html_content_type (rp_content_type text_error_reply)"
    "\<not> (200 \<le> rp_status text_error_reply \<and> rp_status text_error_reply \<le> 299)"
    "rp_body text_error_reply = Some ''Bad Gateway''"
    "rt_parse (scenario_runtime text_error_reply) ''Bad Gateway'' = Inl ''Unexpected end of JSON input''"
    by (simp_all add: scenario_defs is_html_content_type_def)
  from error_reply_text_body_reread [OF h, of start_world "JObj [(''title'', JStr ''a'')]" "JNum 5"]
  show ?thesis by (simp add: scenario_runtime_def)
qed

theorem error_reply_null_body_generic_witness:
  "fst (getAllTasks (scenario_runtime empty_error_reply) start_world)
     = Inl (Error ''HTTP error! status: 304'')
   \<and> fst (createTask (scenario_runtime empty_error_reply) (JObj [(''title'', JStr ''a'')]) start_world)
     = Inl (Error ''HTTP error! status: 304'')
   \<and> fst (deleteTask (scenario_runtime empty_error_reply) (JNum 5) start_world)
     = Inl (Error ''HTTP error! status: 304'')"
proof -
  have h: "\<not> is_html_content_type (rp_content_type empty_error_reply)"
    "\<not> (200 \<le> rp_status empty_error_reply \<and> rp_status empty_error_reply \<le> 299)"
    "rp_body empty_error_reply = None"
    "rt_parse (scenario_runtime empty_error_reply) [] = Inl ''Unexpected end of JSON input''"
    by (simp_all add: scenario_defs is_html_content_type_def)
  have msg: "status_message (rp_status empty_error_reply) = ''HTTP error! status: 304''"
    by (simp add: empty_error_reply_def) code_simp
  from error_reply_null_body_generic [OF h, of start_world "JObj [(''title'', JStr ''a'')]" "JNum 5"]
  show ?thesis by (simp add: scenario_runtime_def msg)
qed

theorem ok_reply_parsed_value_witness:
  "fst (getAllTasks (scenario_runtime tasks_reply) start_world)
     = Inr (JArr [JObj [(''id'', JNum 1), (''title'', JStr ''a'')]])
   \<and> fst (createTask (scenario_runtime tasks_reply) (JObj [(''title'', JStr ''a'')]) start_world)
     = Inr (JArr [JObj [(''id'', JNum 1), (''title'', JStr ''a'')]])
   \<and> fst (deleteTask (scenario_runtime tasks_reply) (JNum 1) start_world)
     = Inr (JArr [JObj [(''id'', JNum 1), (''title'', JStr ''a'')]])"
proof -
  have h: "\<not> is_html_content_type (rp_content_type tasks_reply)"
    "200 \<le> rp_status tasks_reply \<and> rp_status tasks_reply \<le> 299"
    "rt_parse (scenario_runtime tasks_reply) (case rp_body tasks_reply of None \<Rightarrow> [] | Some b \<Rightarrow> b)
       = Inr (JArr [JObj [(''id'', JNum 1), (''title'', JStr ''a'')]])"
    by (simp_all add: scenario_defs is_html_content_type_def)
  from ok_reply_parsed_value [OF h, of start_world "JObj [(''title'', JStr ''a'')]" "JNum 1"]
  show ?thesis by (simp add: scenario_runtime_def)
qed

theorem delete_unparsable_fallback_witness:
  "fst (deleteTask (scenario_runtime no_content_reply) (JNum 5) start_world)
     = Inr (JObj [(''success'', JBool True), (''id'', JNum 5)])"
proof -
  have h: "\<not> is_html_content_type (rp_content_type no_content_reply)"
    "200 \<le> rp_status no_content_reply \<and> rp_status no_content_reply \<le> 299"
    "rt_parse (scenario_runtime no_content_reply) (case rp_body no_content_reply of None \<Rightarrow> [] | Some b \<Rightarrow> b)
       = Inl ''Unexpected end of JSON input''"
    "rt_net (scenario_runtime no_content_reply)
       (delete_request (base_url (vite_api_url start_world) @ ''/api/tasks/'' @ js_to_string (JNum 5)))
       = Inr no_content_reply"
    by (simp_all add: scenario_defs is_html_content_type_def)
  from delete_unparsable_fallback [OF h] show ?thesis .
qed

theorem ok_reply_unparsable_rejected_witness:
  "fst (getAllTasks (scenario_runtime no_content_reply) start_world)
     = Inl (SyntaxError ''Unexpected end of JSON input'')
   \<and> fst (createTask (scenario_runtime no_content_reply) (JObj [(''title'', JStr ''a'')]) start_world)
     = Inl (SyntaxError ''Unexpected end of JSON input'')"
proof -
  have h: "\<not> is_html_content_type (rp_content_type no_content_reply)"
    "200 \<le> rp_status no_content_reply \<and> rp_status no_content_reply \<le> 299"
    "rt_parse (scenario_runtime no_content_reply) (case rp_body no_content_reply of None \<Rightarrow> [] | Some b \<Rightarrow> b)
       = Inl ''Unexpected end of JSON input''"
    by (simp_all add: scenario_defs is_html_content_type_def)
  from ok_reply_unparsable_rejected [OF h, of start_world "JObj [(''title'', JStr ''a'')]"]
  show ?thesis by (simp add: scenario_runtime_def)
qed

theorem checkHealth_healthy_from_payload_witness:
  "\<exists>ps. fst (checkHealth (scenario_runtime health_reply) start_world) = Inr (JObj ps)
        \<and> js_get (JObj ps) ''healthy'' = Inr (JStr ''no'')"
proof -
  have h: "200 \<le> rp_status health_reply \<and> rp_status health_reply \<le> 299"
    "rt_parse (scenario_runtime health_reply) (case rp_body health_reply of None \<Rightarrow> [] | Some b \<Rightarrow> b)
       = Inr (JObj [(''status'', JStr ''ok''), (''healthy'', JStr ''no'')])"
    "map_of (rev [(''status'', JStr ''ok''), (''healthy'', JStr ''no'')]) ''healthy'' = Some (JStr ''no'')"
    "rt_net (scenario_runtime health_reply) (get_request (base_url (vite_api_url start_world) @ ''/health''))
       = Inr health_reply"
    by (simp_all add: scenario_defs)
  from checkHealth_healthy_from_payload [OF h] show ?thesis .
qed

theorem task_methods_refine_resolver_witness:
  "normalize (fst (getAllTasks (scenario_runtime db_down_reply) start_world))
     = resolve scenario_parse db_down_reply None
   \<and> normalize (fst (createTask (scenario_runtime db_down_reply) (JObj [(''title'', JStr ''a'')]) start_world))
     = resolve scenario_parse db_down_reply None
   \<and> normalize (fst (deleteTask (scenario_runtime db_down_reply) (JNum 5) start_world))
     = resolve scenario_parse db_down_reply (Some (delete_fallback (JNum 5)))"
proof -
  have h: "single_read_safe (rt_parse (scenario_runtime db_down_reply)) db_down_reply"
    by (simp add: single_read_safe_def scenario_defs)
  have a: "html_case_agrees db_down_reply"
    by (simp add: html_case_agrees_def spec_is_html_def is_html_content_type_def ascii_lower_def db_down_reply_def)
  from task_methods_refine_resolver [OF h a, of start_world "JObj [(''title'', JStr ''a'')]" "JNum 5"]
  show ?thesis by (simp add: scenario_runtime_def)
qed

theorem api_url_read_per_call_witness:
  "new_requests start_world (run (scenario_runtime tasks_reply) start_world
       [SetApiUrl (Some ''https://api.example.com''), Invoke GetAllTasks])
     = [get_request ''https://api.example.com/api/tasks'']
   \<and> prefix ''https://api.example.com'' (rq_url (get_request ''https://api.example.com/api/tasks''))"
proof -
  have b: "base_url (Some ''https://api.example.com'') = ''https://api.example.com''"
    by (simp add: base_url_def)
  have n: "new_requests start_world (run (scenario_runtime tasks_reply) start_world
       [SetApiUrl (Some ''https://api.example.com''), Invoke GetAllTasks])
     = [get_request ''https://api.example.com/api/tasks'']"
    by (simp add: run_def new_requests_def methods_sent start_world_def b)
  from api_url_read_per_call [of start_world "scenario_runtime tasks_reply"
      "Some ''https://api.example.com''" GetAllTasks]
  have "prefix ''https://api.example.com'' (rq_url (get_request ''https://api.example.com/api/tasks''))"
    by (simp add: n b)
  with n show ?thesis by simp
qed

theorem reachable_requests_ok_witness:
  "reachable (scenario_runtime tasks_reply)
     (run (scenario_runtime tasks_reply) (snd (module_init start_world))
        [Invoke GetAllTasks, SetApiUrl (Some ''https://api.example.com''), Invoke (DeleteTask (JNum 5))])
   \<and> list_all endpoint_ok (sent (run (scenario_runtime tasks_reply) (snd (module_init start_world))
        [Invoke GetAllTasks, SetApiUrl (Some ''https://api.example.com''), Invoke (DeleteTask (JNum 5))]))"
proof -
  have "reachable (scenario_runtime tasks_reply) (snd (module_init start_world))"
    unfolding start_world_def by (rule reachable.start)
  then have r: "reachable (scenario_runtime tasks_reply)
     (run (scenario_runtime tasks_reply) (snd (module_init start_world))
        [Invoke GetAllTasks, SetApiUrl (Some ''https://api.example.com''), Invoke (DeleteTask (JNum 5))])"
    by (rule reachable_run)
  with reachable_requests_ok [OF r] show ?thesis by (simp add: list_all_iff)
qed

theorem debugConnection_reports_witness:
  "fst (debugConnection (scenario_runtime tasks_reply) start_world) = Inr
     (JObj [(''success'', JBool True),
            (''health'', JObj [(''healthy'', JBool True), (''0'', JObj [(''id'', JNum 1), (''title'', JStr ''a'')])]),
            (''tasksCount'', JNum 1)])"
proof -
  let ?H = "JObj [(''healthy'', JBool True), (''0'', JObj [(''id'', JNum 1), (''title'', JStr ''a'')])]"
  have ch: "fst (checkHealth (scenario_runtime tasks_reply) start_world) = Inr ?H"
    by (simp add: checkHealth_result Let_def scenario_defs resp_ok_def nat_to_str_small digit_char_def)
  have t: "fst (getAllTasks (scenario_runtime tasks_reply) start_world)
           = Inr (JArr [JObj [(''id'', JNum 1), (''title'', JStr ''a'')]])"
    by (simp add: getAllTasks_result checked_result_def json_result_def resp_ok_def scenario_defs
        is_html_content_type_def)
  from debugConnection_reports [OF ch] t show ?thesis by simp
qed

theorem error_text_log_empty_witness:
  "reachable (scenario_runtime empty_error_reply)
      (run (scenario_runtime empty_error_reply) (snd (module_init start_world)) [Invoke GetAllTasks])
   \<and> (Err, [lbl cross_mark ''Error response text:'', AVal (JStr [])])
      \<in> set (console (run (scenario_runtime empty_error_reply) (snd (module_init start_world)) [Invoke GetAllTasks]))
   \<and> ([] :: string) = []"
proof -
  let ?rt = "scenario_runtime empty_error_reply"
  let ?W = "run ?rt (snd (module_init start_world)) [Invoke GetAllTasks]"
  have "reachable ?rt (snd (module_init start_world))"
    unfolding start_world_def by (rule reachable.start)
  then have r: "reachable ?rt ?W" by (rule reachable_run)
  have m: "(Err, [lbl cross_mark ''Error response text:'', AVal (JStr [])]) \<in> set (console ?W)"
    by (simp add: run_def getAllTasks_run getAllTasks_response_run Let_def scenario_defs
        status_logs_def status_read_fails_def text_log_def js_substring_def resp_ok_def
        is_html_content_type_def module_init_world)
  show ?thesis by (rule conjI, rule r, rule conjI, rule m, rule error_text_log_empty [OF r m])
qed

theorem html_excerpt_bounded_witness:
  "reachable (scenario_runtime html_reply)
      (run (scenario_runtime html_reply) (snd (module_init start_world)) [Invoke GetAllTasks])
   \<and> (Err, [lbl cross_mark ''Received HTML instead of JSON. First 200 chars:'',
            AVal (JStr ''<html><body>Not Found</body></html>'')])
      \<in> set (console (run (scenario_runtime html_reply) (snd (module_init start_world)) [Invoke GetAllTasks]))
   \<and> length ''<html><body>Not Found</body></html>'' \<le> 200"
proof -
  let ?rt = "scenario_runtime html_reply"
  let ?W = "run ?rt (snd (module_init start_world)) [Invoke GetAllTasks]"
  have "reachable ?rt (snd (module_init start_world))"
    unfolding start_world_def by (rule reachable.start)
  then have r: "reachable ?rt ?W" by (rule reachable_run)
  have m: "(Err, [lbl cross_mark ''Received HTML instead of JSON. First 200 chars:'',
            AVal (JStr ''<html><body>Not Found</body></html>'')]) \<in> set (console ?W)"
    by (simp add: run_def getAllTasks_run getAllTasks_response_run Let_def scenario_defs
        html_log_def js_substring_prefix is_html_content_type_def)
  show ?thesis by (rule conjI, rule r, rule conjI, rule m, rule html_excerpt_bounded [OF r m])
qed

theorem rejection_logged_last_witness:
  "fst (getAllTasks (scenario_runtime html_reply) start_world) = Inl (Error html_message)
   \<and> (\<exists>ts. last (console (snd (getAllTasks (scenario_runtime html_reply) start_world))) =
       error_record ''getAllTasks'' [(''message'', JStr html_message),
         (''url'', JStr ''http://localhost:3000/api/tasks''), (''timestamp'', JStr ts)])"
proof -
  have h: "fst (getAllTasks (scenario_runtime html_reply) start_world) = Inl (Error html_message)"
    by (simp add: getAllTasks_result checked_result_def scenario_defs is_html_content_type_def)
  have "\<exists>ts. last (console (snd (getAllTasks (scenario_runtime html_reply) start_world))) =
       error_record ''getAllTasks'' [(''message'', JStr html_message),
         (''url'', JStr ''http://localhost:3000/api/tasks''), (''timestamp'', JStr ts)]"
    using conjunct1 [OF rejection_logged_last [of "scenario_runtime html_reply" start_world "Error html_message"]] h
    by (simp add: start_world_def base_url_def default_base_url_def)
  with h show ?thesis by blast
qed

theorem resolved_calls_log_no_errors_witness:
  "fst (getAllTasks (scenario_runtime tasks_reply) start_world) = Inr (JArr [JObj [(''id'', JNum 1), (''title'', JStr ''a'')]])
   \<and> list_all (\<lambda>x. fst x = Log) (console (snd (getAllTasks (scenario_runtime tasks_reply) start_world)))"
proof -
  have h: "fst (getAllTasks (scenario_runtime tasks_reply) start_world) = Inr (JArr [JObj [(''id'', JNum 1), (''title'', JStr ''a'')]])"
    by (simp add: getAllTasks_result checked_result_def json_result_def resp_ok_def scenario_defs
        is_html_content_type_def)
  have "list_all (\<lambda>x. fst x = Log) (drop (length (console start_world))
          (console (snd (getAllTasks (scenario_runtime tasks_reply) start_world))))"
    using conjunct1 [OF resolved_calls_log_no_errors [of "scenario_runtime tasks_reply" start_world]] h by blast
  with h show ?thesis by (simp add: start_world_def)
qed

theorem getAllTasks_success_log_witness:
  "console (snd (getAllTasks (scenario_runtime tasks_reply) start_world)) =
     [(Log, [lbl satellite ''Fetching tasks from:'', AVal (JStr ''http://localhost:3000/api/tasks'')]),
      (Log, [lbl satellite ''Response status:'', AVal (JNum 200)]),
      (Log, [lbl satellite ''Response Content-Type:'', AVal (JStr ''application/json'')]),
      (Log, [lbl check_mark ''Tasks data received:'', AVal (JArr [JObj [(''id'', JNum 1), (''title'', JStr ''a'')]])])]"
proof -
  have h: "fst (getAllTasks (scenario_runtime tasks_reply) start_world) = Inr (JArr [JObj [(''id'', JNum 1), (''title'', JStr ''a'')]])"
    by (simp add: getAllTasks_result checked_result_def json_result_def resp_ok_def scenario_defs
        is_html_content_type_def)
  from getAllTasks_success_log [OF h] show ?thesis
    by (auto simp: scenario_defs base_url_def default_base_url_def header_value_def)
qed

theorem startup_records_first_witness:
  "reachable (scenario_runtime tasks_reply)
     (run (scenario_runtime tasks_reply) (snd (module_init start_world)) [Invoke GetAllTasks, Invoke CheckHealth])
   \<and> (\<exists>e. take 2 (console (run (scenario_runtime tasks_reply) (snd (module_init start_world))
                        [Invoke GetAllTasks, Invoke CheckHealth]))
     = [(Log, [lbl wrench ''API_BASE_URL from env:'', AVal (JStr (base_url e))]),
        (Log, [lbl rocket ''TaskService initialized with base URL:'', AVal (fallback_label e)])])"
proof -
  let ?rt = "scenario_runtime tasks_reply"
  let ?W = "run ?rt (snd (module_init start_world)) [Invoke GetAllTasks, Invoke CheckHealth]"
  have "reachable ?rt (snd (module_init start_world))"
    unfolding start_world_def by (rule reachable.start)
  then have r: "reachable ?rt ?W" by (rule reachable_run)
  show ?thesis by (rule conjI, rule r, rule startup_records_first [OF r])
qed

theorem debugConnection_requests_witness:
  "sent (snd (debugConnection (scenario_runtime tasks_reply) start_world)) =
     [get_request ''http://localhost:3000/health'', get_request ''http://localhost:3000/api/tasks'']"
proof -
  let ?H = "JObj [(''healthy'', JBool True), (''0'', JObj [(''id'', JNum 1), (''title'', JStr ''a'')])]"
  have ch: "fst (checkHealth (scenario_runtime tasks_reply) start_world) = Inr ?H"
    by (simp add: checkHealth_result Let_def scenario_defs resp_ok_def nat_to_str_small digit_char_def)
  from debugConnection_requests [OF ch] show ?thesis
    by (simp add: start_world_def base_url_def default_base_url_def)
qed

theorem concurrent_requests_accounted_witness:
  "creachable (scenario_runtime tasks_reply) (settle (scenario_runtime tasks_reply) 0
      (issue (scenario_runtime tasks_reply) FGetAllTasks (issue (scenario_runtime tasks_reply) FCheckHealth (cinit None))))
   \<and> length (sent (cworld (settle (scenario_runtime tasks_reply) 0
      (issue (scenario_runtime tasks_reply) FGetAllTasks (issue (scenario_runtime tasks_reply) FCheckHealth (cinit None)))))) = 2"
proof -
  let ?rt = "scenario_runtime tasks_reply"
  let ?s = "settle ?rt 0 (issue ?rt FGetAllTasks (issue ?rt FCheckHealth (cinit None)))"
  have r: "creachable ?rt ?s" by (rule creachable_two_calls)
  from concurrent_requests_accounted [OF r] have "length (sent (cworld ?s)) = length (inflight ?s) + length (settled ?s)"
    by blast
  with r show ?thesis by (simp add: cinit_def)
qed

theorem settled_values_sequential_witness:
  "creachable (scenario_runtime tasks_reply) (settle (scenario_runtime tasks_reply) 0
      (issue (scenario_runtime tasks_reply) FGetAllTasks (issue (scenario_runtime tasks_reply) FCheckHealth (cinit None))))
   \<and> (\<exists>e. frame_value (scenario_runtime tasks_reply) FCheckHealth
            (call_frame (scenario_runtime tasks_reply) FCheckHealth ''http://localhost:3000'')
          = fst (checkHealth (scenario_runtime tasks_reply) \<lparr>vite_api_url = e, sent = [], console = []\<rparr>))"
proof -
  let ?rt = "scenario_runtime tasks_reply"
  let ?s = "settle ?rt 0 (issue ?rt FGetAllTasks (issue ?rt FCheckHealth (cinit None)))"
  let ?x = "frame_value ?rt FCheckHealth (call_frame ?rt FCheckHealth ''http://localhost:3000'')"
  have r: "creachable ?rt ?s" by (rule creachable_two_calls)
  have "(FCheckHealth, ?x) \<in> set (settled ?s)"
    by (simp add: cinit_def module_init_world base_url_def default_base_url_def)
  from settled_values_sequential [OF r this] r show ?thesis by simp
qed

end
